theory Spec2Isabelle
  imports Complex_Main
begin

section \<open>Python values, exceptions and the machine state\<close>

text \<open>
  The session data is a Python dict whose values are numbers, booleans, strings and
  (nested) lists; floats are idealised as reals.  An exception that leaves a method is
  kept in the \<open>status\<close> component of the state (as the abrupt-completion component of
  a Java state), so that the state reached at the moment of the raise, with everything
  done before it, stays observable.  \<open>Starved\<close> stands for a loop that is still
  running when its fuel is used up.
\<close>

datatype pyval =
    PInt int
  | PFloat real
  | PBool bool
  | PStr string
  | PList "pyval list"
  | PNone

datatype error =
    KeyError string
  | TypeError
  | ValueError
  | IndexError
  | AttributeError
  | ZeroDivisionError
  | RuntimeError
  | KeyboardInterrupt

datatype status = Normal | Raised error | Starved

text \<open>The bound methods that the session hands to the backend as callbacks.\<close>

datatype callback =
    ResetItiCallback
  | IncreaseSpontReachesCallback
  | ReverseShapingCallback
  | RewardCallback
  | IncorrectGraspCallback
  | RecordLiftTimepoints

datatype edge = Rising | Falling

datatype pin_dir = GPIO_IN | GPIO_OUT

text \<open>What the process does on SIGINT: \<open>signal.signal\<close> is called twice.\<close>

datatype handler = DefaultHandler | CleanupHandler | EndSessionManually

text \<open>
  What the outside world does while the main thread is blocked: a sensor line changes
  level (\<open>Edge pin new_level\<close>) or the operator presses Control-C.
\<close>

datatype event = Edge nat bool | Sigint

text \<open>
  The observable actions of a run, in order: the backend and session methods entered,
  the lines printed, and the sleeps of the main thread and of the callback thread.
\<close>

datatype call =
    Init
  | WaitToStart
  | MonitorSensors
  | SetButtonCallback
  | WaitForRest
  | DisableSensors
  | StartTrial int
  | SuccessfulGrasp int
  | IncorrectGrasp int
  | DispenseWater int
  | EndTrial
  | Cleanup
  | CollateData bool
  | DisplayTrainingResults

datatype message =
    ResetsKeyFound
  | TrainingSettings
  | StartingTrial int
  | CountingDown real
  | SuccessfulReach
  | IncorrectReach
  | MissedReach
  | TotalRewards int
  | Exiting
  | TrainingResults int int int

datatype action = Call call | Say message | Sleep real | CallbackSleep real

record spout =
  cue :: nat
  touch :: nat
  solenoid :: nat
  cue_timepoints :: "real list"
  touch_timepoints :: "real list"

record rpi =
  button_pins :: "nat list"
  paw_pins :: "nat list"
  spouts :: "spout list"
  lift_timepoints :: "real list list"

text \<open>
  The state: the attributes of the \<open>Session\<close> object, the local variables of its
  methods \<open>run\<close>, \<open>_inter_trial_interval\<close>, \<open>_trial\<close> and \<open>_collate_data\<close>, the state
  of the GPIO library, the installed SIGINT handler, the environment (successive
  readings of the clock, successive raw random draws, the events that arrive during the
  successive blocking calls of the main thread, the local time formatting), the trace
  and the status.
\<close>

record state =
  data :: "string \<rightharpoonup> pyval"
  outcome :: int
  iti_broken :: bool
  current_spout :: "int option"
  water_at_cue_onset :: pyval
  reward_count :: int
  spont_reach_spouts :: "int list"
  rpi :: "rpi option"
  run_now :: real
  trial_count :: int
  iti_now :: real
  iti_duration :: real
  trial_end :: real
  trial_now :: real
  cue_end :: real
  collated :: "pyval list list"
  gpio_mode :: bool
  gpio_direction :: "nat \<rightharpoonup> pin_dir"
  gpio_level :: "nat \<Rightarrow> bool"
  gpio_detect :: "nat \<rightharpoonup> edge \<times> callback"
  sigint_handler :: handler
  clock :: "nat \<Rightarrow> real"
  reads :: nat
  draws :: "nat \<Rightarrow> nat"
  drawn :: nat
  async :: "event list list"
  strftime_hms :: "real \<Rightarrow> string"
  today :: string
  trace :: "action list"
  status :: status

type_synonym stmt = "state \<Rightarrow> state"

subsection \<open>Statements\<close>

definition raise :: "error \<Rightarrow> stmt" where
  "raise e s = s\<lparr>status := Raised e\<rparr>"

definition starve :: stmt where
  "starve s = s\<lparr>status := Starved\<rparr>"

definition emit :: "action \<Rightarrow> stmt" where
  "emit a s = s\<lparr>trace := trace s @ [a]\<rparr>"

text \<open>A sequence of statements: the next one runs only while nothing was raised.\<close>

fun block :: "stmt list \<Rightarrow> stmt" where
  "block [] s = s"
| "block (f # fs) s = (if status s = Normal then block fs (f s) else s)"

definition skip :: stmt where
  "skip s = s"

definition cond :: "(state \<Rightarrow> bool) \<Rightarrow> stmt \<Rightarrow> stmt \<Rightarrow> stmt" where
  "cond c f g s = (if c s then f s else g s)"

text \<open>Reading an attribute or a local variable, then going on with its value.\<close>

definition reading :: "(state \<Rightarrow> 'a) \<Rightarrow> ('a \<Rightarrow> stmt) \<Rightarrow> stmt" where
  "reading g k s = k (g s) s"

definition foreach :: "'a list \<Rightarrow> ('a \<Rightarrow> stmt) \<Rightarrow> stmt" where
  "foreach xs f = block (map f xs)"

definition time_time :: "(real \<Rightarrow> stmt) \<Rightarrow> stmt" where
  "time_time k s = k (clock s (reads s)) (s\<lparr>reads := Suc (reads s)\<rparr>)"

subsection \<open>Python's dynamic typing\<close>

fun num_of :: "pyval \<Rightarrow> real option" where
  "num_of (PInt i) = Some (of_int i)"
| "num_of (PFloat r) = Some r"
| "num_of (PBool b) = Some (if b then 1 else 0)"
| "num_of _ = None"

fun int_of :: "pyval \<Rightarrow> int option" where
  "int_of (PInt i) = Some i"
| "int_of (PBool b) = Some (if b then 1 else 0)"
| "int_of _ = None"

fun truthy :: "pyval \<Rightarrow> bool" where
  "truthy (PInt i) = (i \<noteq> 0)"
| "truthy (PFloat r) = (r \<noteq> 0)"
| "truthy (PBool b) = b"
| "truthy (PStr s) = (s \<noteq> [])"
| "truthy (PList l) = (l \<noteq> [])"
| "truthy PNone = False"

fun items_of :: "pyval \<Rightarrow> pyval list option" where
  "items_of (PList l) = Some l"
| "items_of (PStr s) = Some (map (\<lambda>c. PStr [c]) s)"
| "items_of _ = None"

definition lookup :: "string \<Rightarrow> (pyval \<Rightarrow> stmt) \<Rightarrow> stmt" where
  "lookup key k s = (case data s key of None \<Rightarrow> raise (KeyError key) s | Some v \<Rightarrow> k v s)"

definition store :: "string \<Rightarrow> pyval \<Rightarrow> stmt" where
  "store key v s = s\<lparr>data := (data s)(key \<mapsto> v)\<rparr>"

definition as_num :: "pyval \<Rightarrow> (real \<Rightarrow> stmt) \<Rightarrow> stmt" where
  "as_num v k s = (case num_of v of None \<Rightarrow> raise TypeError s | Some r \<Rightarrow> k r s)"

definition as_int :: "pyval \<Rightarrow> (int \<Rightarrow> stmt) \<Rightarrow> stmt" where
  "as_int v k s = (case int_of v of None \<Rightarrow> raise TypeError s | Some i \<Rightarrow> k i s)"

definition as_items :: "pyval \<Rightarrow> (pyval list \<Rightarrow> stmt) \<Rightarrow> stmt" where
  "as_items v k s = (case items_of v of None \<Rightarrow> raise TypeError s | Some l \<Rightarrow> k l s)"

text \<open>\<open>xs[i]\<close>: a negative index counts from the end, an index out of range raises.\<close>

definition norm_index :: "nat \<Rightarrow> int \<Rightarrow> int" where
  "norm_index n i = (if i < 0 then int n + i else i)"

definition py_index :: "'a list \<Rightarrow> int \<Rightarrow> (nat \<Rightarrow> stmt) \<Rightarrow> stmt" where
  "py_index xs i k s =
     (if 0 \<le> norm_index (length xs) i \<and> norm_index (length xs) i < int (length xs)
      then k (nat (norm_index (length xs) i)) s
      else raise IndexError s)"

text \<open>\<open>xs[:n]\<close>: \<open>None\<close> keeps everything, a negative bound counts from the end.\<close>

definition py_slice_to :: "'a list \<Rightarrow> pyval \<Rightarrow> ('a list \<Rightarrow> stmt) \<Rightarrow> stmt" where
  "py_slice_to xs n k s =
     (case n of
        PNone \<Rightarrow> k xs s
      | _ \<Rightarrow> (case int_of n of
                None \<Rightarrow> raise TypeError s
              | Some i \<Rightarrow> k (take (nat (if i < 0 then int (length xs) + i else i)) xs) s))"

text \<open>\<open>xs.index(x)\<close> raises when \<open>x\<close> is absent.\<close>

fun index_of :: "'a list \<Rightarrow> 'a \<Rightarrow> nat option" where
  "index_of [] x = None"
| "index_of (y # ys) x = (if y = x then Some 0 else map_option Suc (index_of ys x))"

definition list_index :: "'a list \<Rightarrow> 'a \<Rightarrow> (nat \<Rightarrow> stmt) \<Rightarrow> stmt" where
  "list_index xs x k s = (case index_of xs x of None \<Rightarrow> raise ValueError s | Some i \<Rightarrow> k i s)"

definition with_rpi :: "(rpi \<Rightarrow> stmt) \<Rightarrow> stmt" where
  "with_rpi k s = (case rpi s of None \<Rightarrow> raise AttributeError s | Some r \<Rightarrow> k r s)"

definition update_rpi :: "(rpi \<Rightarrow> rpi) \<Rightarrow> stmt" where
  "update_rpi f = with_rpi (\<lambda>r s. s\<lparr>rpi := Some (f r)\<rparr>)"

definition update_spout :: "nat \<Rightarrow> (spout \<Rightarrow> spout) \<Rightarrow> stmt" where
  "update_spout i f = update_rpi (\<lambda>r. r\<lparr>spouts := (spouts r)[i := f (spouts r ! i)]\<rparr>)"

section \<open>The GPIO library\<close>

text \<open>
  \<open>RPi.GPIO\<close> is an external library.  Its calls are modelled by their documented
  contract: a channel is used only after \<open>setmode\<close> and \<open>setup\<close>, an input channel
  carries at most one edge detection, and \<open>cleanup\<close> releases every channel (back to
  an undriven input), removes every edge detection and forgets the numbering mode, so
  that a later call on a channel raises \<open>RuntimeError\<close>.
\<close>

definition gpio_setmode :: stmt where
  "gpio_setmode s = s\<lparr>gpio_mode := True\<rparr>"

definition gpio_setup :: "nat \<Rightarrow> pin_dir \<Rightarrow> bool \<Rightarrow> stmt" where
  "gpio_setup p d v s =
     (if gpio_mode s
      then s\<lparr>gpio_direction := (gpio_direction s)(p \<mapsto> d), gpio_level := (gpio_level s)(p := v)\<rparr>
      else raise RuntimeError s)"

definition gpio_output :: "nat \<Rightarrow> bool \<Rightarrow> stmt" where
  "gpio_output p v s =
     (if gpio_mode s \<and> gpio_direction s p = Some GPIO_OUT
      then s\<lparr>gpio_level := (gpio_level s)(p := v)\<rparr>
      else raise RuntimeError s)"

definition gpio_input :: "nat \<Rightarrow> (bool \<Rightarrow> stmt) \<Rightarrow> stmt" where
  "gpio_input p k s =
     (if gpio_mode s \<and> gpio_direction s p \<noteq> None
      then k (gpio_level s p) s
      else raise RuntimeError s)"

definition gpio_add_event_detect :: "nat \<Rightarrow> edge \<Rightarrow> callback \<Rightarrow> stmt" where
  "gpio_add_event_detect p e cb s =
     (if gpio_mode s \<and> gpio_direction s p = Some GPIO_IN \<and> gpio_detect s p = None
      then s\<lparr>gpio_detect := (gpio_detect s)(p \<mapsto> (e, cb))\<rparr>
      else raise RuntimeError s)"

definition gpio_remove_event_detect :: "nat \<Rightarrow> stmt" where
  "gpio_remove_event_detect p s =
     (if gpio_mode s
      then s\<lparr>gpio_detect := (gpio_detect s)(p := None)\<rparr>
      else raise RuntimeError s)"

definition gpio_cleanup :: stmt where
  "gpio_cleanup s =
     s\<lparr>gpio_level := (\<lambda>p. if gpio_direction s p = Some GPIO_OUT then False else gpio_level s p),
       gpio_direction := Map.empty,
       gpio_detect := Map.empty,
       gpio_mode := False\<rparr>"

section \<open>The physical backend, \<open>RPiReal\<close>\<close>

definition PIN_NUMBERS_buttons :: "nat list" where
  "PIN_NUMBERS_buttons = [4, 13]"

definition PIN_NUMBERS_paw_sensors :: "nat list" where
  "PIN_NUMBERS_paw_sensors = [17, 18]"

definition PIN_NUMBERS_spouts :: "spout list" where
  "PIN_NUMBERS_spouts =
     [\<lparr>cue = 5, touch = 27, solenoid = 25, cue_timepoints = [], touch_timepoints = []\<rparr>,
      \<lparr>cue = 22, touch = 23, solenoid = 24, cue_timepoints = [], touch_timepoints = []\<rparr>]"

definition initialise_pins :: stmt where
  "initialise_pins =
     block [
       gpio_setmode,
       with_rpi (\<lambda>r. foreach (button_pins r) (\<lambda>p. gpio_setup p GPIO_IN True)),
       with_rpi (\<lambda>r. foreach (paw_pins r) (\<lambda>p. gpio_setup p GPIO_IN False)),
       with_rpi (\<lambda>r. foreach (zip [0 ..< length (spouts r)] (spouts r)) (\<lambda>(i, spout).
         block [
           gpio_setup (cue spout) GPIO_OUT False,
           gpio_setup (touch spout) GPIO_IN False,
           gpio_setup (solenoid spout) GPIO_OUT False,
           update_spout i (\<lambda>sp. sp\<lparr>cue_timepoints := []\<rparr>),
           update_spout i (\<lambda>sp. sp\<lparr>touch_timepoints := []\<rparr>)]))]"

text \<open>
  \<open>RPiReal.__init__\<close>.  The object becomes the session's \<open>_rpi\<close> as soon as its pin
  tables are set; the only step that can raise (the slice) comes before.
\<close>

definition rpi_init :: "pyval \<Rightarrow> stmt" where
  "rpi_init spout_count =
     block [
       emit (Call Init),
       py_slice_to PIN_NUMBERS_spouts spout_count (\<lambda>sp s.
         s\<lparr>rpi := Some \<lparr>button_pins = PIN_NUMBERS_buttons,
                         paw_pins = PIN_NUMBERS_paw_sensors,
                         spouts = sp, lift_timepoints = []\<rparr>\<rparr>),
       initialise_pins,
       update_rpi (\<lambda>r. r\<lparr>lift_timepoints := [[], []]\<rparr>),
       (\<lambda>s. s\<lparr>sigint_handler := CleanupHandler\<rparr>)]"

definition monitor_sensors :: "callback \<Rightarrow> callback \<Rightarrow> stmt" where
  "monitor_sensors reset_iti increase_spont_reaches =
     block [
       emit (Call MonitorSensors),
       with_rpi (\<lambda>r. foreach (paw_pins r) (\<lambda>paw.
         gpio_add_event_detect paw Falling reset_iti)),
       with_rpi (\<lambda>r. foreach (spouts r) (\<lambda>spout.
         gpio_add_event_detect (touch spout) Rising increase_spont_reaches))]"

definition set_button_callback :: "int \<Rightarrow> callback \<Rightarrow> stmt" where
  "set_button_callback button func =
     block [
       emit (Call SetButtonCallback),
       with_rpi (\<lambda>r. py_index (button_pins r) button (\<lambda>i.
         gpio_remove_event_detect (button_pins r ! i))),
       with_rpi (\<lambda>r. py_index (button_pins r) button (\<lambda>i.
         gpio_add_event_detect (button_pins r ! i) Falling func))]"

definition disable_sensors :: stmt where
  "disable_sensors =
     block [
       emit (Call DisableSensors),
       with_rpi (\<lambda>r. foreach (paw_pins r) gpio_remove_event_detect),
       with_rpi (\<lambda>r. foreach (spouts r) (\<lambda>spout. gpio_remove_event_detect (touch spout)))]"

definition start_trial :: "int \<Rightarrow> callback \<Rightarrow> callback \<Rightarrow> stmt" where
  "start_trial spout_number reward_func incorrect_func =
     block [
       emit (Call (StartTrial spout_number)),
       with_rpi (\<lambda>r. py_index (spouts r) spout_number (\<lambda>i.
         time_time (\<lambda>t. update_spout i (\<lambda>sp. sp\<lparr>cue_timepoints := cue_timepoints sp @ [t]\<rparr>)))),
       with_rpi (\<lambda>r. py_index (spouts r) spout_number (\<lambda>i.
         gpio_output (cue (spouts r ! i)) True)),
       with_rpi (\<lambda>r. foreach (paw_pins r) (\<lambda>paw_pin.
         gpio_add_event_detect paw_pin Falling RecordLiftTimepoints)),
       with_rpi (\<lambda>r. py_index (spouts r) spout_number (\<lambda>i.
         gpio_add_event_detect (touch (spouts r ! i)) Rising reward_func)),
       with_rpi (\<lambda>r.
         if length (spouts r) > 1
         then py_index (spouts r) (1 - spout_number) (\<lambda>i.
                gpio_add_event_detect (touch (spouts r ! i)) Rising incorrect_func)
         else skip)]"

definition record_lift_timepoints :: "nat \<Rightarrow> stmt" where
  "record_lift_timepoints pin =
     with_rpi (\<lambda>r. list_index (paw_pins r) pin (\<lambda>i.
       py_index (lift_timepoints r) (int i) (\<lambda>j.
         time_time (\<lambda>t. update_rpi (\<lambda>r. r\<lparr>lift_timepoints :=
           (lift_timepoints r)[j := lift_timepoints r ! j @ [t]]\<rparr>)))))"

definition successful_grasp :: "int \<Rightarrow> stmt" where
  "successful_grasp spout_number =
     block [
       emit (Call (SuccessfulGrasp spout_number)),
       with_rpi (\<lambda>r. py_index (spouts r) spout_number (\<lambda>i.
         gpio_output (cue (spouts r ! i)) False)),
       with_rpi (\<lambda>r. py_index (spouts r) spout_number (\<lambda>i.
         time_time (\<lambda>t. update_spout i (\<lambda>sp. sp\<lparr>touch_timepoints := touch_timepoints sp @ [t]\<rparr>))))]"

definition incorrect_grasp :: "int \<Rightarrow> stmt" where
  "incorrect_grasp spout_number =
     block [
       emit (Call (IncorrectGrasp spout_number)),
       with_rpi (\<lambda>r. py_index (spouts r) spout_number (\<lambda>i.
         gpio_output (cue (spouts r ! i)) False)),
       with_rpi (\<lambda>r. py_index (spouts r) (1 - spout_number) (\<lambda>i.
         time_time (\<lambda>t. update_spout i (\<lambda>sp. sp\<lparr>touch_timepoints := touch_timepoints sp @ [t]\<rparr>))))]"

text \<open>
  \<open>dispense_water\<close> sleeps in the thread that calls it: the main thread at cue onset,
  the callback thread after a grasp.  The sleep is a parameter for that reason.
\<close>

definition dispense_water_with :: "(real \<Rightarrow> stmt) \<Rightarrow> int \<Rightarrow> pyval \<Rightarrow> stmt" where
  "dispense_water_with time_sleep spout_number duration_ms =
     block [
       emit (Call (DispenseWater spout_number)),
       with_rpi (\<lambda>r. py_index (spouts r) spout_number (\<lambda>i.
         gpio_output (solenoid (spouts r ! i)) True)),
       as_num duration_ms (\<lambda>d. time_sleep (d / 1000)),
       with_rpi (\<lambda>r. py_index (spouts r) spout_number (\<lambda>i.
         gpio_output (solenoid (spouts r ! i)) False))]"

definition end_trial :: stmt where
  "end_trial =
     block [
       emit (Call EndTrial),
       disable_sensors,
       with_rpi (\<lambda>r. foreach (spouts r) (\<lambda>spout. gpio_output (cue spout) False))]"

definition cleanup :: stmt where
  "cleanup =
     block [
       emit (Call Cleanup),
       with_rpi (\<lambda>r. foreach (spouts r) (\<lambda>spout. gpio_output (solenoid spout) False)),
       gpio_cleanup]"

section \<open>The session\<close>

subsection \<open>Callbacks\<close>

text \<open>
  A callback runs in the callback thread of the GPIO library; its sleep lets no event
  in (the library runs one callback at a time) and is kept apart in the trace.
\<close>

definition callback_sleep :: "real \<Rightarrow> stmt" where
  "callback_sleep d s = (if d < 0 then raise ValueError s else emit (CallbackSleep d) s)"

definition with_current_spout :: "(int \<Rightarrow> stmt) \<Rightarrow> stmt" where
  "with_current_spout k s =
     (case current_spout s of None \<Rightarrow> raise TypeError s | Some c \<Rightarrow> k c s)"

definition reset_iti_callback :: "nat \<Rightarrow> stmt" where
  "reset_iti_callback pin =
     block [
       (\<lambda>s. s\<lparr>iti_broken := True\<rparr>),
       lookup ''resets_timepoints'' (\<lambda>v. with_rpi (\<lambda>r. list_index (paw_pins r) pin (\<lambda>i.
         (case v of
            PList l \<Rightarrow> py_index l (int i) (\<lambda>j.
              (case l ! j of
                 PList paw \<Rightarrow> time_time (\<lambda>t.
                   store ''resets_timepoints'' (PList (l[j := PList (paw @ [PFloat t])])))
               | _ \<Rightarrow> raise AttributeError))
          | PStr str \<Rightarrow> py_index str (int i) (\<lambda>j. raise AttributeError)
          | _ \<Rightarrow> raise TypeError))))]"

definition increase_spont_reaches_callback :: "nat \<Rightarrow> stmt" where
  "increase_spont_reaches_callback pin =
     block [
       (\<lambda>s. s\<lparr>spont_reach_spouts := spont_reach_spouts s @ [int pin]\<rparr>),
       lookup ''spont_reach_timepoints'' (\<lambda>v.
         (case v of
            PList l \<Rightarrow> time_time (\<lambda>t. store ''spont_reach_timepoints'' (PList (l @ [PFloat t])))
          | _ \<Rightarrow> raise AttributeError))]"

definition reverse_shaping_callback :: "nat \<Rightarrow> stmt" where
  "reverse_shaping_callback pin s =
     s\<lparr>water_at_cue_onset := PBool (\<not> truthy (water_at_cue_onset s))\<rparr>"

definition reward_callback :: "nat \<Rightarrow> stmt" where
  "reward_callback pin =
     block [
       with_current_spout successful_grasp,
       (\<lambda>s. s\<lparr>outcome := 1\<rparr>),
       cond (\<lambda>s. \<not> truthy (water_at_cue_onset s))
         (with_current_spout (\<lambda>c. lookup ''reward_duration_ms'' (\<lambda>d.
            dispense_water_with callback_sleep c d)))
         skip]"

definition incorrect_grasp_callback :: "nat \<Rightarrow> stmt" where
  "incorrect_grasp_callback pin =
     block [
       with_current_spout incorrect_grasp,
       (\<lambda>s. s\<lparr>outcome := 2\<rparr>)]"

definition run_callback :: "callback \<Rightarrow> nat \<Rightarrow> stmt" where
  "run_callback cb pin =
     (case cb of
        ResetItiCallback \<Rightarrow> reset_iti_callback pin
      | IncreaseSpontReachesCallback \<Rightarrow> increase_spont_reaches_callback pin
      | ReverseShapingCallback \<Rightarrow> reverse_shaping_callback pin
      | RewardCallback \<Rightarrow> reward_callback pin
      | IncorrectGraspCallback \<Rightarrow> incorrect_grasp_callback pin
      | RecordLiftTimepoints \<Rightarrow> record_lift_timepoints pin)"

subsection \<open>The end of the session\<close>

definition append_item :: "string \<Rightarrow> pyval \<Rightarrow> stmt" where
  "append_item key x =
     lookup key (\<lambda>v.
       (case v of PList l \<Rightarrow> store key (PList (l @ [x])) | _ \<Rightarrow> raise AttributeError))"

definition floats :: "real list \<Rightarrow> pyval" where
  "floats ts = PList (map PFloat ts)"

text \<open>
  The body of the loop of \<open>_collate_data\<close> over \<open>enumerate(self._rpi.spouts)\<close>; the
  local \<open>spont_reach_timepoints\<close> is the component \<open>collated\<close>.
\<close>

definition collate_spout :: "nat \<Rightarrow> spout \<Rightarrow> stmt" where
  "collate_spout idx spout =
     block [
       (\<lambda>s. s\<lparr>spont_reach_spouts :=
          map (\<lambda>x. if x = int (touch spout) then int idx else x) (spont_reach_spouts s)\<rparr>),
       reading collated (\<lambda>acc. py_index acc (int idx) (\<lambda>j.
         lookup ''spont_reach_timepoints'' (\<lambda>v. as_items v (\<lambda>tps s.
           s\<lparr>collated := (collated s)[j := collated s ! j @
              map snd (filter (\<lambda>ab. idx \<noteq> 0) (zip (spont_reach_spouts s) tps))]\<rparr>)))),
       append_item ''cue_timepoints'' (floats (cue_timepoints spout)),
       append_item ''touch_timepoints'' (floats (touch_timepoints spout))]"

text \<open>\<open>time.strftime('%H:%M:%S', time.localtime(t))\<close>; \<open>localtime(None)\<close> is now.\<close>

definition format_time :: "pyval \<Rightarrow> (pyval \<Rightarrow> stmt) \<Rightarrow> stmt" where
  "format_time v k =
     (case v of
        PNone \<Rightarrow> time_time (\<lambda>t. reading strftime_hms (\<lambda>fmt. k (PStr (fmt t))))
      | _ \<Rightarrow> as_num v (\<lambda>t. reading strftime_hms (\<lambda>fmt. k (PStr (fmt t)))))"

definition collate_data :: "bool \<Rightarrow> stmt" where
  "collate_data manual =
     block [
       emit (Call (CollateData manual)),
       (if manual
        then block [
               time_time (\<lambda>t. store ''end_time'' (PFloat t)),
               lookup ''end_time'' (\<lambda>e. lookup ''start_time'' (\<lambda>b.
                 as_num e (\<lambda>e'. as_num b (\<lambda>b'. store ''duration'' (PFloat (e' - b'))))))]
        else skip),
       store ''cue_timepoints'' (PList []),
       store ''touch_timepoints'' (PList []),
       (\<lambda>s. s\<lparr>collated := [[], []]\<rparr>),
       with_rpi (\<lambda>r. foreach (zip [0 ..< length (spouts r)] (spouts r)) (\<lambda>(idx, spout).
         collate_spout idx spout)),
       reading collated (\<lambda>acc. store ''spont_reach_timepoints'' (PList (map PList acc))),
       with_rpi (\<lambda>r. store ''cued_lift_timepoints'' (PList (map floats (lift_timepoints r)))),
       reading today (\<lambda>date. store ''date'' (PStr date)),
       lookup ''start_time'' (\<lambda>v. format_time v (store ''start_time'')),
       lookup ''end_time'' (\<lambda>v. format_time v (store ''end_time''))]"

definition py_len :: "pyval \<Rightarrow> (int \<Rightarrow> stmt) \<Rightarrow> stmt" where
  "py_len v k = as_items v (\<lambda>l. k (int (length l)))"

definition py_getitem :: "pyval \<Rightarrow> int \<Rightarrow> (pyval \<Rightarrow> stmt) \<Rightarrow> stmt" where
  "py_getitem v i k = as_items v (\<lambda>l. py_index l i (\<lambda>j. k (l ! j)))"

text \<open>
  \<open>_display_training_results\<close>: the summary printed is the triple of the trial count,
  the reward count and the miss count.
\<close>

definition display_training_results :: stmt where
  "display_training_results =
     block [
       emit (Call DisplayTrainingResults),
       lookup ''cue_timepoints'' (\<lambda>v. py_len v (\<lambda>n.
         if n = 0 then raise ZeroDivisionError
         else lookup ''resets_timepoints'' (\<lambda>rs. py_getitem rs 0 (\<lambda>r0. py_len r0 (\<lambda>n0.
                lookup ''resets_timepoints'' (\<lambda>rs'. py_getitem rs' 1 (\<lambda>r1. py_len r1 (\<lambda>n1.
                  reading reward_count (\<lambda>rc.
                    emit (Say (TrainingResults n rc (n - rc))))))))))))]"

definition end_session :: "bool \<Rightarrow> stmt" where
  "end_session manual = block [cleanup, collate_data manual, display_training_results]"

definition end_session_manually :: stmt where
  "end_session_manually = block [emit (Say Exiting), end_session True]"

subsection \<open>Events and the sleeps of the main thread\<close>

text \<open>
  An exception raised in a callback stays in the callback thread (the library prints
  and drops it); an exception raised in the SIGINT handler reaches the main thread.
\<close>

definition absorb :: stmt where
  "absorb s = (case status s of Raised e \<Rightarrow> s\<lparr>status := Normal\<rparr> | _ \<Rightarrow> s)"

definition swallow :: "stmt \<Rightarrow> stmt" where
  "swallow f s = (if status s = Normal then absorb (f s) else s)"

definition edge_detected :: "nat \<Rightarrow> bool \<Rightarrow> stmt" where
  "edge_detected pin v s =
     (case gpio_detect s pin of
        None \<Rightarrow> s
      | Some (e, cb) \<Rightarrow> if (e = Rising) = v then swallow (run_callback cb pin) s else s)"

definition dispatch :: "event \<Rightarrow> stmt" where
  "dispatch ev s =
     (case ev of
        Edge pin v \<Rightarrow>
          if gpio_direction s pin = Some GPIO_OUT then s
          else edge_detected pin v (s\<lparr>gpio_level := (gpio_level s)(pin := v)\<rparr>)
      | Sigint \<Rightarrow>
          (case sigint_handler s of
             DefaultHandler \<Rightarrow> raise KeyboardInterrupt s
           | CleanupHandler \<Rightarrow> cleanup s
           | EndSessionManually \<Rightarrow> end_session_manually s))"

definition deliver :: "event list \<Rightarrow> stmt" where
  "deliver evs = block (map dispatch evs)"

definition receive :: stmt where
  "receive s = (case async s of [] \<Rightarrow> s | evs # rest \<Rightarrow> deliver evs (s\<lparr>async := rest\<rparr>))"

definition sleep :: "real \<Rightarrow> stmt" where
  "sleep d s = (if d < 0 then raise ValueError s else block [emit (Sleep d), receive] s)"

subsection \<open>The blocking calls of the backend\<close>

text \<open>
  \<open>wait_to_start\<close> blocks until the start button is pressed; the schedule of events of
  the model begins at that moment.
\<close>

definition wait_to_start :: stmt where
  "wait_to_start =
     block [
       emit (Call WaitToStart),
       with_rpi (\<lambda>r. py_index (button_pins r) 0 (\<lambda>i.
         cond (\<lambda>s. gpio_mode s \<and> gpio_direction s (button_pins r ! i) = Some GPIO_IN)
           skip (raise RuntimeError)))]"

definition paws_held :: "(bool \<Rightarrow> stmt) \<Rightarrow> stmt" where
  "paws_held k =
     with_rpi (\<lambda>r. py_index (paw_pins r) 0 (\<lambda>i. gpio_input (paw_pins r ! i) (\<lambda>left.
       py_index (paw_pins r) 1 (\<lambda>j. gpio_input (paw_pins r ! j) (\<lambda>right.
         k (left \<and> right))))))"

fun wait_for_rest_loop :: "nat \<Rightarrow> stmt" where
  "wait_for_rest_loop 0 s = paws_held (\<lambda>held. if \<not> held then starve else skip) s"
| "wait_for_rest_loop (Suc n) s =
     paws_held (\<lambda>held. if \<not> held then block [sleep (10 / 1000), wait_for_rest_loop n] else skip) s"

definition wait_for_rest :: "nat \<Rightarrow> stmt" where
  "wait_for_rest fuel = block [emit (Call WaitForRest), wait_for_rest_loop fuel]"

definition dispense_water :: "int \<Rightarrow> pyval \<Rightarrow> stmt" where
  "dispense_water = dispense_water_with sleep"

subsection \<open>Random draws\<close>

definition draw :: "(nat \<Rightarrow> stmt) \<Rightarrow> stmt" where
  "draw k s = k (draws s (drawn s)) (s\<lparr>drawn := Suc (drawn s)\<rparr>)"

text \<open>\<open>random.random()\<close> is a 53-bit integer over \<open>2 ^ 53\<close>.\<close>

definition random_unit :: "nat \<Rightarrow> real" where
  "random_unit n = real (n mod 2 ^ 53) / 2 ^ 53"

definition uniform :: "real \<Rightarrow> real \<Rightarrow> nat \<Rightarrow> real" where
  "uniform a b n = a + (b - a) * random_unit n"

text \<open>\<open>random.uniform(*v)\<close>\<close>

definition random_uniform :: "pyval \<Rightarrow> (real \<Rightarrow> stmt) \<Rightarrow> stmt" where
  "random_uniform v k =
     as_items v (\<lambda>l.
       (case l of
          [a, b] \<Rightarrow> as_num a (\<lambda>a'. as_num b (\<lambda>b'. draw (\<lambda>n. k (uniform a' b' n))))
        | _ \<Rightarrow> raise TypeError))"

definition random_randint :: "int \<Rightarrow> int \<Rightarrow> (int \<Rightarrow> stmt) \<Rightarrow> stmt" where
  "random_randint a b k =
     (if b < a then raise ValueError
      else draw (\<lambda>n. k (a + int n mod (b - a + 1))))"

subsection \<open>The inter-trial interval\<close>

fun countdown :: "nat \<Rightarrow> stmt" where
  "countdown 0 s =
     (if iti_now s < trial_end s \<and> \<not> iti_broken s then starve s else s)"
| "countdown (Suc n) s =
     (if iti_now s < trial_end s \<and> \<not> iti_broken s
      then block [
             sleep (20 / 1000),
             time_time (\<lambda>t s. s\<lparr>iti_now := t\<rparr>),
             countdown n] s
      else s)"

text \<open>One pass of the \<open>while True\<close> loop, up to the start of the countdown.\<close>

definition iti_prepare :: "nat \<Rightarrow> stmt" where
  "iti_prepare fuel =
     block [
       wait_for_rest fuel,
       (\<lambda>s. s\<lparr>iti_broken := False\<rparr>),
       time_time (\<lambda>t s. s\<lparr>iti_now := t\<rparr>),
       lookup ''iti'' (\<lambda>v. random_uniform v (\<lambda>u s. s\<lparr>iti_duration := u / 1000\<rparr>)),
       (\<lambda>s. s\<lparr>trial_end := iti_now s + iti_duration s\<rparr>),
       reading iti_duration (\<lambda>d. emit (Say (CountingDown d)))]"

fun iti_loop :: "nat \<Rightarrow> nat \<Rightarrow> stmt" where
  "iti_loop fuel 0 s = starve s"
| "iti_loop fuel (Suc n) s =
     block [
       iti_prepare fuel,
       countdown fuel,
       cond iti_broken (iti_loop fuel n) skip] s"

definition inter_trial_interval :: "nat \<Rightarrow> stmt" where
  "inter_trial_interval fuel =
     block [
       monitor_sensors ResetItiCallback IncreaseSpontReachesCallback,
       set_button_callback 0 ReverseShapingCallback,
       lookup ''shaping'' (\<lambda>v s. s\<lparr>water_at_cue_onset := v\<rparr>),
       iti_loop fuel fuel,
       disable_sensors]"

subsection \<open>The trial\<close>

fun trial_wait :: "nat \<Rightarrow> stmt" where
  "trial_wait 0 s =
     (if outcome s = 0 \<and> trial_now s < cue_end s then starve s else s)"
| "trial_wait (Suc n) s =
     (if outcome s = 0 \<and> trial_now s < cue_end s
      then block [
             sleep (8 / 1000),
             time_time (\<lambda>t s. s\<lparr>trial_now := t\<rparr>),
             trial_wait n] s
      else s)"

definition reward_delay :: stmt where
  "reward_delay = lookup ''reward_duration_ms'' (\<lambda>v. as_num v (\<lambda>d. sleep (d / 1000)))"

definition trial :: "nat \<Rightarrow> stmt" where
  "trial fuel =
     block [
       with_current_spout (\<lambda>c. start_trial c RewardCallback IncorrectGraspCallback),
       cond (\<lambda>s. truthy (water_at_cue_onset s))
         (with_current_spout (\<lambda>c. lookup ''reward_duration_ms'' (dispense_water c)))
         skip,
       time_time (\<lambda>t s. s\<lparr>trial_now := t\<rparr>),
       lookup ''cue_duration_ms'' (\<lambda>v. as_num v (\<lambda>cue_duration s.
         s\<lparr>cue_end := trial_now s + cue_duration / 1000\<rparr>)),
       trial_wait fuel,
       end_trial,
       cond (\<lambda>s. outcome s = 1)
         (block [
            emit (Say SuccessfulReach),
            (\<lambda>s. s\<lparr>reward_count := reward_count s + 1\<rparr>),
            reward_delay])
         (cond (\<lambda>s. outcome s = 2)
            (block [emit (Say IncorrectReach), reward_delay])
            (emit (Say MissedReach)))]"

subsection \<open>\<open>Session.run\<close>\<close>

definition display_training_settings :: stmt where
  "display_training_settings =
     block [
       lookup ''iti'' (\<lambda>v. as_items v (\<lambda>l. if length l = 2 then skip else raise ValueError)),
       lookup ''spout_count'' (\<lambda>v. skip),
       lookup ''duration'' (\<lambda>v. skip),
       lookup ''cue_duration_ms'' (\<lambda>v. skip),
       lookup ''shaping'' (\<lambda>v. skip),
       emit (Say TrainingSettings)]"

definition run_trial :: "nat \<Rightarrow> stmt" where
  "run_trial fuel =
     block [
       (\<lambda>s. s\<lparr>trial_count := trial_count s + 1\<rparr>),
       (\<lambda>s. s\<lparr>outcome := 0\<rparr>),
       lookup ''start_time'' (\<lambda>b. as_num b (\<lambda>b'.
         reading trial_count (\<lambda>n. emit (Say (StartingTrial n))))),
       lookup ''spout_count'' (\<lambda>c. as_int c (\<lambda>spout_count.
         random_randint 0 (spout_count - 1) (\<lambda>i s. s\<lparr>current_spout := Some i\<rparr>))),
       inter_trial_interval fuel,
       trial fuel,
       reading reward_count (\<lambda>rc. emit (Say (TotalRewards rc))),
       time_time (\<lambda>t s. s\<lparr>run_now := t\<rparr>)]"

fun run_loop :: "nat \<Rightarrow> nat \<Rightarrow> stmt" where
  "run_loop fuel 0 s =
     lookup ''end_time'' (\<lambda>v. as_num v (\<lambda>end_time.
       cond (\<lambda>s. run_now s < end_time) starve skip)) s"
| "run_loop fuel (Suc n) s =
     lookup ''end_time'' (\<lambda>v. as_num v (\<lambda>end_time.
       cond (\<lambda>s. run_now s < end_time) (block [run_trial fuel, run_loop fuel n]) skip)) s"

text \<open>The first statements of \<open>run\<close>, up to the display of the settings.\<close>

definition begin_session :: "(string \<rightharpoonup> pyval) \<Rightarrow> stmt" where
  "begin_session config =
     block [
       (\<lambda>s. s\<lparr>data := data s ++ config\<rparr>),
       cond (\<lambda>s. data s ''resets_timepoints'' \<noteq> None) (emit (Say ResetsKeyFound)) skip,
       (\<lambda>s. s\<lparr>spont_reach_spouts := []\<rparr>),
       store ''spont_reach_timepoints'' (PList []),
       store ''resets_timepoints'' (PList [PList [], PList []]),
       lookup ''shaping'' (\<lambda>v s. s\<lparr>water_at_cue_onset := v\<rparr>),
       display_training_settings]"

definition run :: "nat \<Rightarrow> (string \<rightharpoonup> pyval) \<Rightarrow> stmt" where
  "run fuel config =
     block [
       begin_session config,
       lookup ''spout_count'' rpi_init,
       wait_to_start,
       (\<lambda>s. s\<lparr>sigint_handler := EndSessionManually\<rparr>),
       time_time (\<lambda>t s. s\<lparr>run_now := t\<rparr>),
       reading run_now (\<lambda>now. store ''start_time'' (PFloat now)),
       lookup ''duration'' (\<lambda>v. as_num v (\<lambda>d.
         reading run_now (\<lambda>now. store ''end_time'' (PFloat (now + d))))),
       (\<lambda>s. s\<lparr>trial_count := 0\<rparr>),
       run_loop fuel fuel,
       end_session False]"

text \<open>\<open>Session(data)\<close> in a given environment.\<close>

definition Session :: "(string \<rightharpoonup> pyval) \<Rightarrow> (nat \<Rightarrow> real) \<Rightarrow> (nat \<Rightarrow> nat) \<Rightarrow> event list list \<Rightarrow> state" where
  "Session d clk rnd evs =
     \<lparr>data = d, outcome = 0, iti_broken = False, current_spout = None,
      water_at_cue_onset = PNone, reward_count = 0, spont_reach_spouts = [],
      rpi = None, run_now = 0, trial_count = 0, iti_now = 0, iti_duration = 0,
      trial_end = 0, trial_now = 0, cue_end = 0, collated = [],
      gpio_mode = False, gpio_direction = Map.empty,
      gpio_level = (\<lambda>p. False), gpio_detect = Map.empty,
      sigint_handler = DefaultHandler, clock = clk, reads = 0, draws = rnd, drawn = 0,
      async = evs, strftime_hms = (\<lambda>t. ''HH:MM:SS''), today = ''YYYY-mm-dd'',
      trace = [], status = Normal\<rparr>"

subsection \<open>\<open>Session.reaction_times\<close>\<close>

fun py_sub :: "pyval \<Rightarrow> pyval \<Rightarrow> error + pyval" where
  "py_sub (PFloat a) y = (case num_of y of None \<Rightarrow> Inl TypeError | Some b \<Rightarrow> Inr (PFloat (a - b)))"
| "py_sub x (PFloat b) = (case num_of x of None \<Rightarrow> Inl TypeError | Some a \<Rightarrow> Inr (PFloat (a - b)))"
| "py_sub x y =
     (case (int_of x, int_of y) of
        (Some a, Some b) \<Rightarrow> Inr (PInt (a - b))
      | _ \<Rightarrow> Inl TypeError)"

fun extend_all :: "pyval list \<Rightarrow> error + pyval list" where
  "extend_all [] = Inr []"
| "extend_all (sublist # rest) =
     (case items_of sublist of
        None \<Rightarrow> Inl TypeError
      | Some l \<Rightarrow> (case extend_all rest of Inl e \<Rightarrow> Inl e | Inr r \<Rightarrow> Inr (l @ r)))"

fun map_sub :: "pyval list \<Rightarrow> pyval list \<Rightarrow> error + pyval list" where
  "map_sub (x # xs) (y # ys) =
     (case py_sub x y of
        Inl e \<Rightarrow> Inl e
      | Inr d \<Rightarrow> (case map_sub xs ys of Inl e \<Rightarrow> Inl e | Inr r \<Rightarrow> Inr (d # r)))"
| "map_sub _ _ = Inr []"

definition flatten :: "(string \<rightharpoonup> pyval) \<Rightarrow> string \<Rightarrow> error + pyval list" where
  "flatten d key =
     (case d key of
        None \<Rightarrow> Inl (KeyError key)
      | Some v \<Rightarrow> (case items_of v of None \<Rightarrow> Inl TypeError | Some l \<Rightarrow> extend_all l))"

definition reaction_times :: "(string \<rightharpoonup> pyval) \<Rightarrow> error + pyval list" where
  "reaction_times d =
     (case flatten d ''touch_timepoints'' of
        Inl e \<Rightarrow> Inl e
      | Inr touches \<Rightarrow>
          (case flatten d ''cue_timepoints'' of
             Inl e \<Rightarrow> Inl e
           | Inr cues \<Rightarrow> map_sub touches cues))"

section \<open>Invariants of statements\<close>

text \<open>
  A state predicate is preserved by a statement; the rules follow the structure of the
  statements, down to the assignments, which are settled by simplification.
\<close>

definition pres :: "(state \<Rightarrow> bool) \<Rightarrow> stmt \<Rightarrow> bool" where
  "pres I f \<longleftrightarrow> (\<forall>s. I s \<longrightarrow> I (f s))"

named_theorems pres_intros

section \<open>Spontaneous reaches\<close>

text \<open>
  A two-spout backend in the inter-trial interval whose spout 0 (touch pin 27) is
  touched once, at time 5, and whose data are then collated.
\<close>

definition spont_session :: state where
  "spont_session =
     block [
       store ''spont_reach_timepoints'' (PList []),
       store ''start_time'' (PFloat 0),
       store ''end_time'' (PFloat 60),
       rpi_init (PInt 2),
       monitor_sensors ResetItiCallback IncreaseSpontReachesCallback,
       dispatch (Edge 27 True),
       collate_data False]
     (Session Map.empty (\<lambda>n. 5) (\<lambda>n. 0) [])"

section \<open>The keys of the session record\<close>

text \<open>The keys that the session and its callbacks assign.\<close>

definition keeps :: "string \<Rightarrow> pyval option \<Rightarrow> state \<Rightarrow> bool" where
  "keeps key v s \<longleftrightarrow> data s key = v"

definition written :: "string set" where
  "written = {''resets_timepoints'', ''spont_reach_timepoints'', ''start_time'', ''end_time'',
     ''duration'', ''cue_timepoints'', ''touch_timepoints'', ''cued_lift_timepoints'', ''date''}"

text \<open>A session of one spout and of duration 0: no trial runs.\<close>

definition demo_config :: "string \<rightharpoonup> pyval" where
  "demo_config =
     [''spout_count'' \<mapsto> PInt 1, ''duration'' \<mapsto> PInt 0, ''cue_duration_ms'' \<mapsto> PInt 2000,
      ''iti'' \<mapsto> PList [PInt 500, PInt 500], ''shaping'' \<mapsto> PBool False,
      ''reward_duration_ms'' \<mapsto> PInt 150]"

definition no_trial_session :: state where
  "no_trial_session = run (Suc 0) demo_config (Session Map.empty (\<lambda>n. real n) (\<lambda>n. 0) [])"

section \<open>The outcome of a trial\<close>

text \<open>
  A two-spout backend at the start of a trial on spout 0, the reward being given at the
  grasp: the cue of spout 0 is lit and both touch sensors are armed.
\<close>

definition open_trial :: state where
  "open_trial =
     block [
       store ''reward_duration_ms'' (PInt 150),
       rpi_init (PInt 2),
       (\<lambda>s. s\<lparr>current_spout := Some 0, water_at_cue_onset := PBool False\<rparr>),
       start_trial 0 RewardCallback IncorrectGraspCallback]
     (Session Map.empty (\<lambda>n. real n) (\<lambda>n. 0) [])"

definition outcome_is :: "int \<Rightarrow> state \<Rightarrow> bool" where
  "outcome_is v s \<longleftrightarrow> outcome s = v"

definition hardware :: "state \<Rightarrow> bool \<times> (nat \<rightharpoonup> pin_dir) \<times> (nat \<Rightarrow> bool) \<times> (nat \<rightharpoonup> edge \<times> callback)" where
  "hardware s = (gpio_mode s, gpio_direction s, gpio_level s, gpio_detect s)"

section \<open>A single spout\<close>

text \<open>
  No pin carries the incorrect-grasp callback and the backend has at most one spout;
  and, for a whole session, no incorrect grasp was recorded or announced either.
\<close>

definition unarmed :: "state \<Rightarrow> bool" where
  "unarmed s \<longleftrightarrow>
     (\<forall>p e. gpio_detect s p \<noteq> Some (e, IncorrectGraspCallback)) \<and>
     (case rpi s of None \<Rightarrow> True | Some r \<Rightarrow> length (spouts r) \<le> 1)"

definition never_incorrect :: "state \<Rightarrow> bool" where
  "never_incorrect s \<longleftrightarrow>
     unarmed s \<and> outcome s \<noteq> 2 \<and> Say IncorrectReach \<notin> set (trace s) \<and>
     (\<forall>c. Call (IncorrectGrasp c) \<notin> set (trace s))"

definition single_spout :: "state \<Rightarrow> bool" where
  "single_spout s \<longleftrightarrow> never_incorrect s \<and> data s ''spout_count'' = Some (PInt 1)"

text \<open>A one-spout backend before its first trial.\<close>

definition single_ready :: state where
  "single_ready =
     block [rpi_init (PInt 1), (\<lambda>s. s\<lparr>current_spout := Some 0\<rparr>)]
       (Session Map.empty (\<lambda>n. real n) (\<lambda>n. 0) [])"

text \<open>
  A session of one spout and of 5 seconds in which the paws come to rest and the
  sensor pin of the absent second spout (pin 23) fires.
\<close>

definition one_spout_config :: "string \<rightharpoonup> pyval" where
  "one_spout_config = demo_config(''duration'' \<mapsto> PInt 5)"

definition one_spout_session :: state where
  "one_spout_session =
     run (Suc (Suc (Suc 0))) one_spout_config
       (Session Map.empty (\<lambda>n. real n) (\<lambda>n. 0)
          [[Edge 17 True, Edge 18 True], [Edge 23 True], [Edge 23 False], [Edge 23 True]])"

section \<open>No validation of the configuration\<close>

definition built :: "state \<Rightarrow> bool" where
  "built s \<longleftrightarrow> rpi s \<noteq> None \<and> Call Init \<in> set (trace s)"

text \<open>A configuration of three spouts whose interval bounds are reversed.\<close>

definition bad_config :: "string \<rightharpoonup> pyval" where
  "bad_config = demo_config(''spout_count'' \<mapsto> PInt 3, ''iti'' \<mapsto> PList [PInt 500, PInt 100])"

definition bad_session :: state where
  "bad_session = run (Suc 0) bad_config (Session Map.empty (\<lambda>n. real n) (\<lambda>n. 0) [])"

section \<open>The trace of a trial\<close>

text \<open>
  The state extends a given trace by actions that all satisfy \<open>A\<close>.
\<close>

definition ext :: "(action \<Rightarrow> bool) \<Rightarrow> action list \<Rightarrow> state \<Rightarrow> bool" where
  "ext A t0 s \<longleftrightarrow> (\<exists>t. trace s = t0 @ t \<and> list_all A t)"



text \<open>The statements of \<open>_trial\<close> that come before the call of \<open>end_trial\<close>.\<close>

definition trial_opening :: "nat \<Rightarrow> stmt list" where
  "trial_opening fuel =
     [with_current_spout (\<lambda>c. start_trial c RewardCallback IncorrectGraspCallback),
      cond (\<lambda>s. truthy (water_at_cue_onset s))
        (with_current_spout (\<lambda>c. lookup ''reward_duration_ms'' (dispense_water c)))
        skip,
      time_time (\<lambda>t s. s\<lparr>trial_now := t\<rparr>),
      lookup ''cue_duration_ms'' (\<lambda>v. as_num v (\<lambda>cue_duration s.
        s\<lparr>cue_end := trial_now s + cue_duration / 1000\<rparr>)),
      trial_wait fuel]"

definition trial_verdict :: stmt where
  "trial_verdict =
     cond (\<lambda>s. outcome s = 1)
       (block [
          emit (Say SuccessfulReach),
          (\<lambda>s. s\<lparr>reward_count := reward_count s + 1\<rparr>),
          reward_delay])
       (cond (\<lambda>s. outcome s = 2)
          (block [emit (Say IncorrectReach), reward_delay])
          (emit (Say MissedReach)))"

text \<open>
  A trial on spout 0 of a two-spout backend, the reward being given at the grasp, in
  which the touch sensor of spout 0 (pin 27) fires during the first poll.
\<close>

definition cued :: state where
  "cued =
     block [
       store ''reward_duration_ms'' (PInt 150),
       store ''cue_duration_ms'' (PInt 2000),
       rpi_init (PInt 2),
       (\<lambda>s. s\<lparr>current_spout := Some 0, water_at_cue_onset := PBool False\<rparr>)]
     (Session Map.empty (\<lambda>n. real n) (\<lambda>n. 0) [[Edge 27 True]])"


section \<open>The inter-trial interval\<close>

text \<open>The statements of one pass between \<open>wait_for_rest\<close> and the countdown.\<close>

definition iti_set :: "stmt list" where
  "iti_set =
     [(\<lambda>s. s\<lparr>iti_broken := False\<rparr>),
      time_time (\<lambda>t s. s\<lparr>iti_now := t\<rparr>),
      lookup ''iti'' (\<lambda>v. random_uniform v (\<lambda>u s. s\<lparr>iti_duration := u / 1000\<rparr>)),
      (\<lambda>s. s\<lparr>trial_end := iti_now s + iti_duration s\<rparr>),
      reading iti_duration (\<lambda>d. emit (Say (CountingDown d)))]"

text \<open>The statements of \<open>_inter_trial_interval\<close> before the call of \<open>disable_sensors\<close>.\<close>

definition iti_front :: "nat \<Rightarrow> stmt list" where
  "iti_front fuel =
     [monitor_sensors ResetItiCallback IncreaseSpontReachesCallback,
      set_button_callback 0 ReverseShapingCallback,
      lookup ''shaping'' (\<lambda>v s. s\<lparr>water_at_cue_onset := v\<rparr>),
      iti_loop fuel fuel]"

definition not_disable :: "action \<Rightarrow> bool" where
  "not_disable a \<longleftrightarrow> a \<noteq> Call DisableSensors"

definition any_action :: "action \<Rightarrow> bool" where
  "any_action a \<longleftrightarrow> True"

definition due :: "real \<Rightarrow> state \<Rightarrow> bool" where
  "due e s \<longleftrightarrow> trial_end s = e"

definition disabled :: "state \<Rightarrow> state \<Rightarrow> bool" where
  "disabled s x \<longleftrightarrow>
     trace x = trace s @ [Call DisableSensors] \<and> iti_broken x = iti_broken s \<and>
     iti_now x = iti_now s"

definition tally :: "nat \<Rightarrow> (nat \<Rightarrow> nat) \<Rightarrow> state \<Rightarrow> bool" where
  "tally n f s \<longleftrightarrow> drawn s = n \<and> draws s = f"

definition armed :: "(nat \<rightharpoonup> edge \<times> callback) \<Rightarrow> state \<Rightarrow> state \<Rightarrow> bool" where
  "armed m s x \<longleftrightarrow>
     (\<forall>q. m q \<noteq> None \<longrightarrow> gpio_detect x q = m q) \<and>
     gpio_direction x = gpio_direction s \<and> rpi x = rpi s \<and> data x = data s"

text \<open>
  A one-spout backend with an interval between 100 and 500 ms, every raw draw being
  \<open>2 ^ 52\<close>; the paws come to rest, the left paw (pin 17) lifts during the first
  countdown and comes back.
\<close>

definition resting :: state where
  "resting =
     block [
       store ''iti'' (PList [PInt 100, PInt 500]),
       store ''shaping'' (PBool False),
       store ''resets_timepoints'' (PList [PList [], PList []]),
       store ''spont_reach_timepoints'' (PList []),
       rpi_init (PInt 1)]
     (Session Map.empty (\<lambda>n. real n) (\<lambda>n. 4503599627370496)
        [[Edge 17 True, Edge 18 True], [Edge 17 False], [Edge 17 True]])"

definition monitored :: state where
  "monitored =
     block [
       monitor_sensors ResetItiCallback IncreaseSpontReachesCallback,
       set_button_callback 0 ReverseShapingCallback,
       lookup ''shaping'' (\<lambda>v s. s\<lparr>water_at_cue_onset := v\<rparr>)] resting"

text \<open>The statements of \<open>run\<close> after the construction of the backend.\<close>

definition run_rest :: "nat \<Rightarrow> stmt list" where
  "run_rest fuel =
     [wait_to_start,
      (\<lambda>s. s\<lparr>sigint_handler := EndSessionManually\<rparr>),
      time_time (\<lambda>t s. s\<lparr>run_now := t\<rparr>),
      reading run_now (\<lambda>now. store ''start_time'' (PFloat now)),
      lookup ''duration'' (\<lambda>v. as_num v (\<lambda>d.
        reading run_now (\<lambda>now. store ''end_time'' (PFloat (now + d))))),
      (\<lambda>s. s\<lparr>trial_count := 0\<rparr>),
      run_loop fuel fuel,
      end_session False]"

text \<open>The backend that \<open>RPiReal.__init__\<close> builds on a list of spouts.\<close>

definition backend :: "spout list \<Rightarrow> rpi" where
  "backend sp =
     \<lparr>button_pins = PIN_NUMBERS_buttons, paw_pins = PIN_NUMBERS_paw_sensors,
      spouts = sp, lift_timepoints = [[], []]\<rparr>"

text \<open>\<open>PIN_NUMBERS['spouts'][:n]\<close>\<close>

definition first_spouts :: "int \<Rightarrow> spout list" where
  "first_spouts k = take (nat (if k < 0 then int (length PIN_NUMBERS_spouts) + k else k)) PIN_NUMBERS_spouts"

definition pins :: "spout \<Rightarrow> nat \<times> nat \<times> nat" where
  "pins sp = (cue sp, touch sp, solenoid sp)"

text \<open>The pins of the backend of a state.\<close>

definition wired :: "nat list \<times> nat list \<times> (nat \<times> nat \<times> nat) list \<Rightarrow> state \<Rightarrow> bool" where
  "wired w s \<longleftrightarrow>
     map_option (\<lambda>r. (button_pins r, paw_pins r, map pins (spouts r))) (rpi s) = Some w"

text \<open>No pin carries one of the two grasp callbacks.\<close>

definition ungrasped :: "state \<Rightarrow> bool" where
  "ungrasped s \<longleftrightarrow>
     (\<forall>p e. gpio_detect s p \<noteq> Some (e, RewardCallback) \<and>
            gpio_detect s p \<noteq> Some (e, IncorrectGraspCallback))"

definition holds :: "int \<Rightarrow> state \<Rightarrow> bool" where
  "holds v s \<longleftrightarrow> outcome s = v \<and> ungrasped s"

text \<open>The statements of one pass of the loop of \<open>run\<close>, after the outcome is reset.\<close>

definition run_trial_rest :: "nat \<Rightarrow> stmt list" where
  "run_trial_rest fuel =
     [lookup ''start_time'' (\<lambda>b. as_num b (\<lambda>b'.
        reading trial_count (\<lambda>n. emit (Say (StartingTrial n))))),
      lookup ''spout_count'' (\<lambda>c. as_int c (\<lambda>spout_count.
        random_randint 0 (spout_count - 1) (\<lambda>i s. s\<lparr>current_spout := Some i\<rparr>))),
      inter_trial_interval fuel,
      trial fuel,
      reading reward_count (\<lambda>rc. emit (Say (TotalRewards rc))),
      time_time (\<lambda>t s. s\<lparr>run_now := t\<rparr>)]"

text \<open>The same, up to the moment the trial starts.\<close>

definition before_trial :: "nat \<Rightarrow> stmt list" where
  "before_trial fuel =
     [lookup ''start_time'' (\<lambda>b. as_num b (\<lambda>b'.
        reading trial_count (\<lambda>n. emit (Say (StartingTrial n))))),
      lookup ''spout_count'' (\<lambda>c. as_int c (\<lambda>spout_count.
        random_randint 0 (spout_count - 1) (\<lambda>i s. s\<lparr>current_spout := Some i\<rparr>))),
      inter_trial_interval fuel]"

definition after_trial :: "stmt list" where
  "after_trial =
     [reading reward_count (\<lambda>rc. emit (Say (TotalRewards rc))),
      time_time (\<lambda>t s. s\<lparr>run_now := t\<rparr>)]"

text \<open>The grasp callbacks are carried by touch pins of the backend's spouts only.\<close>

definition tidy :: "state \<Rightarrow> bool" where
  "tidy s \<longleftrightarrow>
     (\<forall>p e cb. gpio_detect s p = Some (e, cb) \<longrightarrow>
        cb = RewardCallback \<or> cb = IncorrectGraspCallback \<longrightarrow>
        (case rpi s of None \<Rightarrow> False | Some r \<Rightarrow> p \<in> set (map touch (spouts r))))"

definition cleared :: "state \<Rightarrow> state \<Rightarrow> bool" where
  "cleared s x \<longleftrightarrow>
     (\<forall>q. gpio_detect x q = None \<or> gpio_detect x q = gpio_detect s q) \<and> rpi x = rpi s"

text \<open>The statements of \<open>run\<close> before its loop.\<close>

definition run_prefix :: "(string \<rightharpoonup> pyval) \<Rightarrow> stmt list" where
  "run_prefix config =
     [begin_session config,
      lookup ''spout_count'' rpi_init,
      wait_to_start,
      (\<lambda>s. s\<lparr>sigint_handler := EndSessionManually\<rparr>),
      time_time (\<lambda>t s. s\<lparr>run_now := t\<rparr>),
      reading run_now (\<lambda>now. store ''start_time'' (PFloat now)),
      lookup ''duration'' (\<lambda>v. as_num v (\<lambda>d.
        reading run_now (\<lambda>now. store ''end_time'' (PFloat (now + d))))),
      (\<lambda>s. s\<lparr>trial_count := 0\<rparr>)]"

text \<open>
  A two-spout backend before a pass of the loop, the outcome of the pass before being
  2: the paws come to rest, the interval passes, and the touch sensor of the target
  fires during the first poll of the trial.
\<close>

definition pass_ready :: state where
  "pass_ready =
     block [
       store ''iti'' (PList [PInt 40, PInt 40]),
       store ''shaping'' (PBool False),
       store ''spout_count'' (PInt 2),
       store ''start_time'' (PFloat 0),
       store ''end_time'' (PFloat 100),
       store ''reward_duration_ms'' (PInt 150),
       store ''cue_duration_ms'' (PInt 2000),
       store ''resets_timepoints'' (PList [PList [], PList []]),
       store ''spont_reach_timepoints'' (PList []),
       rpi_init (PInt 2),
       (\<lambda>s. s\<lparr>outcome := 2\<rparr>)]
     (Session Map.empty (\<lambda>n. real n) (\<lambda>n. 0)
        [[Edge 17 True, Edge 18 True], [], [Edge 27 True]])"

section \<open>The return and the record of a trial\<close>










section \<open>Evaluation\<close>

lemmas prim_defs = raise_def starve_def emit_def skip_def cond_def reading_def foreach_def time_time_def lookup_def store_def
  as_num_def as_int_def as_items_def norm_index_def py_index_def py_slice_to_def list_index_def with_rpi_def
  update_rpi_def update_spout_def

lemmas gpio_defs = gpio_setmode_def gpio_setup_def gpio_output_def gpio_input_def
  gpio_add_event_detect_def gpio_remove_event_detect_def gpio_cleanup_def

lemmas rpi_defs = PIN_NUMBERS_buttons_def PIN_NUMBERS_paw_sensors_def PIN_NUMBERS_spouts_def
  initialise_pins_def rpi_init_def monitor_sensors_def set_button_callback_def disable_sensors_def
  start_trial_def record_lift_timepoints_def successful_grasp_def incorrect_grasp_def
  dispense_water_with_def end_trial_def cleanup_def

lemmas ses_defs = callback_sleep_def with_current_spout_def reset_iti_callback_def
  increase_spont_reaches_callback_def reverse_shaping_callback_def reward_callback_def
  incorrect_grasp_callback_def run_callback_def append_item_def floats_def collate_spout_def format_time_def
  collate_data_def py_len_def py_getitem_def display_training_results_def end_session_def
  end_session_manually_def absorb_def swallow_def edge_detected_def dispatch_def deliver_def receive_def sleep_def wait_to_start_def
  paws_held_def wait_for_rest_def dispense_water_def draw_def random_unit_def uniform_def
  random_uniform_def random_randint_def iti_prepare_def inter_trial_interval_def reward_delay_def
  trial_def display_training_settings_def run_trial_def begin_session_def run_def Session_def

lemma presI: "(\<And>s. I s \<Longrightarrow> I (f s)) \<Longrightarrow> pres I f"
  by (simp add: pres_def)

lemma presD: "pres I f \<Longrightarrow> I s \<Longrightarrow> I (f s)"
  by (simp add: pres_def)

lemma pres_skip [pres_intros]: "pres I skip"
  by (simp add: pres_def skip_def)

lemma pres_block_Nil [pres_intros]: "pres I (block [])"
  by (simp add: pres_def)

lemma pres_block_Cons [pres_intros]: "pres I f \<Longrightarrow> pres I (block fs) \<Longrightarrow> pres I (block (f # fs))"
  by (simp add: pres_def)

lemma pres_block: "(\<And>f. f \<in> set fs \<Longrightarrow> pres I f) \<Longrightarrow> pres I (block fs)"
  by (induction fs) (auto intro: pres_block_Nil pres_block_Cons)

lemma pres_foreach [pres_intros]: "(\<And>x. pres I (f x)) \<Longrightarrow> pres I (foreach xs f)"
  unfolding foreach_def by (rule pres_block) auto

lemma pres_cond [pres_intros]: "pres I f \<Longrightarrow> pres I g \<Longrightarrow> pres I (cond c f g)"
  by (simp add: pres_def cond_def)

lemma pres_reading [pres_intros]: "(\<And>x. pres I (k x)) \<Longrightarrow> pres I (reading g k)"
  by (simp add: pres_def reading_def)

lemma pres_if [pres_intros]: "pres I f \<Longrightarrow> pres I g \<Longrightarrow> pres I (if b then f else g)"
  by simp

lemma pres_case_prod [pres_intros]: "(\<And>a b. pres I (f a b)) \<Longrightarrow> pres I (case_prod f p)"
  by (cases p) simp

lemma pres_lookup [pres_intros]:
  "pres I (raise (KeyError key)) \<Longrightarrow> (\<And>v. pres I (k v)) \<Longrightarrow> pres I (lookup key k)"
  by (auto simp: pres_def lookup_def split: option.splits)

lemma pres_as_num [pres_intros]:
  "pres I (raise TypeError) \<Longrightarrow> (\<And>r. pres I (k r)) \<Longrightarrow> pres I (as_num v k)"
  by (auto simp: pres_def as_num_def split: option.splits)

lemma pres_as_int [pres_intros]:
  "pres I (raise TypeError) \<Longrightarrow> (\<And>r. pres I (k r)) \<Longrightarrow> pres I (as_int v k)"
  by (auto simp: pres_def as_int_def split: option.splits)

lemma pres_as_items [pres_intros]:
  "pres I (raise TypeError) \<Longrightarrow> (\<And>r. pres I (k r)) \<Longrightarrow> pres I (as_items v k)"
  by (auto simp: pres_def as_items_def split: option.splits)

lemma pres_py_index [pres_intros]:
  "pres I (raise IndexError) \<Longrightarrow> (\<And>j. pres I (k j)) \<Longrightarrow> pres I (py_index xs i k)"
  by (auto simp: pres_def py_index_def)

lemma pres_py_slice_to [pres_intros]:
  "pres I (raise TypeError) \<Longrightarrow> (\<And>l. pres I (k l)) \<Longrightarrow> pres I (py_slice_to xs n k)"
  by (auto simp: pres_def py_slice_to_def split: option.splits pyval.splits)

lemma pres_list_index [pres_intros]:
  "pres I (raise ValueError) \<Longrightarrow> (\<And>j. pres I (k j)) \<Longrightarrow> pres I (list_index xs x k)"
  by (auto simp: pres_def list_index_def split: option.splits)

lemma pres_with_rpi [pres_intros]:
  "pres I (raise AttributeError) \<Longrightarrow> (\<And>r. pres I (k r)) \<Longrightarrow> pres I (with_rpi k)"
  by (auto simp: pres_def with_rpi_def split: option.splits)

lemma pres_with_current_spout [pres_intros]:
  "pres I (raise TypeError) \<Longrightarrow> (\<And>c. pres I (k c)) \<Longrightarrow> pres I (with_current_spout k)"
  by (auto simp: pres_def with_current_spout_def split: option.splits)

lemma pres_time_time [pres_intros]:
  "pres I (\<lambda>s. s\<lparr>reads := Suc (reads s)\<rparr>) \<Longrightarrow> (\<And>t. pres I (k t)) \<Longrightarrow> pres I (time_time k)"
  by (auto simp: pres_def time_time_def)

lemma pres_draw [pres_intros]:
  "pres I (\<lambda>s. s\<lparr>drawn := Suc (drawn s)\<rparr>) \<Longrightarrow> (\<And>n. pres I (k n)) \<Longrightarrow> pres I (draw k)"
  by (auto simp: pres_def draw_def)

lemma pres_gpio_input [pres_intros]:
  "pres I (raise RuntimeError) \<Longrightarrow> (\<And>b. pres I (k b)) \<Longrightarrow> pres I (gpio_input p k)"
  by (auto simp: pres_def gpio_input_def)

lemma pres_case_pyval [pres_intros]:
  "(\<And>x. pres I (f1 x)) \<Longrightarrow> (\<And>x. pres I (f2 x)) \<Longrightarrow> (\<And>x. pres I (f3 x)) \<Longrightarrow>
   (\<And>x. pres I (f4 x)) \<Longrightarrow> (\<And>x. pres I (f5 x)) \<Longrightarrow> pres I f6 \<Longrightarrow>
   pres I (case_pyval f1 f2 f3 f4 f5 f6 v)"
  by (cases v) simp_all

lemma pres_case_list [pres_intros]:
  "pres I f1 \<Longrightarrow> (\<And>x xs. pres I (f2 x xs)) \<Longrightarrow> pres I (case_list f1 f2 l)"
  by (cases l) simp_all

lemma pres_callback_sleep [pres_intros]:
  "pres I (raise ValueError) \<Longrightarrow> pres I (emit (CallbackSleep d)) \<Longrightarrow> pres I (callback_sleep d)"
  by (auto simp: pres_def callback_sleep_def)

text \<open>Events and sleeps.\<close>

lemma pres_run_callback [pres_intros]:
  "pres I (reset_iti_callback pin) \<Longrightarrow> pres I (increase_spont_reaches_callback pin) \<Longrightarrow>
   pres I (reverse_shaping_callback pin) \<Longrightarrow> pres I (reward_callback pin) \<Longrightarrow>
   pres I (incorrect_grasp_callback pin) \<Longrightarrow> pres I (record_lift_timepoints pin) \<Longrightarrow>
   pres I (run_callback cb pin)"
  by (cases cb) (simp_all add: run_callback_def)

lemma pres_swallow [pres_intros]: "pres I f \<Longrightarrow> pres I absorb \<Longrightarrow> pres I (swallow f)"
  by (simp add: pres_def swallow_def)

lemma pres_edge_detected [pres_intros]:
  "(\<And>cb. pres I (swallow (run_callback cb pin))) \<Longrightarrow> pres I (edge_detected pin v)"
  by (auto simp: pres_def edge_detected_def split: option.splits)

lemma pres_dispatch [pres_intros]:
  "(\<And>pin v. pres I (edge_detected pin v)) \<Longrightarrow>
   (\<And>pin v. pres I (\<lambda>s. s\<lparr>gpio_level := (gpio_level s)(pin := v)\<rparr>)) \<Longrightarrow>
   pres I (raise KeyboardInterrupt) \<Longrightarrow> pres I cleanup \<Longrightarrow> pres I end_session_manually \<Longrightarrow>
   pres I (dispatch ev)"
  by (auto simp: pres_def dispatch_def split: event.splits handler.splits)

lemma pres_deliver [pres_intros]: "(\<And>ev. pres I (dispatch ev)) \<Longrightarrow> pres I (deliver evs)"
  unfolding deliver_def by (rule pres_block) auto

lemma pres_receive [pres_intros]:
  "(\<And>evs. pres I (deliver evs)) \<Longrightarrow> pres I (\<lambda>s. s\<lparr>async := tl (async s)\<rparr>) \<Longrightarrow> pres I receive"
  by (auto simp: pres_def receive_def split: list.splits)

lemma pres_sleep [pres_intros]:
  "pres I (raise ValueError) \<Longrightarrow> pres I (emit (Sleep d)) \<Longrightarrow> pres I receive \<Longrightarrow> pres I (sleep d)"
  by (auto simp: pres_def sleep_def)

text \<open>Loops.\<close>

lemma pres_wait_for_rest_loop [pres_intros]:
  assumes "pres I (raise AttributeError)" "pres I (raise IndexError)" "pres I (raise RuntimeError)"
    "pres I starve" "pres I (sleep (10 / 1000))"
  shows "pres I (wait_for_rest_loop n)"
proof (induction n)
  case 0
  have "pres I (paws_held (\<lambda>held. if \<not> held then starve else skip))"
    unfolding paws_held_def by (intro pres_intros assms)
  then show ?case by (simp add: pres_def)
next
  case (Suc n)
  have "pres I (paws_held (\<lambda>held. if \<not> held then block [sleep (10 / 1000), wait_for_rest_loop n] else skip))"
    unfolding paws_held_def by (intro pres_intros assms Suc)
  then show ?case by (simp add: pres_def)
qed

lemma pres_countdown [pres_intros]:
  assumes "pres I starve" "pres I (sleep (20 / 1000))" "pres I (time_time (\<lambda>t s. s\<lparr>iti_now := t\<rparr>))"
  shows "pres I (countdown n)"
proof (induction n)
  case 0
  from assms(1) show ?case by (simp add: pres_def)
next
  case (Suc n)
  have "pres I (block [sleep (20 / 1000), time_time (\<lambda>t s. s\<lparr>iti_now := t\<rparr>), countdown n])"
    by (intro pres_intros assms Suc)
  then show ?case by (simp add: pres_def)
qed

lemma pres_iti_loop [pres_intros]:
  assumes "pres I starve" "pres I (iti_prepare fuel)" "pres I (countdown fuel)"
  shows "pres I (iti_loop fuel n)"
proof (induction n)
  case 0
  from assms(1) show ?case by (simp add: pres_def)
next
  case (Suc n)
  have "pres I (block [iti_prepare fuel, countdown fuel, cond iti_broken (iti_loop fuel n) skip])"
    by (intro pres_intros assms Suc)
  then show ?case by (simp add: pres_def)
qed

lemma pres_trial_wait [pres_intros]:
  assumes "pres I starve" "pres I (sleep (8 / 1000))" "pres I (time_time (\<lambda>t s. s\<lparr>trial_now := t\<rparr>))"
  shows "pres I (trial_wait n)"
proof (induction n)
  case 0
  from assms(1) show ?case by (simp add: pres_def)
next
  case (Suc n)
  have "pres I (block [sleep (8 / 1000), time_time (\<lambda>t s. s\<lparr>trial_now := t\<rparr>), trial_wait n])"
    by (intro pres_intros assms Suc)
  then show ?case by (simp add: pres_def)
qed

lemma pres_run_loop [pres_intros]:
  assumes "pres I starve" "pres I (raise (KeyError ''end_time''))" "pres I (raise TypeError)"
    "pres I (run_trial fuel)"
  shows "pres I (run_loop fuel n)"
proof (induction n)
  case 0
  have "pres I (lookup ''end_time'' (\<lambda>v. as_num v (\<lambda>end_time.
       cond (\<lambda>s. run_now s < end_time) starve skip)))"
    by (intro pres_intros assms)
  then show ?case by (simp add: pres_def)
next
  case (Suc n)
  have "pres I (lookup ''end_time'' (\<lambda>v. as_num v (\<lambda>end_time.
       cond (\<lambda>s. run_now s < end_time) (block [run_trial fuel, run_loop fuel n]) skip)))"
    by (intro pres_intros assms Suc)
  then show ?case by (simp add: pres_def)
qed

text \<open>Composite operations are unfolded to the combinators.\<close>

lemmas composite_defs =
  initialise_pins_def rpi_init_def monitor_sensors_def set_button_callback_def disable_sensors_def
  start_trial_def record_lift_timepoints_def successful_grasp_def incorrect_grasp_def
  dispense_water_def dispense_water_with_def end_trial_def cleanup_def
  reset_iti_callback_def increase_spont_reaches_callback_def reward_callback_def
  incorrect_grasp_callback_def append_item_def collate_spout_def format_time_def
  collate_data_def py_len_def py_getitem_def display_training_results_def end_session_def
  end_session_manually_def wait_to_start_def wait_for_rest_def
  random_uniform_def random_randint_def iti_prepare_def inter_trial_interval_def
  reward_delay_def trial_def display_training_settings_def run_trial_def update_spout_def

lemmas leaf_defs = pres_def raise_def starve_def emit_def store_def absorb_def update_rpi_def
  with_rpi_def
  gpio_setmode_def gpio_setup_def gpio_output_def gpio_add_event_detect_def
  gpio_remove_event_detect_def gpio_cleanup_def reverse_shaping_callback_def

lemma block_tail:
  "list_all (pres I) fs \<Longrightarrow> status s = Normal \<Longrightarrow> I (f0 s) \<Longrightarrow> I (block (f0 # fs) s)"
  using pres_block [of fs I] by (simp add: list_all_iff pres_def)

lemma block_not_Normal: "status s \<noteq> Normal \<Longrightarrow> block fs s = s"
  by (cases fs) simp_all

lemma block_append: "block (fs @ gs) s = block gs (block fs s)"
proof (induction fs arbitrary: s)
  case Nil
  show ?case by simp
next
  case (Cons f fs)
  then show ?case by (simp add: block_not_Normal)
qed

lemma block_Normal: "status (block fs s) = Normal \<Longrightarrow> status s = Normal"
  by (cases "status s = Normal") (simp_all add: block_not_Normal)

text \<open>What the last statements of a block that ran to its end have established.\<close>

lemma block_establish:
  assumes "status (block (fs @ g # hs) s) = Normal"
    and "\<And>s'. status s' = Normal \<Longrightarrow> P (g s')"
    and "pres P (block hs)"
  shows "P (block (fs @ g # hs) s)"
proof -
  let ?s1 = "block fs s"
  have eq: "block (fs @ g # hs) s = block (g # hs) ?s1"
    by (rule block_append)
  with assms(1) have n1: "status ?s1 = Normal"
    by (metis block_Normal)
  then have "block (g # hs) ?s1 = block hs (g ?s1)" by simp
  moreover have "P (g ?s1)" using n1 by (rule assms(2))
  ultimately show ?thesis using assms(3) eq by (simp add: pres_def)
qed

section \<open>Reaction times\<close>

text \<open>
  C6.  The claim: reaction times are the pairwise differences, for each spout
  separately, of matched cue onsets and touches, and a missed trial contributes none.
  The code flattens the per-spout lists and subtracts position by position: with the
  cues of spout 0 at 10 (missed) and 20 (touched at 21), it pairs the touch at 21 with
  the cue of the missed trial and returns 11 instead of 1.
\<close>

theorem reaction_times_pairs_across_missed_trial:
  "reaction_times
     [''cue_timepoints'' \<mapsto> PList [floats [10, 20], floats []],
      ''touch_timepoints'' \<mapsto> PList [floats [21], floats []]]
   = Inr [PFloat 11]"
  by (simp add: reaction_times_def flatten_def floats_def)

text \<open>
  C5.  The claim: the collated spontaneous-reach timepoints are partitioned by the
  spout whose sensor was touched.  The code filters on the loop index instead of on the
  spout of each reach: a reach on spout 0 at time 5 is collated into the list of spout 1,
  and the list of spout 0 stays empty.
\<close>

theorem spont_reach_on_spout_0_lands_in_spout_1:
  "status spont_session = Normal \<and>
   data spont_session ''spont_reach_timepoints'' = Some (PList [PList [], PList [PFloat 5]])"
  by (simp add: spont_session_def prim_defs gpio_defs rpi_defs ses_defs)

lemma keeps_store: "key \<notin> written \<Longrightarrow> k \<in> written \<Longrightarrow> pres (keeps key v) (store k x)"
  by (auto simp: pres_def keeps_def store_def)

lemma keeps_sleep:
  assumes "key \<notin> written"
  shows "pres (keeps key v) (sleep d)"
  by (rule pres_intros keeps_store [OF assms] | simp only: composite_defs
      | simp add: leaf_defs keeps_def written_def split: option.splits status.splits)+

lemma keeps_run_loop:
  assumes "key \<notin> written"
  shows "pres (keeps key v) (run_loop fuel n)"
  by (rule keeps_sleep [OF assms] pres_intros keeps_store [OF assms] | simp only: composite_defs
      | simp add: leaf_defs keeps_def written_def split: option.splits status.splits)+

lemma keeps_end_session:
  assumes "key \<notin> written"
  shows "pres (keeps key v) (end_session m)"
  by (rule pres_intros keeps_store [OF assms] | simp only: composite_defs
      | simp add: leaf_defs keeps_def written_def split: option.splits status.splits)+

lemma begin_session_keeps:
  assumes "key \<notin> written" and "status s = Normal"
  shows "data (begin_session config s) key = (data s ++ config) key"
proof -
  have "keeps key ((data s ++ config) key) (begin_session config s)"
    unfolding begin_session_def
    apply (rule block_tail)
      apply (simp, intro conjI)
    by (rule pres_intros keeps_store [OF assms(1)] | simp only: composite_defs
      | simp add: leaf_defs keeps_def written_def assms(2) split: option.splits status.splits)+
  then show ?thesis by (simp add: keeps_def)
qed

lemma run_keeps:
  assumes "key \<notin> written" and "status s = Normal"
  shows "data (run fuel config s) key = (data s ++ config) key"
proof -
  have "keeps key ((data s ++ config) key) (run fuel config s)"
    unfolding run_def
    apply (rule block_tail)
      apply (simp, intro conjI)
    by (rule keeps_run_loop [OF assms(1)] keeps_end_session [OF assms(1)]
          pres_intros keeps_store [OF assms(1)] | simp only: composite_defs
      | simp add: leaf_defs keeps_def written_def assms(2) begin_session_keeps [OF assms] split: option.splits status.splits)+
  then show ?thesis by (simp add: keeps_def)
qed

text \<open>
  C4, as amended.  \<open>run\<close> assigns neither \<open>trial_count\<close> nor \<open>reward_count\<close> in
  the session record: at the end of the session each of the two keys holds what the
  configuration or the pre-filled data gave it, and is absent when they gave nothing.
\<close>

theorem run_adds_no_count_fields:
  "status s = Normal \<Longrightarrow>
   data (run fuel config s) ''trial_count'' = (data s ++ config) ''trial_count'' \<and>
   data (run fuel config s) ''reward_count'' = (data s ++ config) ''reward_count''"
  by (simp add: run_keeps written_def)

text \<open>The session of duration 0, whose configuration has neither key.\<close>

theorem run_adds_no_count_fields_witness:
  "status (Session Map.empty (\<lambda>n. real n) (\<lambda>n. 0) []) = Normal \<and>
   data no_trial_session ''trial_count'' = None \<and>
   data no_trial_session ''reward_count'' = None"
  using run_adds_no_count_fields [of "Session Map.empty (\<lambda>n. real n) (\<lambda>n. 0) []" "Suc 0" demo_config]
  by (simp add: no_trial_session_def Session_def demo_config_def)

text \<open>
  C4 as stated fails: the session of duration 0 ends normally, its record has neither
  field, and the summary printed gives 1 trial where none ran.
\<close>

theorem session_output_lacks_count_fields:
  "status no_trial_session = Normal \<and>
   trace no_trial_session =
     [Say TrainingSettings, Call Init, Call WaitToStart, Call Cleanup, Call (CollateData False),
      Call DisplayTrainingResults, Say (TrainingResults 1 0 1)] \<and>
   data no_trial_session ''trial_count'' = None \<and>
   data no_trial_session ''reward_count'' = None"
proof -
  have 1: "status no_trial_session = Normal"
    by (simp add: no_trial_session_def demo_config_def prim_defs gpio_defs rpi_defs ses_defs)
  have 2: "trace no_trial_session =
     [Say TrainingSettings, Call Init, Call WaitToStart, Call Cleanup, Call (CollateData False),
      Call DisplayTrainingResults, Say (TrainingResults 1 0 1)]"
    by (simp add: no_trial_session_def demo_config_def prim_defs gpio_defs rpi_defs ses_defs)
  have 3: "data no_trial_session ''trial_count'' = None"
    using run_keeps [of "''trial_count''" "Session Map.empty (\<lambda>n. real n) (\<lambda>n. 0) []" "Suc 0" demo_config]
    by (simp add: no_trial_session_def Session_def demo_config_def written_def)
  have 4: "data no_trial_session ''reward_count'' = None"
    using run_keeps [of "''reward_count''" "Session Map.empty (\<lambda>n. real n) (\<lambda>n. 0) []" "Suc 0" demo_config]
    by (simp add: no_trial_session_def Session_def demo_config_def written_def)
  from 1 2 3 4 show ?thesis by simp
qed

lemma outcome_is_end_trial: "pres (outcome_is v) end_trial"
  by (rule pres_intros | simp only: composite_defs | simp add: leaf_defs outcome_is_def split: option.splits status.splits)+

lemma outcome_is_dispense: "pres (outcome_is v)
  (cond (\<lambda>s. \<not> truthy (water_at_cue_onset s))
         (with_current_spout (\<lambda>c. lookup ''reward_duration_ms'' (\<lambda>d.
            dispense_water_with callback_sleep c d)))
         skip)"
  by (rule pres_intros | simp only: composite_defs | simp add: leaf_defs outcome_is_def split: option.splits status.splits)+

text \<open>
  What the two grasp callbacks and \<open>end_trial\<close> do to the outcome.
\<close>

lemma callbacks_assign:
  "(status s = Normal \<longrightarrow> status (with_current_spout successful_grasp s) = Normal \<longrightarrow>
      outcome (reward_callback pin s) = 1) \<and>
   (status s = Normal \<longrightarrow> status (with_current_spout incorrect_grasp s) = Normal \<longrightarrow>
      outcome (incorrect_grasp_callback pin s) = 2) \<and>
   outcome (end_trial s) = outcome s"
proof (intro conjI impI)
  assume n: "status s = Normal" and g: "status (with_current_spout successful_grasp s) = Normal"
  let ?s2 = "(with_current_spout successful_grasp s)\<lparr>outcome := 1\<rparr>"
  have "outcome_is 1 ?s2" by (simp add: outcome_is_def)
  with outcome_is_dispense have "outcome_is 1 (cond (\<lambda>s. \<not> truthy (water_at_cue_onset s))
         (with_current_spout (\<lambda>c. lookup ''reward_duration_ms'' (\<lambda>d.
            dispense_water_with callback_sleep c d)))
         skip ?s2)" by (rule presD)
  with n g show "outcome (reward_callback pin s) = 1"
    by (simp add: reward_callback_def outcome_is_def)
next
  assume "status s = Normal" and "status (with_current_spout incorrect_grasp s) = Normal"
  then show "outcome (incorrect_grasp_callback pin s) = 2"
    by (simp add: incorrect_grasp_callback_def)
next
  have "outcome_is (outcome s) s" by (simp add: outcome_is_def)
  with outcome_is_end_trial have "outcome_is (outcome s) (end_trial s)" by (rule presD)
  then show "outcome (end_trial s) = outcome s" by (simp add: outcome_is_def)
qed

text \<open>
  C2 as stated fails: in the open trial a touch of spout 1 latches the outcome 2, and
  the touch of spout 0 that follows changes it to 1.
\<close>

theorem later_callback_changes_latched_outcome:
  "outcome (dispatch (Edge 23 True) open_trial) = 2 \<and>
   outcome (dispatch (Edge 27 True) (dispatch (Edge 23 True) open_trial)) = 1"
  by (simp add: open_trial_def prim_defs gpio_defs rpi_defs ses_defs)

section \<open>Cleaning up twice\<close>

text \<open>Driving a list of output lines to one level.\<close>

lemma outputs_done:
  assumes "status (foreach xs (\<lambda>x. gpio_output (p x) v) s) = Normal"
  shows "(\<forall>x\<in>set xs. gpio_level (foreach xs (\<lambda>x. gpio_output (p x) v) s) (p x) = v) \<and>
         gpio_direction (foreach xs (\<lambda>x. gpio_output (p x) v) s) = gpio_direction s \<and>
         gpio_detect (foreach xs (\<lambda>x. gpio_output (p x) v) s) = gpio_detect s \<and>
         trace (foreach xs (\<lambda>x. gpio_output (p x) v) s) = trace s \<and>
         rpi (foreach xs (\<lambda>x. gpio_output (p x) v) s) = rpi s"
  using assms
proof (induction xs arbitrary: s)
  case Nil
  then show ?case by (simp add: foreach_def)
next
  case (Cons x xs)
  let ?s1 = "gpio_output (p x) v s"
  from Cons.prems have n: "status s = Normal"
    unfolding foreach_def by (rule block_Normal)
  then have eq: "foreach (x # xs) (\<lambda>x. gpio_output (p x) v) s = foreach xs (\<lambda>x. gpio_output (p x) v) ?s1"
    by (simp add: foreach_def)
  with Cons.prems have n1: "status (foreach xs (\<lambda>x. gpio_output (p x) v) ?s1) = Normal" by simp
  then have s1: "status ?s1 = Normal"
    unfolding foreach_def by (rule block_Normal)
  with n have ok: "gpio_mode s \<and> gpio_direction s (p x) = Some GPIO_OUT"
    by (auto simp: gpio_output_def raise_def split: if_splits)
  then have upd: "?s1 = s\<lparr>gpio_level := (gpio_level s)(p x := v)\<rparr>"
    by (simp add: gpio_output_def)
  note ih = Cons.IH [OF n1]
  have dir: "gpio_direction (foreach xs (\<lambda>x. gpio_output (p x) v) ?s1) = gpio_direction s"
    using ih upd by simp
  have "gpio_level (foreach xs (\<lambda>x. gpio_output (p x) v) ?s1) (p x) = v"
  proof (cases "x \<in> set xs")
    case True
    with ih show ?thesis by blast
  next
    case False
    have "pres (\<lambda>s. gpio_level s (p x) = v) (foreach xs (\<lambda>y. gpio_output (p y) v))"
      by (rule pres_intros | simp add: pres_def gpio_output_def raise_def)+
    moreover have "gpio_level ?s1 (p x) = v" by (simp add: upd)
    ultimately show ?thesis by (rule presD)
  qed
  with ih upd show ?case unfolding eq by simp
qed

lemma outputs_refused:
  assumes "\<not> gpio_mode s" and "status s = Normal" and "xs \<noteq> []"
  shows "foreach xs (\<lambda>x. gpio_output (p x) v) s = raise RuntimeError s"
proof (cases xs)
  case Nil
  with assms show ?thesis by simp
next
  case (Cons x ys)
  with assms show ?thesis
    by (simp add: foreach_def gpio_output_def raise_def block_not_Normal)
qed

lemma cleanup_unfold:
  assumes "status s = Normal" and "rpi s = Some r"
  shows "cleanup s =
    block [gpio_cleanup] (foreach (spouts r) (\<lambda>spout. gpio_output (solenoid spout) False)
      (emit (Call Cleanup) s))"
  using assms by (simp add: cleanup_def emit_def with_rpi_def)

text \<open>
  C9, as amended.  A cleanup that returns leaves every line that was an output
  (solenoids and cues) off and every pin released, with no edge detection and no
  numbering mode.  A second cleanup leaves the hardware as the first one left it, but
  it does not return when the backend has a spout: its first write to a solenoid raises
  \<open>RuntimeError\<close>, the channel being no longer set up.
\<close>

theorem cleanup_twice:
  assumes "status s = Normal" and "rpi s = Some r" and "status (cleanup s) = Normal"
  shows "(\<forall>spout\<in>set (spouts r). \<not> gpio_level (cleanup s) (solenoid spout)) \<and>
         (\<forall>p. gpio_direction s p = Some GPIO_OUT \<longrightarrow> \<not> gpio_level (cleanup s) p) \<and>
         hardware (cleanup s) = (False, Map.empty, gpio_level (cleanup s), Map.empty) \<and>
         hardware (cleanup (cleanup s)) = hardware (cleanup s) \<and>
         (spouts r \<noteq> [] \<longrightarrow> status (cleanup (cleanup s)) = Raised RuntimeError)"
proof -
  let ?s0 = "emit (Call Cleanup) s"
  let ?s1 = "foreach (spouts r) (\<lambda>spout. gpio_output (solenoid spout) False) ?s0"
  have c: "cleanup s = block [gpio_cleanup] ?s1"
    using assms(1,2) by (rule cleanup_unfold)
  with assms(3) have n1: "status ?s1 = Normal" by (metis block_Normal)
  with c have c1: "cleanup s = gpio_cleanup ?s1" by simp
  note o = outputs_done [OF n1]
  have dir: "gpio_direction ?s1 = gpio_direction s" using o by (simp add: emit_def)
  have sol: "\<forall>spout\<in>set (spouts r). gpio_direction s (solenoid spout) = Some GPIO_OUT \<or> \<not> gpio_level ?s1 (solenoid spout)"
    using o by simp
  have 1: "\<forall>spout\<in>set (spouts r). \<not> gpio_level (cleanup s) (solenoid spout)"
    using o by (simp add: c1 gpio_cleanup_def)
  have 2: "\<forall>p. gpio_direction s p = Some GPIO_OUT \<longrightarrow> \<not> gpio_level (cleanup s) p"
    by (simp add: c1 gpio_cleanup_def dir)
  have 3: "hardware (cleanup s) = (False, Map.empty, gpio_level (cleanup s), Map.empty)"
    by (simp add: c1 gpio_cleanup_def hardware_def)
  have r1: "rpi (cleanup s) = Some r"
    using o assms(2) by (simp add: c1 gpio_cleanup_def emit_def)
  have m1: "\<not> gpio_mode (cleanup s)" by (simp add: c1 gpio_cleanup_def)
  let ?t0 = "emit (Call Cleanup) (cleanup s)"
  have c2: "cleanup (cleanup s) =
    block [gpio_cleanup] (foreach (spouts r) (\<lambda>spout. gpio_output (solenoid spout) False) ?t0)"
    using assms(3) r1 by (rule cleanup_unfold)
  have 45: "hardware (cleanup (cleanup s)) = hardware (cleanup s) \<and>
         (spouts r \<noteq> [] \<longrightarrow> status (cleanup (cleanup s)) = Raised RuntimeError)"
  proof (cases "spouts r = []")
    case True
    then have "cleanup (cleanup s) = gpio_cleanup ?t0"
      using c2 assms(3) by (simp add: foreach_def emit_def)
    with True 3 show ?thesis
      by (auto simp: gpio_cleanup_def hardware_def emit_def)
  next
    case False
    have "foreach (spouts r) (\<lambda>spout. gpio_output (solenoid spout) False) ?t0 = raise RuntimeError ?t0"
      using m1 assms(3) False by (intro outputs_refused) (simp_all add: emit_def)
    with c2 have "cleanup (cleanup s) = raise RuntimeError ?t0"
      by (simp add: raise_def)
    then show ?thesis by (simp add: raise_def emit_def hardware_def)
  qed
  from 1 2 3 45 show ?thesis by simp
qed

text \<open>The open trial, whose cue line (pin 5) is on and whose solenoid line is pin 25.\<close>

theorem cleanup_twice_witness:
  "status open_trial = Normal \<and>
   rpi open_trial \<noteq> None \<and>
   status (cleanup open_trial) = Normal \<and>
   gpio_level open_trial 5 \<and>
   \<not> gpio_level (cleanup open_trial) 5 \<and>
   \<not> gpio_level (cleanup open_trial) 25 \<and>
   hardware (cleanup (cleanup open_trial)) = hardware (cleanup open_trial) \<and>
   status (cleanup (cleanup open_trial)) = Raised RuntimeError"
proof -
  have 1: "status open_trial = Normal"
    by (simp add: open_trial_def prim_defs gpio_defs rpi_defs ses_defs)
  have 2: "rpi open_trial = Some
     \<lparr>button_pins = [4, 13], paw_pins = [17, 18],
      spouts = [\<lparr>cue = 5, touch = 27, solenoid = 25, cue_timepoints = [0], touch_timepoints = []\<rparr>,
                \<lparr>cue = 22, touch = 23, solenoid = 24, cue_timepoints = [], touch_timepoints = []\<rparr>],
      lift_timepoints = [[], []]\<rparr>"
    by (simp add: open_trial_def prim_defs gpio_defs rpi_defs ses_defs)
  have 3: "status (cleanup open_trial) = Normal"
    by (simp add: open_trial_def prim_defs gpio_defs rpi_defs ses_defs)
  have 4: "gpio_level open_trial 5"
    by (simp add: open_trial_def prim_defs gpio_defs rpi_defs ses_defs)
  have 5: "gpio_direction open_trial 5 = Some GPIO_OUT"
    by (simp add: open_trial_def prim_defs gpio_defs rpi_defs ses_defs)
  from cleanup_twice [OF 1 2 3] 1 2 3 4 5 show ?thesis by simp
qed

text \<open>
  C9 as stated fails: after a cleanup in the open trial, a second cleanup raises.
\<close>

theorem second_cleanup_raises:
  "status (cleanup open_trial) = Normal \<and>
   status (cleanup (cleanup open_trial)) = Raised RuntimeError"
  by (simp add: open_trial_def prim_defs gpio_defs rpi_defs ses_defs)

lemmas single_defs = single_spout_def never_incorrect_def unarmed_def

lemma pres_slice_1:
  "pres I (raise TypeError) \<Longrightarrow> (\<And>l. length l \<le> 1 \<Longrightarrow> pres I (k l)) \<Longrightarrow>
   pres I (py_slice_to xs (PInt 1) k)"
  by (simp add: pres_def py_slice_to_def)

lemma unarmed_second_spout:
  "pres unarmed (with_rpi (\<lambda>r. if length (spouts r) > 1 then f r else skip))"
  by (auto simp: pres_def with_rpi_def unarmed_def skip_def raise_def split: option.splits)

lemma unarmed_start_trial: "pres unarmed (start_trial c RewardCallback IncorrectGraspCallback)"
  unfolding start_trial_def
  by (rule unarmed_second_spout pres_intros | simp only: composite_defs
      | simp add: leaf_defs unarmed_def split: option.splits)+

lemma single_second_spout:
  "pres single_spout (with_rpi (\<lambda>r. if length (spouts r) > 1 then f r else skip))"
  by (auto simp: pres_def with_rpi_def single_defs skip_def raise_def split: option.splits)

lemma single_no_incorrect_branch:
  "pres single_spout g \<Longrightarrow> pres single_spout (cond (\<lambda>s. outcome s = 2) f g)"
  by (simp add: pres_def cond_def single_defs)

lemma single_callback:
  "cb \<noteq> IncorrectGraspCallback \<Longrightarrow> pres single_spout (swallow (run_callback cb pin))"
  by (cases cb) (simp_all add: run_callback_def,
    (rule pres_intros | simp only: composite_defs
      | simp add: leaf_defs single_defs split: option.splits status.splits)+)

lemma single_edge_detected: "pres single_spout (edge_detected pin v)"
proof (rule presI)
  fix s :: state
  assume s: "single_spout s"
  show "single_spout (edge_detected pin v s)"
  proof (cases "gpio_detect s pin")
    case None
    with s show ?thesis by (simp add: edge_detected_def)
  next
    case (Some ecb)
    obtain e cb where ecb: "ecb = (e, cb)" by (cases ecb)
    with s Some have "cb \<noteq> IncorrectGraspCallback" by (auto simp: single_defs)
    then have "pres single_spout (swallow (run_callback cb pin))" by (rule single_callback)
    with s have "single_spout (swallow (run_callback cb pin) s)" by (rule presD [rotated])
    with s Some ecb show ?thesis by (simp add: edge_detected_def)
  qed
qed

lemma single_sleep: "pres single_spout (sleep d)"
  by (rule single_edge_detected pres_intros | simp only: composite_defs
      | simp add: leaf_defs single_defs split: option.splits status.splits)+

lemma single_run_loop: "pres single_spout (run_loop fuel n)"
  by (rule single_sleep single_second_spout single_no_incorrect_branch pres_intros
      | simp only: composite_defs
      | simp add: leaf_defs single_defs split: option.splits status.splits)+

lemma single_end_session: "pres single_spout (end_session m)"
  by (rule pres_intros | simp only: composite_defs
      | simp add: leaf_defs single_defs split: option.splits status.splits)+

lemma single_rpi_init: "pres single_spout (lookup ''spout_count'' rpi_init)"
proof (rule presI)
  fix s :: state
  assume s: "single_spout s"
  have "pres single_spout (rpi_init (PInt 1))"
    unfolding rpi_init_def
    by (rule pres_slice_1 pres_intros | simp only: composite_defs
      | simp add: leaf_defs single_defs split: option.splits status.splits)+
  with s have "single_spout (rpi_init (PInt 1) s)" by (rule presD [rotated])
  with s show "single_spout (lookup ''spout_count'' rpi_init s)"
    by (simp add: lookup_def single_spout_def)
qed

lemma single_begin_session:
  assumes "config ''spout_count'' = Some (PInt 1)"
  shows "single_spout (begin_session config (Session d clk rnd evs))"
  unfolding begin_session_def
  apply (rule block_tail)
    apply (simp, intro conjI)
  by (rule pres_intros | simp only: composite_defs
      | simp add: leaf_defs single_defs Session_def assms split: option.splits status.splits)+

lemma single_run:
  assumes "config ''spout_count'' = Some (PInt 1)"
  shows "single_spout (run fuel config (Session d clk rnd evs))"
  unfolding run_def
  apply (rule block_tail)
    apply (simp, intro conjI)
  by (rule single_run_loop single_end_session single_rpi_init single_begin_session [of config, OF assms]
        pres_intros | simp only: composite_defs
      | simp add: leaf_defs single_defs Session_def split: option.splits status.splits)+

text \<open>
  C10.  On a backend of one spout \<open>start_trial\<close> arms no pin with the incorrect-grasp
  callback; and in a session configured with \<open>spout_count = 1\<close>, whatever the events,
  the clock and the draws, no incorrect grasp is recorded, no trial is announced as
  incorrect, and no pin is left armed with the callback.
\<close>

theorem single_spout_never_incorrect:
  "(rpi s = Some r \<longrightarrow> length (spouts r) \<le> 1 \<longrightarrow>
      (\<forall>p e. gpio_detect s p \<noteq> Some (e, IncorrectGraspCallback)) \<longrightarrow>
      (\<forall>p e. gpio_detect (start_trial c RewardCallback IncorrectGraspCallback s) p
                \<noteq> Some (e, IncorrectGraspCallback))) \<and>
   (config ''spout_count'' = Some (PInt 1) \<longrightarrow>
      Say IncorrectReach \<notin> set (trace (run fuel config (Session d clk rnd evs))) \<and>
      (\<forall>c. Call (IncorrectGrasp c) \<notin> set (trace (run fuel config (Session d clk rnd evs)))) \<and>
      outcome (run fuel config (Session d clk rnd evs)) \<noteq> 2 \<and>
      (\<forall>p e. gpio_detect (run fuel config (Session d clk rnd evs)) p
                \<noteq> Some (e, IncorrectGraspCallback)))"
proof (intro conjI impI)
  assume "rpi s = Some r" "length (spouts r) \<le> 1"
    "\<forall>p e. gpio_detect s p \<noteq> Some (e, IncorrectGraspCallback)"
  then have "unarmed s" by (simp add: unarmed_def)
  with unarmed_start_trial have "unarmed (start_trial c RewardCallback IncorrectGraspCallback s)"
    by (rule presD)
  then show "\<forall>p e. gpio_detect (start_trial c RewardCallback IncorrectGraspCallback s) p
                \<noteq> Some (e, IncorrectGraspCallback)"
    by (simp add: unarmed_def)
next
  assume c: "config ''spout_count'' = Some (PInt 1)"
  note single_run [of config fuel d clk rnd evs, OF c, unfolded single_defs]
  then show "Say IncorrectReach \<notin> set (trace (run fuel config (Session d clk rnd evs)))"
    "\<forall>c. Call (IncorrectGrasp c) \<notin> set (trace (run fuel config (Session d clk rnd evs)))"
    "outcome (run fuel config (Session d clk rnd evs)) \<noteq> 2"
    "\<forall>p e. gpio_detect (run fuel config (Session d clk rnd evs)) p
                \<noteq> Some (e, IncorrectGraspCallback)"
    by simp_all
qed

theorem single_spout_never_incorrect_witness:
  "rpi single_ready = Some
     \<lparr>button_pins = [4, 13], paw_pins = [17, 18],
      spouts = [\<lparr>cue = 5, touch = 27, solenoid = 25, cue_timepoints = [], touch_timepoints = []\<rparr>],
      lift_timepoints = [[], []]\<rparr> \<and>
   (\<forall>p e. gpio_detect single_ready p \<noteq> Some (e, IncorrectGraspCallback)) \<and>
   (\<forall>p e. gpio_detect (start_trial 0 RewardCallback IncorrectGraspCallback single_ready) p
             \<noteq> Some (e, IncorrectGraspCallback)) \<and>
   one_spout_config ''spout_count'' = Some (PInt 1) \<and>
   Call (StartTrial 0) \<in> set (trace one_spout_session) \<and>
   Say IncorrectReach \<notin> set (trace one_spout_session) \<and>
   outcome one_spout_session \<noteq> 2"
proof -
  have 1: "rpi single_ready = Some
     \<lparr>button_pins = [4, 13], paw_pins = [17, 18],
      spouts = [\<lparr>cue = 5, touch = 27, solenoid = 25, cue_timepoints = [], touch_timepoints = []\<rparr>],
      lift_timepoints = [[], []]\<rparr>"
    by (simp add: single_ready_def prim_defs gpio_defs rpi_defs ses_defs)
  have 2: "\<forall>p e. gpio_detect single_ready p \<noteq> Some (e, IncorrectGraspCallback)"
    by (simp add: single_ready_def prim_defs gpio_defs rpi_defs ses_defs)
  have 3: "one_spout_config ''spout_count'' = Some (PInt 1)"
    by (simp add: one_spout_config_def demo_config_def)
  have 4: "Call (StartTrial 0) \<in> set (trace one_spout_session)"
    by (simp add: one_spout_session_def one_spout_config_def demo_config_def
        prim_defs gpio_defs rpi_defs ses_defs)
  from 1 2 3 4
    single_spout_never_incorrect [of single_ready _ 0 one_spout_config "Suc (Suc (Suc 0))"
      Map.empty "\<lambda>n. real n" "\<lambda>n. 0"
      "[[Edge 17 True, Edge 18 True], [Edge 23 True], [Edge 23 False], [Edge 23 True]]"]
  show ?thesis by (simp add: one_spout_session_def)
qed

lemma built_sleep: "pres built (sleep d)"
  by (rule pres_intros | simp only: composite_defs
      | simp add: leaf_defs built_def split: option.splits status.splits)+

lemma built_run_loop: "pres built (run_loop fuel n)"
  by (rule built_sleep pres_intros | simp only: composite_defs
      | simp add: leaf_defs built_def split: option.splits status.splits)+

lemma built_end_session: "pres built (end_session m)"
  by (rule pres_intros | simp only: composite_defs
      | simp add: leaf_defs built_def split: option.splits status.splits)+

lemma built_rpi_init:
  assumes "status s = Normal"
  shows "built (rpi_init (PInt k) s)"
proof -
  let ?s2 = "block [emit (Call Init),
       py_slice_to PIN_NUMBERS_spouts (PInt k) (\<lambda>sp s.
         s\<lparr>rpi := Some \<lparr>button_pins = PIN_NUMBERS_buttons,
                         paw_pins = PIN_NUMBERS_paw_sensors,
                         spouts = sp, lift_timepoints = []\<rparr>\<rparr>)] s"
  let ?rest = "[initialise_pins, update_rpi (\<lambda>r. r\<lparr>lift_timepoints := [[], []]\<rparr>),
       (\<lambda>s. s\<lparr>sigint_handler := CleanupHandler\<rparr>)]"
  have "rpi_init (PInt k) s = block ?rest ?s2"
    unfolding rpi_init_def by (simp only: block_append [symmetric] append.simps)
  moreover have "built ?s2"
    using assms by (simp add: built_def emit_def py_slice_to_def)
  moreover have "pres built (block ?rest)"
    by (rule pres_intros | simp only: composite_defs
      | simp add: leaf_defs built_def split: option.splits status.splits)+
  ultimately show ?thesis by (simp add: pres_def)
qed

lemma begin_session_ok:
  assumes "status s = Normal"
    and "config ''shaping'' = Some sh"
    and "config ''iti'' = Some (PList [a, b])"
    and "config ''spout_count'' = Some n"
    and "config ''duration'' = Some du"
    and "config ''cue_duration_ms'' = Some cd"
  shows "status (begin_session config s) = Normal \<and>
         data (begin_session config s) ''spout_count'' = Some n"
  using assms
  by (simp add: begin_session_def display_training_settings_def map_add_def
      cond_def emit_def skip_def store_def lookup_def as_items_def)

text \<open>
  A run on a configuration that has the five keys read at the start constructs the
  backend and keeps the spout count.
\<close>

lemma run_builds:
  assumes "status s = Normal"
    and "config ''shaping'' = Some sh"
    and "config ''iti'' = Some (PList [a, b])"
    and "config ''spout_count'' = Some (PInt k)"
    and "config ''duration'' = Some du"
    and "config ''cue_duration_ms'' = Some cd"
  shows "rpi (run fuel config s) \<noteq> None \<and>
         Call Init \<in> set (trace (run fuel config s)) \<and>
         data (run fuel config s) ''spout_count'' = Some (PInt k)"
proof -
  let ?s1 = "begin_session config s"
  note ok = begin_session_ok [OF assms]
  let ?s2 = "rpi_init (PInt k) ?s1"
  let ?rest = "[wait_to_start,
       (\<lambda>s. s\<lparr>sigint_handler := EndSessionManually\<rparr>),
       time_time (\<lambda>t s. s\<lparr>run_now := t\<rparr>),
       reading run_now (\<lambda>now. store ''start_time'' (PFloat now)),
       lookup ''duration'' (\<lambda>v. as_num v (\<lambda>d.
         reading run_now (\<lambda>now. store ''end_time'' (PFloat (now + d))))),
       (\<lambda>s. s\<lparr>trial_count := 0\<rparr>),
       run_loop fuel fuel,
       end_session False]"
  have b: "built ?s2" using ok by (intro built_rpi_init) simp
  have p: "pres built (block ?rest)"
    by (rule built_run_loop built_end_session pres_intros | simp only: composite_defs
      | simp add: leaf_defs built_def split: option.splits status.splits)+
  have "run fuel config s = block (lookup ''spout_count'' rpi_init # ?rest) ?s1"
    using assms(1) by (simp add: run_def)
  also have "\<dots> = (if status ?s2 = Normal then block ?rest ?s2 else ?s2)"
    using ok by (simp add: lookup_def block_not_Normal)
  finally have e: "run fuel config s = (if status ?s2 = Normal then block ?rest ?s2 else ?s2)" .
  have br: "built (block ?rest ?s2)" using p b by (rule presD)
  have "built (run fuel config s)"
  proof (cases "status ?s2 = Normal")
    case True
    then have "run fuel config s = block ?rest ?s2" by (simp only: e if_True simp_thms)
    with br show ?thesis by (simp only:)
  next
    case False
    then have "run fuel config s = ?s2" by (simp only: e if_False simp_thms)
    with b show ?thesis by (simp only:)
  qed
  moreover have "data (run fuel config s) ''spout_count'' = Some (PInt k)"
    using run_keeps [of "''spout_count''" s fuel config] assms
    by (simp add: written_def map_add_def)
  ultimately show ?thesis by (simp add: built_def)
qed

text \<open>
  C1 as stated fails: with three spouts and reversed interval bounds \<open>run\<close> raises
  nothing; it constructs the backend and ends the session normally.
\<close>

theorem bad_configuration_is_accepted:
  "status bad_session = Normal \<and>
   trace bad_session =
     [Say TrainingSettings, Call Init, Call WaitToStart, Call Cleanup, Call (CollateData False),
      Call DisplayTrainingResults, Say (TrainingResults 2 0 2)]"
proof -
  have 1: "status bad_session = Normal"
    by (simp add: bad_session_def bad_config_def demo_config_def
        prim_defs gpio_defs rpi_defs ses_defs)
  have 2: "trace bad_session =
     [Say TrainingSettings, Call Init, Call WaitToStart, Call Cleanup, Call (CollateData False),
      Call DisplayTrainingResults, Say (TrainingResults 2 0 2)]"
    by (simp add: bad_session_def bad_config_def demo_config_def
        prim_defs gpio_defs rpi_defs ses_defs)
  from 1 2 show ?thesis by simp
qed

lemma ext_refl: "ext A (trace s) s"
  by (simp add: ext_def)

lemma ext_emit: "A a \<Longrightarrow> pres (ext A t0) (emit a)"
  by (auto simp: pres_def ext_def emit_def)





lemma trial_split:
  "trial fuel s = block [end_trial, trial_verdict] (block (trial_opening fuel) s)"
  unfolding trial_def trial_opening_def trial_verdict_def
  by (simp only: block_append [symmetric] append.simps)



lemma uniform_bounds:
  assumes "a \<le> b"
  shows "a \<le> uniform a b k \<and> uniform a b k \<le> b"
proof -
  have 0: "0 \<le> random_unit k" by (simp add: random_unit_def)
  have "real (k mod 2 ^ 53) \<le> 2 ^ 53"
    using mod_less_divisor [of "2 ^ 53" k] by (simp add: less_imp_le)
  then have 1: "random_unit k \<le> 1" by (simp add: random_unit_def)
  from assms have ba: "0 \<le> b - a" by simp
  from ba 0 have "0 \<le> (b - a) * random_unit k" by (rule mult_nonneg_nonneg)
  moreover from 1 ba have "(b - a) * random_unit k \<le> (b - a) * 1" by (rule mult_left_mono)
  ultimately show ?thesis by (simp add: uniform_def)
qed

lemma uniform_point: "uniform a a k = a"
  by (simp add: uniform_def)

lemma block_Cons_Normal: "status s = Normal \<Longrightarrow> block (f # fs) s = block fs (f s)"
  by simp

lemma block_one: "status s = Normal \<Longrightarrow> block [f] s = f s"
  by simp

lemma iti_prepare_split:
  "status s = Normal \<Longrightarrow> iti_prepare fuel s = block iti_set (wait_for_rest fuel s)"
  unfolding iti_prepare_def iti_set_def by (rule block_Cons_Normal)

lemma iti_set_result:
  assumes "status (block iti_set w) = Normal"
  shows "\<not> iti_broken (block iti_set w) \<and>
         trial_end (block iti_set w) = iti_now (block iti_set w) + iti_duration (block iti_set w) \<and>
         (\<exists>v x y lo hi k. data (block iti_set w) ''iti'' = Some v \<and> items_of v = Some [x, y] \<and>
            num_of x = Some lo \<and> num_of y = Some hi \<and>
            iti_duration (block iti_set w) = uniform lo hi k / 1000)"
proof (cases "status w = Normal")
  case False
  with assms show ?thesis by (simp add: block_not_Normal)
next
  case True
  from assms True obtain v where v: "data w ''iti'' = Some v"
    by (cases "data w ''iti''")
       (simp_all add: iti_set_def time_time_def lookup_def raise_def)
  from assms True v obtain l where l: "items_of v = Some l"
    by (cases "items_of v")
       (simp_all add: iti_set_def time_time_def lookup_def random_uniform_def as_items_def raise_def)
  from assms True v l obtain x y where xy: "l = [x, y]"
    by (cases l rule: list.exhaust [case_product list.exhaust [case_product list.exhaust]])
       (simp_all add: iti_set_def time_time_def lookup_def random_uniform_def as_items_def
          raise_def split: list.splits)
  from assms True v l xy obtain lo where lo: "num_of x = Some lo"
    by (cases "num_of x")
       (simp_all add: iti_set_def time_time_def lookup_def random_uniform_def as_items_def
          as_num_def raise_def)
  from assms True v l xy lo obtain hi where hi: "num_of y = Some hi"
    by (cases "num_of y")
       (simp_all add: iti_set_def time_time_def lookup_def random_uniform_def as_items_def
          as_num_def raise_def)
  from True v l xy lo hi show ?thesis
    by (simp add: iti_set_def time_time_def lookup_def random_uniform_def as_items_def
        as_num_def draw_def reading_def emit_def)
       (rule exI [of _ "draws w (drawn w)"], rule refl)
qed

lemma countdown_exit:
  "status (countdown m s) = Normal \<Longrightarrow>
   iti_broken (countdown m s) \<or> trial_end (countdown m s) \<le> iti_now (countdown m s)"
proof (induction m arbitrary: s)
  case 0
  then show ?case by (auto simp: starve_def not_less split: if_splits)
next
  case (Suc m)
  show ?case
  proof (cases "iti_now s < trial_end s \<and> \<not> iti_broken s")
    case False
    then show ?thesis by (auto simp: not_less)
  next
    case True
    let ?sa = "block [sleep (20 / 1000), time_time (\<lambda>t s. s\<lparr>iti_now := t\<rparr>)] s"
    have "countdown (Suc m) s =
        block ([sleep (20 / 1000), time_time (\<lambda>t s. s\<lparr>iti_now := t\<rparr>)] @ [countdown m]) s"
      using True by simp
    then have e: "countdown (Suc m) s = block [countdown m] ?sa"
      by (simp only: block_append)
    show ?thesis
    proof (cases "status ?sa = Normal")
      case False
      then have "block [countdown m] ?sa = ?sa" by (rule block_not_Normal)
      with e have "countdown (Suc m) s = ?sa" by (rule trans)
      with Suc.prems False show ?thesis by (simp only:)
    next
      case n: True
      then have "block [countdown m] ?sa = countdown m ?sa" by (rule block_one)
      with e have c: "countdown (Suc m) s = countdown m ?sa" by (rule trans)
      with Suc.prems have "status (countdown m ?sa) = Normal" by (simp only:)
      then have "iti_broken (countdown m ?sa) \<or>
          trial_end (countdown m ?sa) \<le> iti_now (countdown m ?sa)"
        by (rule Suc.IH)
      with c show ?thesis by (simp only:)
    qed
  qed
qed

lemma countdown_broken: "iti_broken s \<Longrightarrow> countdown m s = s"
  by (cases m) simp_all

lemma due_sleep: "pres (due e) (sleep d)"
  by (rule pres_intros | simp only: composite_defs
      | simp add: leaf_defs due_def split: option.splits status.splits)+

lemma due_countdown: "pres (due e) (countdown m)"
  by (rule due_sleep pres_intros | simp only: composite_defs
      | simp add: leaf_defs due_def split: option.splits status.splits)+

lemma flag_sleep: "pres iti_broken (sleep d)"
  by (rule pres_intros | simp only: composite_defs
      | simp add: leaf_defs split: option.splits status.splits)+

text \<open>The state in which the loop ends is the one in which the countdown of a pass ends.\<close>

lemma iti_loop_last:
  "status (iti_loop fuel n s) = Normal \<Longrightarrow>
   \<exists>s0. status s0 = Normal \<and> status (iti_prepare fuel s0) = Normal \<and>
        iti_loop fuel n s = countdown fuel (iti_prepare fuel s0) \<and>
        \<not> iti_broken (iti_loop fuel n s)"
proof (induction n arbitrary: s)
  case 0
  then show ?case by (simp add: starve_def)
next
  case (Suc n)
  let ?s1 = "iti_prepare fuel s"
  let ?s2 = "countdown fuel ?s1"
  from Suc.prems have n0: "status s = Normal"
    by (cases "status s = Normal") simp_all
  from Suc.prems n0 have n1: "status ?s1 = Normal"
    by (cases "status ?s1 = Normal") simp_all
  from Suc.prems n0 n1 have n2: "status ?s2 = Normal"
    by (cases "status ?s2 = Normal") simp_all
  have e: "iti_loop fuel (Suc n) s = cond iti_broken (iti_loop fuel n) skip ?s2"
    using n0 n1 n2 by simp
  show ?case
  proof (cases "iti_broken ?s2")
    case True
    with e have c: "iti_loop fuel (Suc n) s = iti_loop fuel n ?s2" by (simp add: cond_def)
    with Suc.prems have "status (iti_loop fuel n ?s2) = Normal" by (simp only:)
    then have "\<exists>s0. status s0 = Normal \<and> status (iti_prepare fuel s0) = Normal \<and>
        iti_loop fuel n ?s2 = countdown fuel (iti_prepare fuel s0) \<and>
        \<not> iti_broken (iti_loop fuel n ?s2)"
      by (rule Suc.IH)
    with c show ?thesis by (simp only:)
  next
    case False
    with e have c: "iti_loop fuel (Suc n) s = ?s2" by (simp add: cond_def skip_def)
    from n0 n1 False have "status s = Normal \<and> status (iti_prepare fuel s) = Normal \<and>
        ?s2 = countdown fuel (iti_prepare fuel s) \<and> \<not> iti_broken ?s2" by simp
    then have "\<exists>s0. status s0 = Normal \<and> status (iti_prepare fuel s0) = Normal \<and>
        ?s2 = countdown fuel (iti_prepare fuel s0) \<and> \<not> iti_broken ?s2" by (rule exI)
    with c show ?thesis by (simp only:)
  qed
qed

lemma iti_split:
  "inter_trial_interval fuel s = block [disable_sensors] (block (iti_front fuel) s)"
  unfolding inter_trial_interval_def iti_front_def
  by (simp only: block_append [symmetric] append.simps)

lemma not_disable_sleep: "pres (ext not_disable t0) (sleep d)"
  by (rule ext_emit pres_intros | simp only: composite_defs
      | simp add: leaf_defs ext_def not_disable_def split: option.splits status.splits)+

lemma not_disable_front: "pres (ext not_disable t0) (block (iti_front fuel))"
  unfolding iti_front_def
  by (rule not_disable_sleep ext_emit pres_intros | simp only: composite_defs
      | simp add: leaf_defs ext_def not_disable_def split: option.splits status.splits)+

lemma disable_sensors_effect:
  assumes "status s = Normal"
  shows "disabled s (disable_sensors s)"
proof -
  let ?a = "with_rpi (\<lambda>r. foreach (paw_pins r) gpio_remove_event_detect)"
  let ?b = "with_rpi (\<lambda>r. foreach (spouts r) (\<lambda>spout. gpio_remove_event_detect (touch spout)))"
  let ?s0 = "emit (Call DisableSensors) s"
  have 0: "disabled s ?s0" by (simp add: disabled_def emit_def)
  have p: "pres (disabled s) (block [?a, ?b])"
    by (rule pres_intros | simp add: leaf_defs disabled_def split: option.splits status.splits)+
  have "disabled s (block [?a, ?b] ?s0)"
    using p 0 by (rule presD)
  moreover have "disable_sensors s = block [?a, ?b] ?s0"
    using assms by (simp add: disable_sensors_def emit_def)
  ultimately show ?thesis by (simp only:)
qed

text \<open>What a return of the inter-trial interval implies.\<close>

lemma iti_exit:
  assumes "status s = Normal" and "status (inter_trial_interval fuel s) = Normal"
  shows "\<exists>s0 s1 v x y lo hi k pre.
        status s0 = Normal \<and> s1 = iti_prepare fuel s0 \<and> status s1 = Normal \<and>
        data s1 ''iti'' = Some v \<and> items_of v = Some [x, y] \<and>
        num_of x = Some lo \<and> num_of y = Some hi \<and>
        iti_duration s1 = uniform lo hi k / 1000 \<and>
        \<not> iti_broken s1 \<and> trial_end s1 = iti_now s1 + iti_duration s1 \<and>
        inter_trial_interval fuel s = disable_sensors (countdown fuel s1) \<and>
        \<not> iti_broken (inter_trial_interval fuel s) \<and>
        trial_end s1 \<le> iti_now (inter_trial_interval fuel s) \<and>
        trace (inter_trial_interval fuel s) = trace s @ pre @ [Call DisableSensors] \<and>
        list_all not_disable pre"
proof -
  let ?sL = "block (iti_front fuel) s"
  note split = iti_split [of fuel s]
  have nL: "status ?sL = Normal"
    using assms(2) split by (cases "status ?sL = Normal") (simp_all add: block_not_Normal)
  then have fin: "inter_trial_interval fuel s = disable_sensors ?sL"
    using split by simp
  have "ext not_disable (trace s) ?sL"
    using not_disable_front ext_refl by (rule presD)
  then obtain pre where pre: "trace ?sL = trace s @ pre" "list_all not_disable pre"
    by (auto simp: ext_def)
  let ?sP = "block [monitor_sensors ResetItiCallback IncreaseSpontReachesCallback,
      set_button_callback 0 ReverseShapingCallback,
      lookup ''shaping'' (\<lambda>v s. s\<lparr>water_at_cue_onset := v\<rparr>)] s"
  have "?sL = block [iti_loop fuel fuel] ?sP"
    unfolding iti_front_def by (simp only: block_append [symmetric] append.simps)
  with nL have nP: "status ?sP = Normal" and eL: "?sL = iti_loop fuel fuel ?sP"
    by (cases "status ?sP = Normal"; simp add: block_not_Normal)+
  from nL eL have "status (iti_loop fuel fuel ?sP) = Normal" by (simp only:)
  from iti_loop_last [OF this] eL obtain s0 where
    s0: "status s0 = Normal" "status (iti_prepare fuel s0) = Normal"
      "?sL = countdown fuel (iti_prepare fuel s0)" "\<not> iti_broken ?sL"
    by auto
  let ?s1 = "iti_prepare fuel s0"
  have "status (block iti_set (wait_for_rest fuel s0)) = Normal"
    using s0(1,2) by (simp only: iti_prepare_split)
  from iti_set_result [OF this] s0(1) have
    r: "\<not> iti_broken ?s1 \<and> trial_end ?s1 = iti_now ?s1 + iti_duration ?s1 \<and>
       (\<exists>v x y lo hi k. data ?s1 ''iti'' = Some v \<and> items_of v = Some [x, y] \<and>
            num_of x = Some lo \<and> num_of y = Some hi \<and>
            iti_duration ?s1 = uniform lo hi k / 1000)"
    by (simp add: iti_prepare_split)
  then obtain v x y lo hi k where
    cfg: "data ?s1 ''iti'' = Some v" "items_of v = Some [x, y]"
      "num_of x = Some lo" "num_of y = Some hi" "iti_duration ?s1 = uniform lo hi k / 1000"
    by blast
  have "due (trial_end ?s1) (countdown fuel ?s1)"
    using due_countdown by (rule presD) (simp add: due_def)
  then have te: "trial_end ?sL = trial_end ?s1" using s0(3) by (simp add: due_def)
  from nL s0(3) have "status (countdown fuel ?s1) = Normal" by (simp only:)
  from countdown_exit [OF this] s0(3,4) te have el: "trial_end ?s1 \<le> iti_now ?sL"
    by simp
  from disable_sensors_effect [OF nL] fin have
    d: "trace (inter_trial_interval fuel s) = trace ?sL @ [Call DisableSensors]"
      "iti_broken (inter_trial_interval fuel s) = iti_broken ?sL"
      "iti_now (inter_trial_interval fuel s) = iti_now ?sL"
    by (simp_all add: disabled_def)
  have 1: "inter_trial_interval fuel s = disable_sensors (countdown fuel ?s1)"
    using fin s0(3) by (simp only:)
  have 2: "\<not> iti_broken (inter_trial_interval fuel s)" using d(2) s0(4) by simp
  have 3: "trial_end ?s1 \<le> iti_now (inter_trial_interval fuel s)" using d(3) el by simp
  have 4: "trace (inter_trial_interval fuel s) = trace s @ pre @ [Call DisableSensors]"
    using d(1) pre(1) by simp
  from r have 5: "\<not> iti_broken ?s1" and 6: "trial_end ?s1 = iti_now ?s1 + iti_duration ?s1"
    by simp_all
  from s0(1,2) cfg 5 6 1 2 3 4 pre(2) show ?thesis by blast
qed

text \<open>A pass whose countdown was broken is followed by another, which starts by
  \<open>wait_for_rest\<close>.\<close>

lemma any_sleep: "pres (ext any_action t0) (sleep d)"
  by (rule ext_emit pres_intros | simp only: composite_defs
      | simp add: leaf_defs ext_def any_action_def split: option.splits status.splits)+

lemma any_pass:
  "pres (ext any_action t0)
     (block [wait_for_rest_loop fuel, block iti_set, countdown fuel,
        cond iti_broken (iti_loop fuel n) skip])"
  unfolding iti_set_def
  by (rule any_sleep ext_emit pres_intros | simp only: composite_defs
      | simp add: leaf_defs ext_def any_action_def split: option.splits status.splits)+

lemma block_block: "block (block fs # gs) s = block gs (block fs s)"
  by (cases "status s = Normal") (simp_all add: block_not_Normal)

lemma pass_starts_by_wait:
  assumes "status s = Normal"
  shows "\<exists>t. trace (iti_loop fuel (Suc n) s) = trace s @ Call WaitForRest # t"
proof -
  let ?s0 = "emit (Call WaitForRest) s"
  let ?rest = "[wait_for_rest_loop fuel, block iti_set, countdown fuel,
        cond iti_broken (iti_loop fuel n) skip]"
  have n0: "status ?s0 = Normal" using assms by (simp add: emit_def)
  have w: "wait_for_rest fuel s = block [wait_for_rest_loop fuel] ?s0"
    using assms by (simp add: wait_for_rest_def)
  have "iti_loop fuel (Suc n) s =
      block [countdown fuel, cond iti_broken (iti_loop fuel n) skip] (iti_prepare fuel s)"
    using assms by simp
  also have "iti_prepare fuel s = block iti_set (block [wait_for_rest_loop fuel] ?s0)"
    using assms w by (simp only: iti_prepare_split)
  finally have e1: "iti_loop fuel (Suc n) s =
      block [countdown fuel, cond iti_broken (iti_loop fuel n) skip]
        (block iti_set (block [wait_for_rest_loop fuel] ?s0))" .
  have "block ?rest ?s0 =
      block ([wait_for_rest_loop fuel] @
        [block iti_set, countdown fuel, cond iti_broken (iti_loop fuel n) skip]) ?s0"
    by (simp only: append.simps)
  also have "\<dots> = block [block iti_set, countdown fuel, cond iti_broken (iti_loop fuel n) skip]
      (block [wait_for_rest_loop fuel] ?s0)"
    by (rule block_append)
  also have "\<dots> = block [countdown fuel, cond iti_broken (iti_loop fuel n) skip]
        (block iti_set (block [wait_for_rest_loop fuel] ?s0))"
    by (rule block_block)
  finally have e: "iti_loop fuel (Suc n) s = block ?rest ?s0"
    using e1 by (simp only:)
  have "ext any_action (trace ?s0) (block ?rest ?s0)"
    using any_pass ext_refl by (rule presD)
  then obtain t where "trace (block ?rest ?s0) = trace ?s0 @ t"
    by (auto simp: ext_def)
  with e have "trace (iti_loop fuel (Suc n) s) = trace s @ Call WaitForRest # t"
    by (simp add: emit_def)
  then show ?thesis by (rule exI)
qed

lemma iti_restart:
  assumes "status s = Normal" and "status (iti_prepare fuel s) = Normal"
    and "status (countdown fuel (iti_prepare fuel s)) = Normal"
    and "iti_broken (countdown fuel (iti_prepare fuel s))"
  shows "iti_loop fuel (Suc n) s = iti_loop fuel n (countdown fuel (iti_prepare fuel s))"
  using assms by (simp add: cond_def)

text \<open>The lift of a paw whose sensor is monitored.\<close>

lemma paw_lift:
  assumes "status s = Normal" and "gpio_direction s pin = Some GPIO_IN"
    and "gpio_detect s pin = Some (Falling, ResetItiCallback)"
    and "rpi s = Some r" and "index_of (paw_pins r) pin = Some i"
    and "data s ''resets_timepoints'' = Some (PList l)"
    and "i < length l" and "l ! i = PList paw"
  shows "dispatch (Edge pin False) s =
     s\<lparr>gpio_level := (gpio_level s)(pin := False), iti_broken := True,
       reads := Suc (reads s),
       data := (data s)(''resets_timepoints'' \<mapsto>
         PList (l[i := PList (paw @ [PFloat (clock s (reads s))])]))\<rparr>"
  using assms
  by (simp add: dispatch_def edge_detected_def swallow_def absorb_def run_callback_def
      reset_iti_callback_def lookup_def with_rpi_def list_index_def py_index_def norm_index_def
      time_time_def store_def)

lemma random_unit_less: "random_unit k < 1"
proof -
  have "k mod 2 ^ 53 < 2 ^ 53" by simp
  then have "real (k mod 2 ^ 53) < real (2 ^ 53)" by (simp only: of_nat_less_iff)
  then show ?thesis by (simp add: random_unit_def)
qed

lemma uniform_less:
  assumes "a < b"
  shows "uniform a b k < b"
proof -
  from assms have "0 < b - a" by simp
  with random_unit_less [of k] have "(b - a) * random_unit k < (b - a) * 1"
    by (simp only: mult_less_cancel_left_pos)
  then show ?thesis by (simp add: uniform_def)
qed

lemma uniform_grid:
  assumes "k < 2 ^ 53"
  shows "uniform a b k = a + (b - a) * real k / 2 ^ 53"
  using assms by (simp add: uniform_def random_unit_def)

lemma uniform_inj:
  assumes "a \<noteq> b" and "j < 2 ^ 53" and "k < 2 ^ 53" and "uniform a b j = uniform a b k"
  shows "j = k"
proof -
  from assms(2,3,4) have "(b - a) * real j / 2 ^ 53 = (b - a) * real k / 2 ^ 53"
    by (simp add: uniform_grid)
  with assms(1) show ?thesis by simp
qed

lemma tally_wait: "pres (tally n f) (wait_for_rest fuel)"
  by (rule pres_intros | simp only: composite_defs
      | simp add: leaf_defs tally_def split: option.splits status.splits)+

lemma iti_set_draw:
  assumes "status (block iti_set w) = Normal"
  shows "\<exists>v x y lo hi. data (block iti_set w) ''iti'' = Some v \<and> items_of v = Some [x, y] \<and>
            num_of x = Some lo \<and> num_of y = Some hi \<and>
            iti_duration (block iti_set w) = uniform lo hi (draws w (drawn w)) / 1000 \<and>
            drawn (block iti_set w) = Suc (drawn w) \<and> draws (block iti_set w) = draws w"
proof (cases "status w = Normal")
  case False
  have "block iti_set w = w" using False by (rule block_not_Normal)
  with assms False show ?thesis by simp
next
  case True
  from assms True obtain v where v: "data w ''iti'' = Some v"
    by (cases "data w ''iti''")
       (simp_all add: iti_set_def time_time_def lookup_def raise_def)
  from assms True v obtain l where l: "items_of v = Some l"
    by (cases "items_of v")
       (simp_all add: iti_set_def time_time_def lookup_def random_uniform_def as_items_def raise_def)
  from assms True v l obtain x y where xy: "l = [x, y]"
    by (cases l rule: list.exhaust [case_product list.exhaust [case_product list.exhaust]])
       (simp_all add: iti_set_def time_time_def lookup_def random_uniform_def as_items_def
          raise_def split: list.splits)
  from assms True v l xy obtain lo where lo: "num_of x = Some lo"
    by (cases "num_of x")
       (simp_all add: iti_set_def time_time_def lookup_def random_uniform_def as_items_def
          as_num_def raise_def)
  from assms True v l xy lo obtain hi where hi: "num_of y = Some hi"
    by (cases "num_of y")
       (simp_all add: iti_set_def time_time_def lookup_def random_uniform_def as_items_def
          as_num_def raise_def)
  from True v l xy lo hi show ?thesis
    by (simp add: iti_set_def time_time_def lookup_def random_uniform_def as_items_def
        as_num_def draw_def reading_def emit_def)
qed

lemma add_detect_all:
  "status (block (map (\<lambda>x. gpio_add_event_detect (g x) e cb) xs) s) = Normal \<Longrightarrow>
   (\<forall>x \<in> set xs. gpio_detect (block (map (\<lambda>x. gpio_add_event_detect (g x) e cb) xs) s) (g x)
        = Some (e, cb) \<and> gpio_direction s (g x) = Some GPIO_IN) \<and>
   armed (gpio_detect s) s (block (map (\<lambda>x. gpio_add_event_detect (g x) e cb) xs) s)"
proof (induction xs arbitrary: s)
  case Nil
  show ?case by (simp add: armed_def)
next
  case (Cons x xs)
  let ?fs = "map (\<lambda>x. gpio_add_event_detect (g x) e cb) xs"
  let ?s1 = "gpio_add_event_detect (g x) e cb s"
  from Cons.prems have n0: "status s = Normal"
    by (cases "status s = Normal") simp_all
  then have e: "block (map (\<lambda>x. gpio_add_event_detect (g x) e cb) (x # xs)) s = block ?fs ?s1"
    by simp
  with Cons.prems have n: "status (block ?fs ?s1) = Normal" by (simp only:)
  then have n1: "status ?s1 = Normal" by (rule block_Normal)
  have ok: "gpio_mode s \<and> gpio_direction s (g x) = Some GPIO_IN \<and> gpio_detect s (g x) = None"
    using n1 by (cases "gpio_mode s \<and> gpio_direction s (g x) = Some GPIO_IN \<and> gpio_detect s (g x) = None")
      (simp_all add: gpio_add_event_detect_def raise_def)
  then have s1: "?s1 = s\<lparr>gpio_detect := (gpio_detect s)(g x \<mapsto> (e, cb))\<rparr>"
    by (simp add: gpio_add_event_detect_def)
  from Cons.IH [OF n] have
    ih1: "\<forall>y \<in> set xs. gpio_detect (block ?fs ?s1) (g y) = Some (e, cb) \<and>
            gpio_direction ?s1 (g y) = Some GPIO_IN"
    and ih2: "armed (gpio_detect ?s1) ?s1 (block ?fs ?s1)"
    by simp_all
  from ih2 s1 have x: "gpio_detect (block ?fs ?s1) (g x) = Some (e, cb)"
    by (simp add: armed_def)
  have a: "armed (gpio_detect s) s (block ?fs ?s1)"
    unfolding armed_def
  proof (intro conjI allI impI)
    fix q
    assume q: "gpio_detect s q \<noteq> None"
    with ok have "q \<noteq> g x" by auto
    with q s1 have "gpio_detect ?s1 q \<noteq> None" "gpio_detect ?s1 q = gpio_detect s q" by simp_all
    with ih2 show "gpio_detect (block ?fs ?s1) q = gpio_detect s q" by (simp add: armed_def)
  next
    from ih2 s1 show "gpio_direction (block ?fs ?s1) = gpio_direction s" by (simp add: armed_def)
  next
    from ih2 s1 show "rpi (block ?fs ?s1) = rpi s" by (simp add: armed_def)
  next
    from ih2 s1 show "data (block ?fs ?s1) = data s" by (simp add: armed_def)
  qed
  from ih1 s1 have d: "\<forall>y \<in> set xs. gpio_direction s (g y) = Some GPIO_IN" by simp
  from x a ih1 d ok show ?case by (simp only: e) simp
qed

lemma monitor_sensors_arms:
  assumes "status s = Normal" and "rpi s = Some r"
    and "status (monitor_sensors R I s) = Normal" and "p \<in> set (paw_pins r)"
  shows "gpio_detect (monitor_sensors R I s) p = Some (Falling, R) \<and>
         gpio_direction (monitor_sensors R I s) p = Some GPIO_IN \<and>
         rpi (monitor_sensors R I s) = Some r \<and> data (monitor_sensors R I s) = data s"
proof -
  let ?s0 = "emit (Call MonitorSensors) s"
  let ?A = "map (\<lambda>x. gpio_add_event_detect (id x) Falling R) (paw_pins r)"
  let ?B = "map (\<lambda>x. gpio_add_event_detect (touch x) Rising I) (spouts r)"
  let ?s1 = "block ?A ?s0"
  let ?s2 = "block ?B ?s1"
  have r0: "rpi ?s0 = Some r" "status ?s0 = Normal" "data ?s0 = data s"
    "gpio_direction ?s0 = gpio_direction s"
    using assms(1,2) by (simp_all add: emit_def)
  have m: "monitor_sensors R I s =
      block [with_rpi (\<lambda>r. foreach (spouts r) (\<lambda>spout.
         gpio_add_event_detect (touch spout) Rising I))] ?s1"
    using assms(1) r0 by (simp add: monitor_sensors_def with_rpi_def foreach_def)
  with assms(3) have n1: "status ?s1 = Normal" by (metis block_Normal)
  from add_detect_all [of id Falling R "paw_pins r" ?s0, OF n1] assms(4) have
    p1: "gpio_detect ?s1 p = Some (Falling, R)" "gpio_direction ?s0 p = Some GPIO_IN"
    and a1: "armed (gpio_detect ?s0) ?s0 ?s1"
    by auto
  from a1 r0 have r1: "rpi ?s1 = Some r" by (simp add: armed_def)
  from m n1 r1 have m2: "monitor_sensors R I s = ?s2"
    by (simp add: with_rpi_def foreach_def)
  with assms(3) have n2: "status ?s2 = Normal" by (simp only:)
  from add_detect_all [of touch Rising I "spouts r" ?s1, OF n2] have
    a2: "armed (gpio_detect ?s1) ?s1 ?s2" by simp
  from a2 p1 a1 r0 r1 show ?thesis by (simp add: m2 armed_def)
qed

lemma iti_exit_draw:
  assumes "status s = Normal" and "status (inter_trial_interval fuel s) = Normal"
  shows "\<exists>s0 s1 v x y lo hi pre.
        status s0 = Normal \<and> s1 = iti_prepare fuel s0 \<and> status s1 = Normal \<and>
        data s1 ''iti'' = Some v \<and> items_of v = Some [x, y] \<and>
        num_of x = Some lo \<and> num_of y = Some hi \<and>
        iti_duration s1 = uniform lo hi (draws s0 (drawn s0)) / 1000 \<and>
        drawn s1 = Suc (drawn s0) \<and>
        \<not> iti_broken s1 \<and> trial_end s1 = iti_now s1 + iti_duration s1 \<and>
        inter_trial_interval fuel s = disable_sensors (countdown fuel s1) \<and>
        \<not> iti_broken (inter_trial_interval fuel s) \<and>
        trial_end s1 \<le> iti_now (inter_trial_interval fuel s) \<and>
        trace (inter_trial_interval fuel s) = trace s @ pre @ [Call DisableSensors] \<and>
        list_all not_disable pre"
proof -
  from iti_exit [OF assms] obtain s0 s1 v x y lo hi k pre where
    f: "status s0 = Normal \<and> s1 = iti_prepare fuel s0 \<and> status s1 = Normal \<and>
        data s1 ''iti'' = Some v \<and> items_of v = Some [x, y] \<and>
        num_of x = Some lo \<and> num_of y = Some hi \<and>
        iti_duration s1 = uniform lo hi k / 1000 \<and>
        \<not> iti_broken s1 \<and> trial_end s1 = iti_now s1 + iti_duration s1 \<and>
        inter_trial_interval fuel s = disable_sensors (countdown fuel s1) \<and>
        \<not> iti_broken (inter_trial_interval fuel s) \<and>
        trial_end s1 \<le> iti_now (inter_trial_interval fuel s) \<and>
        trace (inter_trial_interval fuel s) = trace s @ pre @ [Call DisableSensors] \<and>
        list_all not_disable pre"
    by (elim exE) (erule that)
  let ?w = "wait_for_rest fuel s0"
  from f have f1: "status s0 = Normal" and f2: "s1 = iti_prepare fuel s0"
    and f3: "status s1 = Normal" and f4: "data s1 ''iti'' = Some v"
    and f5: "items_of v = Some [x, y]" and f6: "num_of x = Some lo" and f7: "num_of y = Some hi"
    and f8: "\<not> iti_broken s1" and f9: "trial_end s1 = iti_now s1 + iti_duration s1"
    and f10: "inter_trial_interval fuel s = disable_sensors (countdown fuel s1)"
    and f11: "\<not> iti_broken (inter_trial_interval fuel s)"
    and f12: "trial_end s1 \<le> iti_now (inter_trial_interval fuel s)"
    and f13: "trace (inter_trial_interval fuel s) = trace s @ pre @ [Call DisableSensors]"
    and f14: "list_all not_disable pre"
    by blast+
  from f1 f2 have s1: "s1 = block iti_set ?w" by (simp only: iti_prepare_split)
  with f3 have "status (block iti_set ?w) = Normal" by (simp only:)
  from iti_set_draw [OF this] s1 obtain v' x' y' lo' hi' where
    g: "data s1 ''iti'' = Some v'" "items_of v' = Some [x', y']"
      "num_of x' = Some lo'" "num_of y' = Some hi'"
      "iti_duration s1 = uniform lo' hi' (draws ?w (drawn ?w)) / 1000"
      "drawn s1 = Suc (drawn ?w)"
    by auto
  from f4 f5 f6 f7 g(1-4) have same: "lo' = lo" "hi' = hi" by auto
  have "tally (drawn s0) (draws s0) ?w"
    using tally_wait by (rule presD) (simp add: tally_def)
  then have w: "drawn ?w = drawn s0" "draws ?w = draws s0" by (simp_all add: tally_def)
  from g same w have d: "iti_duration s1 = uniform lo hi (draws s0 (drawn s0)) / 1000"
    and n: "drawn s1 = Suc (drawn s0)" by simp_all
  from f1 f2 f3 f4 f5 f6 f7 d n f8 f9 f10 f11 f12 f13 f14 have "status s0 = Normal \<and> s1 = iti_prepare fuel s0 \<and> status s1 = Normal \<and>
        data s1 ''iti'' = Some v \<and> items_of v = Some [x, y] \<and>
        num_of x = Some lo \<and> num_of y = Some hi \<and>
        iti_duration s1 = uniform lo hi (draws s0 (drawn s0)) / 1000 \<and>
        drawn s1 = Suc (drawn s0) \<and>
        \<not> iti_broken s1 \<and> trial_end s1 = iti_now s1 + iti_duration s1 \<and>
        inter_trial_interval fuel s = disable_sensors (countdown fuel s1) \<and>
        \<not> iti_broken (inter_trial_interval fuel s) \<and>
        trial_end s1 \<le> iti_now (inter_trial_interval fuel s) \<and>
        trace (inter_trial_interval fuel s) = trace s @ pre @ [Call DisableSensors] \<and>
        list_all not_disable pre"
    by (intro conjI) assumption+
  then show ?thesis by (intro exI)
qed

text \<open>
  C8.  The duration of a countdown is drawn uniformly between the two bounds:
  \<open>uniform a b k\<close> lies between the bounds when they are in order, below the upper
  one when they differ, is the bound itself when they are equal, is the point
  \<open>a + (b - a) * k / 2 ^ 53\<close> for the raw draw \<open>k\<close> of 53 bits, and two raw draws
  give two durations when the bounds differ.  An inter-trial interval that returns
  has ended with the countdown of a pass prepared in some state \<open>s0\<close>: that pass took
  the next raw draw of the state, once, and set the duration to \<open>uniform lo hi\<close> of
  it over 1000 for the two bounds read from the session data, and the end of the
  countdown to the time read plus that duration, with the flag unset; at the return
  the flag is unset and the last time read has reached that end; and the trace has
  gained exactly one call of \<open>disable_sensors\<close>, its last action.  A flag that is set
  stays set through a sleep and ends the countdown.  A pass whose countdown ends with
  the flag set is followed by another pass, which starts by \<open>wait_for_rest\<close>.
  \<open>monitor_sensors\<close>, when it returns, has registered the reset callback on the
  falling edge of every paw sensor pin.  The lift of a paw whose pin is so registered
  sets the flag and appends the time read to the list of that paw in
  \<open>resets_timepoints\<close>, and changes nothing else but the level of the pin and the
  count of clock readings.
\<close>

theorem iti_draws_exits_and_restarts:
  "(a \<le> b \<longrightarrow> a \<le> uniform a b k \<and> uniform a b k \<le> b) \<and>
   (a < b \<longrightarrow> uniform a b k < b) \<and>
   uniform a a k = a \<and>
   (k < 2 ^ 53 \<longrightarrow> uniform a b k = a + (b - a) * real k / 2 ^ 53) \<and>
   (a \<noteq> b \<longrightarrow> j < 2 ^ 53 \<longrightarrow> k < 2 ^ 53 \<longrightarrow> j \<noteq> k \<longrightarrow> uniform a b j \<noteq> uniform a b k) \<and>
   (status s = Normal \<longrightarrow> status (inter_trial_interval fuel s) = Normal \<longrightarrow>
      (\<exists>s0 s1 v x y lo hi pre.
        status s0 = Normal \<and> s1 = iti_prepare fuel s0 \<and> status s1 = Normal \<and>
        data s1 ''iti'' = Some v \<and> items_of v = Some [x, y] \<and>
        num_of x = Some lo \<and> num_of y = Some hi \<and>
        iti_duration s1 = uniform lo hi (draws s0 (drawn s0)) / 1000 \<and>
        drawn s1 = Suc (drawn s0) \<and>
        \<not> iti_broken s1 \<and> trial_end s1 = iti_now s1 + iti_duration s1 \<and>
        inter_trial_interval fuel s = disable_sensors (countdown fuel s1) \<and>
        \<not> iti_broken (inter_trial_interval fuel s) \<and>
        trial_end s1 \<le> iti_now (inter_trial_interval fuel s) \<and>
        trace (inter_trial_interval fuel s) = trace s @ pre @ [Call DisableSensors] \<and>
        list_all not_disable pre)) \<and>
   (iti_broken u \<longrightarrow> iti_broken (sleep d u) \<and> countdown m u = u) \<and>
   (status p = Normal \<longrightarrow> status (iti_prepare fuel p) = Normal \<longrightarrow>
    status (countdown fuel (iti_prepare fuel p)) = Normal \<longrightarrow>
    iti_broken (countdown fuel (iti_prepare fuel p)) \<longrightarrow>
      iti_loop fuel (Suc (Suc n)) p = iti_loop fuel (Suc n) (countdown fuel (iti_prepare fuel p)) \<and>
      (\<exists>t. trace (iti_loop fuel (Suc n) (countdown fuel (iti_prepare fuel p))) =
             trace (countdown fuel (iti_prepare fuel p)) @ Call WaitForRest # t)) \<and>
   (status g = Normal \<longrightarrow> rpi g = Some r \<longrightarrow>
    status (monitor_sensors ResetItiCallback IncreaseSpontReachesCallback g) = Normal \<longrightarrow>
    pin \<in> set (paw_pins r) \<longrightarrow>
      gpio_detect (monitor_sensors ResetItiCallback IncreaseSpontReachesCallback g) pin =
        Some (Falling, ResetItiCallback) \<and>
      gpio_direction (monitor_sensors ResetItiCallback IncreaseSpontReachesCallback g) pin =
        Some GPIO_IN \<and>
      rpi (monitor_sensors ResetItiCallback IncreaseSpontReachesCallback g) = Some r \<and>
      data (monitor_sensors ResetItiCallback IncreaseSpontReachesCallback g) = data g) \<and>
   (status q = Normal \<longrightarrow> gpio_direction q pin = Some GPIO_IN \<longrightarrow>
    gpio_detect q pin = Some (Falling, ResetItiCallback) \<longrightarrow>
    rpi q = Some r \<longrightarrow> index_of (paw_pins r) pin = Some i \<longrightarrow>
    data q ''resets_timepoints'' = Some (PList l) \<longrightarrow> i < length l \<longrightarrow> l ! i = PList paw \<longrightarrow>
      dispatch (Edge pin False) q =
        q\<lparr>gpio_level := (gpio_level q)(pin := False), iti_broken := True,
          reads := Suc (reads q),
          data := (data q)(''resets_timepoints'' \<mapsto>
            PList (l[i := PList (paw @ [PFloat (clock q (reads q))])]))\<rparr>)"
proof (intro conjI impI)
  assume "a \<le> b"
  then show "a \<le> uniform a b k" by (simp add: uniform_bounds)
next
  assume "a \<le> b"
  then show "uniform a b k \<le> b" by (simp add: uniform_bounds)
next
  assume "a < b"
  then show "uniform a b k < b" by (rule uniform_less)
next
  show "uniform a a k = a" by (rule uniform_point)
next
  assume "k < 2 ^ 53"
  then show "uniform a b k = a + (b - a) * real k / 2 ^ 53" by (rule uniform_grid)
next
  assume "a \<noteq> b" and "j < 2 ^ 53" and "k < 2 ^ 53" and "j \<noteq> k"
  then show "uniform a b j \<noteq> uniform a b k" using uniform_inj [of a b j k] by blast
next
  assume "status s = Normal" and "status (inter_trial_interval fuel s) = Normal"
  then show "\<exists>s0 s1 v x y lo hi pre.
        status s0 = Normal \<and> s1 = iti_prepare fuel s0 \<and> status s1 = Normal \<and>
        data s1 ''iti'' = Some v \<and> items_of v = Some [x, y] \<and>
        num_of x = Some lo \<and> num_of y = Some hi \<and>
        iti_duration s1 = uniform lo hi (draws s0 (drawn s0)) / 1000 \<and>
        drawn s1 = Suc (drawn s0) \<and>
        \<not> iti_broken s1 \<and> trial_end s1 = iti_now s1 + iti_duration s1 \<and>
        inter_trial_interval fuel s = disable_sensors (countdown fuel s1) \<and>
        \<not> iti_broken (inter_trial_interval fuel s) \<and>
        trial_end s1 \<le> iti_now (inter_trial_interval fuel s) \<and>
        trace (inter_trial_interval fuel s) = trace s @ pre @ [Call DisableSensors] \<and>
        list_all not_disable pre"
    by (rule iti_exit_draw)
next
  assume "iti_broken u"
  with flag_sleep show "iti_broken (sleep d u)" by (rule presD)
next
  assume "iti_broken u"
  then show "countdown m u = u" by (rule countdown_broken)
next
  assume "status p = Normal" and "status (iti_prepare fuel p) = Normal"
    and "status (countdown fuel (iti_prepare fuel p)) = Normal"
    and "iti_broken (countdown fuel (iti_prepare fuel p))"
  then show "iti_loop fuel (Suc (Suc n)) p =
      iti_loop fuel (Suc n) (countdown fuel (iti_prepare fuel p))"
    by (rule iti_restart)
next
  assume "status (countdown fuel (iti_prepare fuel p)) = Normal"
  then show "\<exists>t. trace (iti_loop fuel (Suc n) (countdown fuel (iti_prepare fuel p))) =
             trace (countdown fuel (iti_prepare fuel p)) @ Call WaitForRest # t"
    by (rule pass_starts_by_wait)
next
  assume h: "status g = Normal" "rpi g = Some r"
    "status (monitor_sensors ResetItiCallback IncreaseSpontReachesCallback g) = Normal"
    "pin \<in> set (paw_pins r)"
  note m = monitor_sensors_arms [OF h]
  from m show "gpio_detect (monitor_sensors ResetItiCallback IncreaseSpontReachesCallback g) pin =
        Some (Falling, ResetItiCallback)" by (rule conjunct1)
  from m show "gpio_direction (monitor_sensors ResetItiCallback IncreaseSpontReachesCallback g) pin =
        Some GPIO_IN" by simp
  from m show "rpi (monitor_sensors ResetItiCallback IncreaseSpontReachesCallback g) = Some r"
    by simp
  from m show "data (monitor_sensors ResetItiCallback IncreaseSpontReachesCallback g) = data g"
    by simp
next
  assume "status q = Normal" and "gpio_direction q pin = Some GPIO_IN"
    and "gpio_detect q pin = Some (Falling, ResetItiCallback)"
    and "rpi q = Some r" and "index_of (paw_pins r) pin = Some i"
    and "data q ''resets_timepoints'' = Some (PList l)" and "i < length l" and "l ! i = PList paw"
  then show "dispatch (Edge pin False) q =
        q\<lparr>gpio_level := (gpio_level q)(pin := False), iti_broken := True,
          reads := Suc (reads q),
          data := (data q)(''resets_timepoints'' \<mapsto>
            PList (l[i := PList (paw @ [PFloat (clock q (reads q))])]))\<rparr>"
    by (rule paw_lift)
qed

theorem iti_draws_exits_and_restarts_witness:
  "(100 :: real) \<le> 500 \<and> 100 \<le> uniform 100 500 4503599627370496 \<and>
   uniform 100 500 4503599627370496 \<le> 500 \<and>
   (100 :: real) < 500 \<and> uniform 100 500 4503599627370496 < 500 \<and>
   uniform 100 100 4503599627370496 = 100 \<and>
   (4503599627370496 :: nat) < 2 ^ 53 \<and>
   uniform 100 500 4503599627370496 = 100 + (500 - 100) * real 4503599627370496 / 2 ^ 53 \<and>
   uniform 100 500 4503599627370496 = 300 \<and>
   (100 :: real) \<noteq> 500 \<and> (0 :: nat) < 2 ^ 53 \<and> (0 :: nat) \<noteq> 4503599627370496 \<and>
   uniform 100 500 0 \<noteq> uniform 100 500 4503599627370496 \<and>
   status resting = Normal \<and>
   status (inter_trial_interval (Suc (Suc 0)) resting) = Normal \<and>
   trace (inter_trial_interval (Suc (Suc 0)) resting) =
     [Call Init, Call MonitorSensors, Call SetButtonCallback,
      Call WaitForRest, Sleep (10 / 1000), Say (CountingDown (300 / 1000)), Sleep (20 / 1000),
      Call WaitForRest, Sleep (10 / 1000), Say (CountingDown (300 / 1000)), Sleep (20 / 1000),
      Call DisableSensors] \<and>
   data (inter_trial_interval (Suc (Suc 0)) resting) ''resets_timepoints'' =
     Some (PList [PList [PFloat 1], PList []]) \<and>
   (\<exists>s0 s1 v x y lo hi pre.
      status s0 = Normal \<and> s1 = iti_prepare (Suc (Suc 0)) s0 \<and> status s1 = Normal \<and>
      data s1 ''iti'' = Some v \<and> items_of v = Some [x, y] \<and>
      num_of x = Some lo \<and> num_of y = Some hi \<and>
      iti_duration s1 = uniform lo hi (draws s0 (drawn s0)) / 1000 \<and>
      drawn s1 = Suc (drawn s0) \<and>
      \<not> iti_broken s1 \<and> trial_end s1 = iti_now s1 + iti_duration s1 \<and>
      inter_trial_interval (Suc (Suc 0)) resting = disable_sensors (countdown (Suc (Suc 0)) s1) \<and>
      \<not> iti_broken (inter_trial_interval (Suc (Suc 0)) resting) \<and>
      trial_end s1 \<le> iti_now (inter_trial_interval (Suc (Suc 0)) resting) \<and>
      trace (inter_trial_interval (Suc (Suc 0)) resting) =
        trace resting @ pre @ [Call DisableSensors] \<and>
      list_all not_disable pre) \<and>
   iti_broken (resting\<lparr>iti_broken := True\<rparr>) \<and>
   iti_broken (sleep (20 / 1000) (resting\<lparr>iti_broken := True\<rparr>)) \<and>
   countdown (Suc 0) (resting\<lparr>iti_broken := True\<rparr>) = resting\<lparr>iti_broken := True\<rparr> \<and>
   status monitored = Normal \<and>
   status (iti_prepare (Suc (Suc 0)) monitored) = Normal \<and>
   iti_duration (iti_prepare (Suc (Suc 0)) monitored) = 300 / 1000 \<and>
   status (countdown (Suc (Suc 0)) (iti_prepare (Suc (Suc 0)) monitored)) = Normal \<and>
   iti_broken (countdown (Suc (Suc 0)) (iti_prepare (Suc (Suc 0)) monitored)) \<and>
   iti_loop (Suc (Suc 0)) (Suc (Suc 0)) monitored =
     iti_loop (Suc (Suc 0)) (Suc 0) (countdown (Suc (Suc 0)) (iti_prepare (Suc (Suc 0)) monitored)) \<and>
   (\<exists>t. trace (iti_loop (Suc (Suc 0)) (Suc 0)
               (countdown (Suc (Suc 0)) (iti_prepare (Suc (Suc 0)) monitored))) =
         trace (countdown (Suc (Suc 0)) (iti_prepare (Suc (Suc 0)) monitored)) @
           Call WaitForRest # t) \<and>
   rpi resting = Some
     \<lparr>button_pins = [4, 13], paw_pins = [17, 18],
      spouts = [\<lparr>cue = 5, touch = 27, solenoid = 25, cue_timepoints = [], touch_timepoints = []\<rparr>],
      lift_timepoints = [[], []]\<rparr> \<and>
   status (monitor_sensors ResetItiCallback IncreaseSpontReachesCallback resting) = Normal \<and>
   gpio_detect (monitor_sensors ResetItiCallback IncreaseSpontReachesCallback resting) 17 =
     Some (Falling, ResetItiCallback) \<and>
   gpio_direction (monitor_sensors ResetItiCallback IncreaseSpontReachesCallback resting) 17 =
     Some GPIO_IN \<and>
   gpio_direction monitored 17 = Some GPIO_IN \<and>
   gpio_detect monitored 17 = Some (Falling, ResetItiCallback) \<and>
   rpi monitored = Some
     \<lparr>button_pins = [4, 13], paw_pins = [17, 18],
      spouts = [\<lparr>cue = 5, touch = 27, solenoid = 25, cue_timepoints = [], touch_timepoints = []\<rparr>],
      lift_timepoints = [[], []]\<rparr> \<and>
   data monitored ''resets_timepoints'' = Some (PList [PList [], PList []]) \<and>
   dispatch (Edge 17 False) monitored =
     monitored\<lparr>gpio_level := (gpio_level monitored)(17 := False), iti_broken := True,
       reads := Suc (reads monitored),
       data := (data monitored)(''resets_timepoints'' \<mapsto>
         PList [PList [PFloat (clock monitored (reads monitored))], PList []])\<rparr>"
proof -
  let ?f = "Suc (Suc 0)"
  let ?k = "4503599627370496 :: nat"
  let ?r = "\<lparr>button_pins = [4, 13], paw_pins = [17, 18],
      spouts = [\<lparr>cue = 5, touch = 27, solenoid = 25, cue_timepoints = [], touch_timepoints = []\<rparr>],
      lift_timepoints = [[], []]\<rparr>"
  let ?m = "monitor_sensors ResetItiCallback IncreaseSpontReachesCallback resting"
  have 1: "status resting = Normal"
    by (simp add: resting_def prim_defs gpio_defs rpi_defs ses_defs)
  have 2: "status (inter_trial_interval ?f resting) = Normal"
    by (simp add: resting_def prim_defs gpio_defs rpi_defs ses_defs)
  have 3: "trace (inter_trial_interval ?f resting) =
     [Call Init, Call MonitorSensors, Call SetButtonCallback,
      Call WaitForRest, Sleep (10 / 1000), Say (CountingDown (300 / 1000)), Sleep (20 / 1000),
      Call WaitForRest, Sleep (10 / 1000), Say (CountingDown (300 / 1000)), Sleep (20 / 1000),
      Call DisableSensors]"
    by (simp add: resting_def prim_defs gpio_defs rpi_defs ses_defs)
  have 4: "data (inter_trial_interval ?f resting) ''resets_timepoints'' =
     Some (PList [PList [PFloat 1], PList []])"
    by (simp add: resting_def prim_defs gpio_defs rpi_defs ses_defs)
  have 5: "status monitored = Normal"
    by (simp add: monitored_def resting_def prim_defs gpio_defs rpi_defs ses_defs)
  have 6: "status (iti_prepare ?f monitored) = Normal"
    by (simp add: monitored_def resting_def prim_defs gpio_defs rpi_defs ses_defs)
  have h6a: "iti_duration (iti_prepare ?f monitored) = 300 / 1000"
    by (simp add: monitored_def resting_def prim_defs gpio_defs rpi_defs ses_defs)
  have 7: "status (countdown ?f (iti_prepare ?f monitored)) = Normal"
    by (simp add: monitored_def resting_def prim_defs gpio_defs rpi_defs ses_defs)
  have 8: "iti_broken (countdown ?f (iti_prepare ?f monitored))"
    by (simp add: monitored_def resting_def prim_defs gpio_defs rpi_defs ses_defs)
  have 9: "gpio_direction monitored 17 = Some GPIO_IN"
    by (simp add: monitored_def resting_def prim_defs gpio_defs rpi_defs ses_defs)
  have 10: "gpio_detect monitored 17 = Some (Falling, ResetItiCallback)"
    by (simp add: monitored_def resting_def prim_defs gpio_defs rpi_defs ses_defs)
  have 11: "rpi monitored = Some ?r"
    by (simp add: monitored_def resting_def prim_defs gpio_defs rpi_defs ses_defs)
  have 12: "data monitored ''resets_timepoints'' = Some (PList [PList [], PList []])"
    by (simp add: monitored_def resting_def prim_defs gpio_defs rpi_defs ses_defs)
  have 13: "(100 :: real) \<le> 500" by simp
  have h13a: "(100 :: real) < 500" by simp
  have h13b: "(100 :: real) \<noteq> 500" by simp
  have h13c: "?k < 2 ^ 53" by simp
  have h13d: "(0 :: nat) < 2 ^ 53" by simp
  have h13e: "(0 :: nat) \<noteq> ?k" by simp
  have 14: "iti_broken (resting\<lparr>iti_broken := True\<rparr>)" by simp
  have 15: "index_of (paw_pins ?r) 17 = Some 0" by simp
  have 16: "(0 :: nat) < length [PList [], PList []]" by simp
  have 17: "[PList [], PList []] ! 0 = PList []" by simp
  have 18: "rpi resting = Some ?r"
    by (simp add: resting_def prim_defs gpio_defs rpi_defs ses_defs)
  have 19: "status ?m = Normal"
    by (simp add: resting_def prim_defs gpio_defs rpi_defs ses_defs)
  have 20: "17 \<in> set (paw_pins ?r)" by simp
  have 21: "uniform 100 500 ?k = 300" by (simp add: uniform_def random_unit_def)
  note t = iti_draws_exits_and_restarts [where a = 100 and b = 500 and k = ?k and j = 0
      and s = resting
      and fuel = ?f and u = "resting\<lparr>iti_broken := True\<rparr>" and d = "20 / 1000" and m = "Suc 0"
      and p = monitored and n = 0 and g = resting and q = monitored and pin = 17 and r = ?r
      and i = 0 and l = "[PList [], PList []]" and paw = "[]"]
  note c1 = t [THEN conjunct1, rule_format, OF 13]
  note c2 = t [THEN conjunct2, THEN conjunct1, rule_format, OF h13a]
  note c3 = t [THEN conjunct2, THEN conjunct2, THEN conjunct1]
  note c4 = t [THEN conjunct2, THEN conjunct2, THEN conjunct2, THEN conjunct1, rule_format, OF h13c]
  note r4 = t [THEN conjunct2, THEN conjunct2, THEN conjunct2, THEN conjunct2]
  note c5 = r4 [THEN conjunct1, rule_format, OF h13b h13d h13c h13e]
  note c6 = r4 [THEN conjunct2, THEN conjunct1, rule_format, OF 1 2]
  note c7 = r4 [THEN conjunct2, THEN conjunct2, THEN conjunct1, rule_format, OF 14]
  note r8 = r4 [THEN conjunct2, THEN conjunct2, THEN conjunct2]
  note c8 = r8 [THEN conjunct1, rule_format, OF 5 6 7 8]
  note c9 = r8 [THEN conjunct2, THEN conjunct1, rule_format, OF 1 18 19 20]
  note c10 = r8 [THEN conjunct2, THEN conjunct2, rule_format, OF 5 9 10 11 15 12 16 17]
  from c10 have g: "dispatch (Edge 17 False) monitored =
     monitored\<lparr>gpio_level := (gpio_level monitored)(17 := False), iti_broken := True,
       reads := Suc (reads monitored),
       data := (data monitored)(''resets_timepoints'' \<mapsto>
         PList [PList [PFloat (clock monitored (reads monitored))], PList []])\<rparr>"
    by (simp only: list_update_code append.simps)
  from 13 c1 [THEN conjunct1] c1 [THEN conjunct2] h13a c2 c3 h13c c4 21 h13b h13d h13e c5
    1 2 3 4 c6 14 c7 [THEN conjunct1] c7 [THEN conjunct2] 5 6 h6a 7 8
    c8 [THEN conjunct1] c8 [THEN conjunct2] 18 19 c9 [THEN conjunct1]
    c9 [THEN conjunct2, THEN conjunct1] 9 10 11 12 g
  show ?thesis
    apply (intro conjI)
    apply assumption+
    done
qed

lemma first_spouts_cases:
  "first_spouts k = [] \<or> first_spouts k = [PIN_NUMBERS_spouts ! 0] \<or>
   first_spouts k = PIN_NUMBERS_spouts"
proof -
  let ?n = "nat (if k < 0 then int (length PIN_NUMBERS_spouts) + k else k)"
  have "?n = 0 \<or> ?n = 1 \<or> 2 \<le> ?n" by arith
  then show ?thesis
    by (elim disjE) (simp_all add: first_spouts_def PIN_NUMBERS_spouts_def)
qed

lemma rpi_init_result:
  assumes "status s = Normal"
  shows "status (rpi_init (PInt k) s) = Normal \<and>
         rpi (rpi_init (PInt k) s) = Some (backend (first_spouts k)) \<and>
         data (rpi_init (PInt k) s) = data s \<and>
         trace (rpi_init (PInt k) s) = trace s @ [Call Init]"
proof -
  let ?s0 = "s\<lparr>trace := trace s @ [Call Init],
       rpi := Some \<lparr>button_pins = PIN_NUMBERS_buttons, paw_pins = PIN_NUMBERS_paw_sensors,
                    spouts = first_spouts k, lift_timepoints = []\<rparr>\<rparr>"
  have e: "rpi_init (PInt k) s =
      block [initialise_pins, update_rpi (\<lambda>r. r\<lparr>lift_timepoints := [[], []]\<rparr>),
        (\<lambda>s. s\<lparr>sigint_handler := CleanupHandler\<rparr>)] ?s0"
    using assms by (simp add: rpi_init_def py_slice_to_def emit_def first_spouts_def)
  from first_spouts_cases [of k] show ?thesis
  proof (elim disjE)
    assume c: "first_spouts k = []"
    from assms show ?thesis
      by (simp add: e c backend_def initialise_pins_def prim_defs gpio_defs
          PIN_NUMBERS_buttons_def PIN_NUMBERS_paw_sensors_def)
  next
    assume c: "first_spouts k = [PIN_NUMBERS_spouts ! 0]"
    from assms show ?thesis
      by (simp add: e c backend_def initialise_pins_def prim_defs gpio_defs
          PIN_NUMBERS_buttons_def PIN_NUMBERS_paw_sensors_def PIN_NUMBERS_spouts_def)
  next
    assume c: "first_spouts k = PIN_NUMBERS_spouts"
    from assms show ?thesis
      by (simp add: e c backend_def initialise_pins_def prim_defs gpio_defs
          PIN_NUMBERS_buttons_def PIN_NUMBERS_paw_sensors_def PIN_NUMBERS_spouts_def)
  qed
qed

lemma begin_session_result:
  assumes "status s = Normal"
    and "config ''shaping'' = Some sh"
    and "config ''iti'' = Some (PList [a, b])"
    and "config ''spout_count'' = Some n"
    and "config ''duration'' = Some du"
    and "config ''cue_duration_ms'' = Some cd"
  shows "status (begin_session config s) = Normal \<and>
         rpi (begin_session config s) = rpi s \<and>
         data (begin_session config s) =
           (data s ++ config)(''spont_reach_timepoints'' \<mapsto> PList [],
                              ''resets_timepoints'' \<mapsto> PList [PList [], PList []])"
  using assms
  by (simp add: begin_session_def display_training_settings_def map_add_def
      cond_def emit_def skip_def store_def lookup_def as_items_def)

lemma run_split:
  assumes "status s = Normal"
    and "config ''shaping'' = Some sh"
    and "config ''iti'' = Some (PList [a, b])"
    and "config ''spout_count'' = Some (PInt k)"
    and "config ''duration'' = Some du"
    and "config ''cue_duration_ms'' = Some cd"
  shows "run fuel config s = block (run_rest fuel) (rpi_init (PInt k) (begin_session config s))"
proof -
  let ?s1 = "begin_session config s"
  note ok = begin_session_result [OF assms]
  have "run fuel config s = block (lookup ''spout_count'' rpi_init # run_rest fuel) ?s1"
    using assms(1) by (simp add: run_def run_rest_def)
  also have "\<dots> = block (run_rest fuel) (lookup ''spout_count'' rpi_init ?s1)"
    using ok by (simp only: block_Cons_Normal)
  also have "lookup ''spout_count'' rpi_init ?s1 = rpi_init (PInt k) ?s1"
    using ok assms(4) by (simp add: lookup_def map_add_def)
  finally show ?thesis .
qed

lemma map_update_same:
  assumes "\<And>x. f (g x) = f x"
  shows "map f (xs[i := g (xs ! i)]) = map f xs"
proof (cases "i < length xs")
  case True
  then show ?thesis by (simp add: map_update assms list_update_same_conv)
next
  case False
  then show ?thesis by (simp add: list_update_beyond)
qed

lemma pins_touch: "map pins (xs[j := (xs ! j)\<lparr>touch_timepoints := v\<rparr>]) = map pins xs"
  using map_update_same [of pins "\<lambda>sp. sp\<lparr>touch_timepoints := v\<rparr>" xs j]
  by (simp add: pins_def)

lemma pins_cue: "map pins (xs[j := (xs ! j)\<lparr>cue_timepoints := v\<rparr>]) = map pins xs"
  using map_update_same [of pins "\<lambda>sp. sp\<lparr>cue_timepoints := v\<rparr>" xs j]
  by (simp add: pins_def)

lemma wired_sleep: "pres (wired w) (sleep d)"
  by (rule pres_intros | simp only: composite_defs
      | simp add: leaf_defs wired_def pins_touch pins_cue split: option.splits status.splits)+

lemma wired_run_loop: "pres (wired w) (run_loop fuel n)"
  by (rule wired_sleep pres_intros | simp only: composite_defs
      | simp add: leaf_defs wired_def pins_touch pins_cue split: option.splits status.splits)+

lemma wired_end_session: "pres (wired w) (end_session m)"
  by (rule pres_intros | simp only: composite_defs
      | simp add: leaf_defs wired_def pins_touch pins_cue split: option.splits status.splits)+

lemma wired_run_rest: "pres (wired w) (block (run_rest fuel))"
  unfolding run_rest_def
  by (rule wired_run_loop wired_end_session pres_intros
      | simp only: composite_defs
      | simp add: leaf_defs wired_def pins_touch pins_cue split: option.splits status.splits)+

text \<open>
  C1, as amended.  \<open>run\<close> validates neither the spout count nor the bounds of the
  inter-trial interval.  For every configuration that has the five keys read at the
  start, whatever integer \<open>k\<close> its spout count and whatever the order of its two
  interval bounds: the first step, \<open>begin_session\<close>, returns normally with no backend
  yet and with the session data merged with the configuration (the two lists of
  timepoints reset); the construction of the backend follows on that state, returns
  normally, leaves the data as merged, adds the call of the constructor to the trace
  and builds the backend of the two button pins, the two paw sensor pins and the
  slice \<open>PIN_NUMBERS['spouts'][:k]\<close> of the spout table (at most two spouts, whatever
  \<open>k\<close>); the rest of \<open>run\<close> runs from there and keeps these pins; and every key that
  the session does not assign has at the end the value of the merge.
\<close>

theorem run_merges_then_constructs:
  assumes "status s = Normal"
    and "config ''shaping'' = Some sh"
    and "config ''iti'' = Some (PList [a, b])"
    and "config ''spout_count'' = Some (PInt k)"
    and "config ''duration'' = Some du"
    and "config ''cue_duration_ms'' = Some cd"
  shows "status (begin_session config s) = Normal \<and>
         rpi (begin_session config s) = rpi s \<and>
         data (begin_session config s) =
           (data s ++ config)(''spont_reach_timepoints'' \<mapsto> PList [],
                              ''resets_timepoints'' \<mapsto> PList [PList [], PList []]) \<and>
         status (rpi_init (PInt k) (begin_session config s)) = Normal \<and>
         rpi (rpi_init (PInt k) (begin_session config s)) = Some (backend (first_spouts k)) \<and>
         data (rpi_init (PInt k) (begin_session config s)) = data (begin_session config s) \<and>
         trace (rpi_init (PInt k) (begin_session config s)) =
           trace (begin_session config s) @ [Call Init] \<and>
         run fuel config s =
           block (run_rest fuel) (rpi_init (PInt k) (begin_session config s)) \<and>
         wired (PIN_NUMBERS_buttons, PIN_NUMBERS_paw_sensors, map pins (first_spouts k))
           (run fuel config s) \<and>
         Call Init \<in> set (trace (run fuel config s)) \<and>
         (\<forall>key. key \<notin> written \<longrightarrow> data (run fuel config s) key = (data s ++ config) key)"
proof -
  let ?s1 = "begin_session config s"
  let ?s2 = "rpi_init (PInt k) ?s1"
  note b = begin_session_result [OF assms]
  from b have n1: "status ?s1 = Normal" by (rule conjunct1)
  note i = rpi_init_result [OF n1, of k]
  note sp = run_split [OF assms, of fuel]
  from i have "wired (PIN_NUMBERS_buttons, PIN_NUMBERS_paw_sensors, map pins (first_spouts k)) ?s2"
    by (simp add: wired_def backend_def)
  with wired_run_rest have "wired (PIN_NUMBERS_buttons, PIN_NUMBERS_paw_sensors,
      map pins (first_spouts k)) (block (run_rest fuel) ?s2)"
    by (rule presD)
  then have w: "wired (PIN_NUMBERS_buttons, PIN_NUMBERS_paw_sensors, map pins (first_spouts k))
      (run fuel config s)"
    by (simp only: sp)
  from run_builds [OF assms, of fuel]
  have c: "Call Init \<in> set (trace (run fuel config s))" by simp
  have k: "\<forall>key. key \<notin> written \<longrightarrow> data (run fuel config s) key = (data s ++ config) key"
    using run_keeps [OF _ assms(1)] by blast
  from b i sp w c k show ?thesis by (intro conjI) simp_all
qed

theorem run_merges_then_constructs_witness:
  "status (Session Map.empty (\<lambda>n. real n) (\<lambda>n. 0) []) = Normal \<and>
   bad_config ''shaping'' = Some (PBool False) \<and>
   bad_config ''iti'' = Some (PList [PInt 500, PInt 100]) \<and>
   bad_config ''spout_count'' = Some (PInt 3) \<and>
   bad_config ''duration'' = Some (PInt 0) \<and>
   bad_config ''cue_duration_ms'' = Some (PInt 2000) \<and>
   first_spouts 3 = PIN_NUMBERS_spouts \<and> length (first_spouts 3) = 2 \<and>
   rpi (begin_session bad_config (Session Map.empty (\<lambda>n. real n) (\<lambda>n. 0) [])) = None \<and>
   data (begin_session bad_config (Session Map.empty (\<lambda>n. real n) (\<lambda>n. 0) [])) =
     (Map.empty ++ bad_config)(''spont_reach_timepoints'' \<mapsto> PList [],
                               ''resets_timepoints'' \<mapsto> PList [PList [], PList []]) \<and>
   rpi (rpi_init (PInt 3) (begin_session bad_config (Session Map.empty (\<lambda>n. real n) (\<lambda>n. 0) []))) =
     Some (backend (first_spouts 3)) \<and>
   bad_session =
     block (run_rest (Suc 0))
       (rpi_init (PInt 3) (begin_session bad_config (Session Map.empty (\<lambda>n. real n) (\<lambda>n. 0) []))) \<and>
   wired (PIN_NUMBERS_buttons, PIN_NUMBERS_paw_sensors, map pins (first_spouts 3)) bad_session \<and>
   Call Init \<in> set (trace bad_session) \<and>
   ''spout_count'' \<notin> written \<and> data bad_session ''spout_count'' = Some (PInt 3) \<and>
   ''iti'' \<notin> written \<and> data bad_session ''iti'' = Some (PList [PInt 500, PInt 100])"
proof -
  let ?s = "Session Map.empty (\<lambda>n. real n) (\<lambda>n. 0) []"
  have 1: "status ?s = Normal" by (simp add: Session_def)
  have 2: "bad_config ''shaping'' = Some (PBool False)"
    by (simp add: bad_config_def demo_config_def)
  have 3: "bad_config ''iti'' = Some (PList [PInt 500, PInt 100])"
    by (simp add: bad_config_def demo_config_def)
  have 4: "bad_config ''spout_count'' = Some (PInt 3)"
    by (simp add: bad_config_def demo_config_def)
  have 5: "bad_config ''duration'' = Some (PInt 0)"
    by (simp add: bad_config_def demo_config_def)
  have 6: "bad_config ''cue_duration_ms'' = Some (PInt 2000)"
    by (simp add: bad_config_def demo_config_def)
  have 7: "first_spouts 3 = PIN_NUMBERS_spouts"
    by (simp add: first_spouts_def PIN_NUMBERS_spouts_def)
  have 8: "length (first_spouts 3) = 2"
    by (simp add: first_spouts_def PIN_NUMBERS_spouts_def)
  have 9: "''spout_count'' \<notin> written" by (simp add: written_def)
  have 10: "''iti'' \<notin> written" by (simp add: written_def)
  have 11: "rpi ?s = None" "data ?s = Map.empty" by (simp_all add: Session_def)
  note t = run_merges_then_constructs [OF 1 2 3 4 5 6, of "Suc 0"]
  from t have t2: "rpi (begin_session bad_config ?s) = rpi ?s"
    and t3: "data (begin_session bad_config ?s) =
       (data ?s ++ bad_config)(''spont_reach_timepoints'' \<mapsto> PList [],
                               ''resets_timepoints'' \<mapsto> PList [PList [], PList []])"
    and t5: "rpi (rpi_init (PInt 3) (begin_session bad_config ?s)) = Some (backend (first_spouts 3))"
    and t8: "run (Suc 0) bad_config ?s =
       block (run_rest (Suc 0)) (rpi_init (PInt 3) (begin_session bad_config ?s))"
    and t9: "wired (PIN_NUMBERS_buttons, PIN_NUMBERS_paw_sensors, map pins (first_spouts 3))
       (run (Suc 0) bad_config ?s)"
    and t10: "Call Init \<in> set (trace (run (Suc 0) bad_config ?s))"
    and k: "\<forall>key. key \<notin> written \<longrightarrow>
      data (run (Suc 0) bad_config ?s) key = (data ?s ++ bad_config) key"
    by blast+
  from t2 11(1) have u2: "rpi (begin_session bad_config ?s) = None" by (simp only:)
  from t3 11(2) have u3: "data (begin_session bad_config ?s) =
       (Map.empty ++ bad_config)(''spont_reach_timepoints'' \<mapsto> PList [],
                                 ''resets_timepoints'' \<mapsto> PList [PList [], PList []])"
    by (simp only:)
  from t8 have u8: "bad_session =
       block (run_rest (Suc 0)) (rpi_init (PInt 3) (begin_session bad_config ?s))"
    by (simp only: bad_session_def)
  from t9 have u9: "wired (PIN_NUMBERS_buttons, PIN_NUMBERS_paw_sensors, map pins (first_spouts 3))
       bad_session"
    by (simp only: bad_session_def)
  from t10 have u10: "Call Init \<in> set (trace bad_session)" by (simp only: bad_session_def)
  from k 9 have "data (run (Suc 0) bad_config ?s) ''spout_count'' =
      (data ?s ++ bad_config) ''spout_count''" by blast
  with 4 have a: "data bad_session ''spout_count'' = Some (PInt 3)"
    by (simp add: bad_session_def map_add_def)
  from k 10 have "data (run (Suc 0) bad_config ?s) ''iti'' = (data ?s ++ bad_config) ''iti''"
    by blast
  with 3 have b: "data bad_session ''iti'' = Some (PList [PInt 500, PInt 100])"
    by (simp add: bad_session_def map_add_def)
  from 1 2 3 4 5 6 7 8 u2 u3 t5 u8 u9 u10 9 a 10 b show ?thesis
    apply (intro conjI)
    apply assumption+
    done
qed

lemma holds_callback:
  "cb \<noteq> RewardCallback \<Longrightarrow> cb \<noteq> IncorrectGraspCallback \<Longrightarrow>
   pres (holds v) (swallow (run_callback cb pin))"
  by (cases cb) (simp_all add: run_callback_def,
    (rule pres_intros | simp only: composite_defs
      | simp add: leaf_defs holds_def ungrasped_def split: option.splits status.splits)+)

lemma holds_edge_detected: "pres (holds v) (edge_detected pin x)"
proof (rule presI)
  fix s :: state
  assume s: "holds v s"
  show "holds v (edge_detected pin x s)"
  proof (cases "gpio_detect s pin")
    case None
    with s show ?thesis by (simp add: edge_detected_def)
  next
    case (Some ecb)
    obtain e cb where ecb: "ecb = (e, cb)" by (cases ecb)
    with s Some have "cb \<noteq> RewardCallback" "cb \<noteq> IncorrectGraspCallback"
      by (auto simp: holds_def ungrasped_def)
    then have "pres (holds v) (swallow (run_callback cb pin))" by (rule holds_callback)
    with s have "holds v (swallow (run_callback cb pin) s)" by (rule presD [rotated])
    with s Some ecb show ?thesis by (simp add: edge_detected_def)
  qed
qed

lemma holds_level: "pres (holds v) (\<lambda>s. s\<lparr>gpio_level := (gpio_level s)(pin := x)\<rparr>)"
  by (simp add: pres_def holds_def ungrasped_def)

lemma holds_dispatch: "pres (holds v) (dispatch ev)"
proof (rule presI)
  fix s :: state
  assume s: "holds v s"
  have c: "pres (holds v) cleanup"
    by (rule pres_intros | simp only: composite_defs
      | simp add: leaf_defs holds_def ungrasped_def split: option.splits status.splits)+
  have m: "pres (holds v) end_session_manually"
    by (rule pres_intros | simp only: composite_defs
      | simp add: leaf_defs holds_def ungrasped_def split: option.splits status.splits)+
  have k: "pres (holds v) (raise KeyboardInterrupt)"
    by (simp add: pres_def raise_def holds_def ungrasped_def)
  show "holds v (dispatch ev s)"
  proof (cases ev)
    case (Edge pin x)
    let ?s1 = "s\<lparr>gpio_level := (gpio_level s)(pin := x)\<rparr>"
    from s have "holds v ?s1" by (simp add: holds_def ungrasped_def)
    with holds_edge_detected have "holds v (edge_detected pin x ?s1)" by (rule presD)
    with s Edge show ?thesis by (simp add: dispatch_def)
  next
    case Sigint
    from c s have 1: "holds v (cleanup s)" by (rule presD)
    from m s have 2: "holds v (end_session_manually s)" by (rule presD)
    from k s have 3: "holds v (raise KeyboardInterrupt s)" by (rule presD)
    from 1 2 3 Sigint show ?thesis by (simp add: dispatch_def split: handler.splits)
  qed
qed

lemma holds_sleep: "pres (holds v) (sleep d)"
  by (rule holds_dispatch pres_intros | simp only: composite_defs
      | simp add: leaf_defs holds_def ungrasped_def split: option.splits status.splits)+

lemma holds_trial_wait: "pres (holds v) (trial_wait n)"
  by (rule holds_sleep pres_intros | simp only: composite_defs
      | simp add: leaf_defs holds_def ungrasped_def split: option.splits status.splits)+

lemma holds_reward_delay: "pres (holds v) reward_delay"
  by (rule holds_sleep pres_intros | simp only: composite_defs
      | simp add: leaf_defs holds_def ungrasped_def split: option.splits status.splits)+

lemma holds_trial_verdict: "pres (holds v) trial_verdict"
  unfolding trial_verdict_def
  by (rule holds_reward_delay pres_intros | simp only: composite_defs
      | simp add: leaf_defs holds_def ungrasped_def split: option.splits status.splits)+

lemma holds_before_trial: "pres (holds v) (block (before_trial fuel))"
  unfolding before_trial_def
  by (rule holds_sleep pres_intros | simp only: composite_defs
      | simp add: leaf_defs holds_def ungrasped_def split: option.splits status.splits)+

lemma holds_after_trial: "pres (holds v) (block after_trial)"
  unfolding after_trial_def
  by (rule pres_intros | simp only: composite_defs
      | simp add: leaf_defs holds_def ungrasped_def split: option.splits status.splits)+

lemma run_trial_resets:
  assumes "status s = Normal"
  shows "run_trial fuel s =
     block (run_trial_rest fuel) (s\<lparr>trial_count := trial_count s + 1, outcome := 0\<rparr>)"
  using assms by (simp add: run_trial_def run_trial_rest_def)

lemma run_trial_split:
  assumes "status s = Normal"
  shows "run_trial fuel s =
     block (trial fuel # after_trial)
       (block (before_trial fuel) (s\<lparr>trial_count := trial_count s + 1, outcome := 0\<rparr>))"
proof -
  have "run_trial_rest fuel = before_trial fuel @ trial fuel # after_trial"
    by (simp add: run_trial_rest_def before_trial_def after_trial_def)
  then show ?thesis
    using run_trial_resets [OF assms, of fuel] by (simp only: block_append)
qed

lemma pending_at_trial:
  assumes "ungrasped s"
  shows "holds 0 (block (before_trial fuel) (s\<lparr>trial_count := trial_count s + 1, outcome := 0\<rparr>))"
proof -
  from assms have "holds 0 (s\<lparr>trial_count := trial_count s + 1, outcome := 0\<rparr>)"
    by (simp add: holds_def ungrasped_def)
  with holds_before_trial show ?thesis by (rule presD)
qed

lemma touch_touch: "map touch (xs[j := (xs ! j)\<lparr>touch_timepoints := v\<rparr>]) = map touch xs"
  using map_update_same [of touch "\<lambda>sp. sp\<lparr>touch_timepoints := v\<rparr>" xs j] by simp

lemma touch_cue: "map touch (xs[j := (xs ! j)\<lparr>cue_timepoints := v\<rparr>]) = map touch xs"
  using map_update_same [of touch "\<lambda>sp. sp\<lparr>cue_timepoints := v\<rparr>" xs j] by simp

lemma ungrasped_tidy: "ungrasped s \<Longrightarrow> tidy s"
  by (auto simp: ungrasped_def tidy_def)

lemma tidy_arm:
  "pres tidy (with_rpi (\<lambda>r. py_index (spouts r) c (\<lambda>i.
     gpio_add_event_detect (touch (spouts r ! i)) e cb)))"
  by (auto simp: pres_def tidy_def with_rpi_def py_index_def gpio_add_event_detect_def raise_def
      split: option.splits)

lemma tidy_arm_other:
  "pres tidy (with_rpi (\<lambda>r. if length (spouts r) > 1
     then py_index (spouts r) c (\<lambda>i. gpio_add_event_detect (touch (spouts r ! i)) e cb)
     else skip))"
  by (auto simp: pres_def tidy_def with_rpi_def py_index_def gpio_add_event_detect_def raise_def
      skip_def split: option.splits)

lemma tidy_sleep: "pres tidy (sleep d)"
  by (rule pres_intros | simp only: composite_defs
      | simp add: leaf_defs tidy_def touch_touch touch_cue split: option.splits status.splits)+

lemma tidy_opening: "pres tidy (block (trial_opening fuel))"
  unfolding trial_opening_def
  by (rule tidy_arm tidy_arm_other tidy_sleep pres_intros | simp only: composite_defs
      | simp add: leaf_defs tidy_def touch_touch touch_cue split: option.splits status.splits)+

lemma remove_detect_all:
  "status (block (map (\<lambda>x. gpio_remove_event_detect (g x)) xs) s) = Normal \<Longrightarrow>
   (\<forall>x \<in> set xs. gpio_detect (block (map (\<lambda>x. gpio_remove_event_detect (g x)) xs) s) (g x) = None) \<and>
   cleared s (block (map (\<lambda>x. gpio_remove_event_detect (g x)) xs) s)"
proof (induction xs arbitrary: s)
  case Nil
  show ?case by (simp add: cleared_def)
next
  case (Cons x xs)
  let ?fs = "map (\<lambda>x. gpio_remove_event_detect (g x)) xs"
  let ?s1 = "gpio_remove_event_detect (g x) s"
  from Cons.prems have n0: "status s = Normal"
    by (cases "status s = Normal") simp_all
  then have e: "block (map (\<lambda>x. gpio_remove_event_detect (g x)) (x # xs)) s = block ?fs ?s1"
    by simp
  with Cons.prems have n: "status (block ?fs ?s1) = Normal" by (simp only:)
  then have n1: "status ?s1 = Normal" by (rule block_Normal)
  have ok: "gpio_mode s"
    using n1 by (cases "gpio_mode s") (simp_all add: gpio_remove_event_detect_def raise_def)
  then have s1: "?s1 = s\<lparr>gpio_detect := (gpio_detect s)(g x := None)\<rparr>"
    by (simp add: gpio_remove_event_detect_def)
  from Cons.IH [OF n] have
    ih1: "\<forall>y \<in> set xs. gpio_detect (block ?fs ?s1) (g y) = None"
    and ih2: "cleared ?s1 (block ?fs ?s1)"
    by simp_all
  from ih2 s1 have x: "gpio_detect (block ?fs ?s1) (g x) = None"
    by (auto simp: cleared_def)
  have a: "cleared s (block ?fs ?s1)"
    unfolding cleared_def
  proof (intro conjI allI)
    fix q
    from ih2 have "gpio_detect (block ?fs ?s1) q = None \<or>
        gpio_detect (block ?fs ?s1) q = gpio_detect ?s1 q" by (simp add: cleared_def)
    with s1 show "gpio_detect (block ?fs ?s1) q = None \<or>
        gpio_detect (block ?fs ?s1) q = gpio_detect s q"
      by (cases "q = g x") auto
  next
    from ih2 s1 show "rpi (block ?fs ?s1) = rpi s" by (simp add: cleared_def)
  qed
  from x a ih1 show ?case by (simp only: e) simp
qed

lemma ungrasped_cue_off:
  "pres ungrasped (block [with_rpi (\<lambda>r. foreach (spouts r) (\<lambda>spout. gpio_output (cue spout) False))])"
  by (rule pres_intros
      | simp add: leaf_defs ungrasped_def split: option.splits status.splits)+

lemma end_trial_ungrasped:
  assumes "tidy s" and "status s = Normal" and "status (end_trial s) = Normal"
  shows "ungrasped (end_trial s)"
proof -
  let ?c = "with_rpi (\<lambda>r. foreach (spouts r) (\<lambda>spout. gpio_output (cue spout) False))"
  let ?s0 = "emit (Call DisableSensors) (emit (Call EndTrial) s)"
  let ?a = "with_rpi (\<lambda>r. foreach (paw_pins r) gpio_remove_event_detect)"
  let ?b = "with_rpi (\<lambda>r. foreach (spouts r) (\<lambda>spout. gpio_remove_event_detect (touch spout)))"
  have e: "end_trial s = block [?c] (block [?a, ?b] ?s0)"
    using assms(2) by (simp add: end_trial_def disable_sensors_def emit_def)
  with assms(3) have nab: "status (block [?a, ?b] ?s0) = Normal" by (metis block_Normal)
  have t0: "tidy ?s0" "status ?s0 = Normal" "rpi ?s0 = rpi s" "gpio_detect ?s0 = gpio_detect s"
    using assms(1,2) by (simp_all add: tidy_def emit_def)
  obtain r where r: "rpi s = Some r"
    using nab t0 by (cases "rpi s") (simp_all add: with_rpi_def raise_def)
  let ?A = "map (\<lambda>x. gpio_remove_event_detect (id x)) (paw_pins r)"
  let ?B = "map (\<lambda>x. gpio_remove_event_detect (touch x)) (spouts r)"
  let ?sa = "block ?A ?s0"
  let ?sb = "block ?B ?sa"
  have ab: "block [?a, ?b] ?s0 = block [?b] ?sa"
    using t0 r by (simp add: with_rpi_def foreach_def)
  with nab have na: "status ?sa = Normal" by (metis block_Normal)
  from remove_detect_all [of id "paw_pins r" ?s0, OF na] have ca: "cleared ?s0 ?sa" by simp
  with t0 r have ra: "rpi ?sa = Some r" by (simp add: cleared_def)
  from ab na ra have ab2: "block [?a, ?b] ?s0 = ?sb"
    by (simp add: with_rpi_def foreach_def)
  with nab have nb: "status ?sb = Normal" by (simp only:)
  from remove_detect_all [of touch "spouts r" ?sa, OF nb] have
    tb: "\<forall>x \<in> set (spouts r). gpio_detect ?sb (touch x) = None" and cb: "cleared ?sa ?sb"
    by simp_all
  have "ungrasped ?sb"
    unfolding ungrasped_def
  proof (intro allI)
    fix p e
    have "gpio_detect ?sb p \<noteq> Some (e, cb')" if g: "cb' = RewardCallback \<or> cb' = IncorrectGraspCallback" for cb'
    proof
      assume h: "gpio_detect ?sb p = Some (e, cb')"
      from cb have "gpio_detect ?sb p = None \<or> gpio_detect ?sb p = gpio_detect ?sa p"
        by (simp add: cleared_def)
      with h have ha: "gpio_detect ?sa p = Some (e, cb')" by auto
      from ca have "gpio_detect ?sa p = None \<or> gpio_detect ?sa p = gpio_detect ?s0 p"
        by (simp add: cleared_def)
      with ha have "gpio_detect ?s0 p = Some (e, cb')" by auto
      with t0 have "gpio_detect s p = Some (e, cb')" by simp
      with assms(1) g r have "p \<in> set (map touch (spouts r))" by (auto simp: tidy_def)
      with tb have "gpio_detect ?sb p = None" by auto
      with h show False by simp
    qed
    then show "gpio_detect ?sb p \<noteq> Some (e, RewardCallback) \<and>
        gpio_detect ?sb p \<noteq> Some (e, IncorrectGraspCallback)" by blast
  qed
  with ungrasped_cue_off have "ungrasped (block [?c] ?sb)" by (rule presD)
  with e ab2 show ?thesis by (simp only:)
qed

lemma ungrasped_holds: "ungrasped s \<Longrightarrow> holds (outcome s) s"
  by (simp add: holds_def)

lemma trial_ungrasped:
  assumes "ungrasped s" and "status (trial fuel s) = Normal"
  shows "ungrasped (trial fuel s)"
proof -
  let ?s1 = "block (trial_opening fuel) s"
  let ?s2 = "end_trial ?s1"
  note split = trial_split [of fuel s]
  have n1: "status ?s1 = Normal"
    using assms(2) split by (cases "status ?s1 = Normal") (simp_all add: block_not_Normal)
  have n2: "status ?s2 = Normal"
    using assms(2) split n1 by (cases "status ?s2 = Normal") simp_all
  have fin: "trial fuel s = trial_verdict ?s2"
    using split n1 n2 by simp
  from assms(1) have "tidy s" by (rule ungrasped_tidy)
  with tidy_opening have "tidy ?s1" by (rule presD)
  then have "ungrasped ?s2" using n1 n2 by (rule end_trial_ungrasped)
  then have "holds (outcome ?s2) ?s2" by (rule ungrasped_holds)
  with holds_trial_verdict have "holds (outcome ?s2) (trial_verdict ?s2)" by (rule presD)
  with fin show ?thesis by (simp add: holds_def)
qed

lemma run_trial_ungrasped:
  assumes "ungrasped s" and "status s = Normal" and "status (run_trial fuel s) = Normal"
  shows "ungrasped (run_trial fuel s)"
proof -
  let ?s0 = "s\<lparr>trial_count := trial_count s + 1, outcome := 0\<rparr>"
  let ?s1 = "block (before_trial fuel) ?s0"
  note split = run_trial_split [OF assms(2), of fuel]
  from pending_at_trial [OF assms(1), of fuel] have u1: "ungrasped ?s1" by (simp add: holds_def)
  have n1: "status ?s1 = Normal"
    using assms(3) split by (cases "status ?s1 = Normal") (simp_all add: block_not_Normal)
  then have e: "run_trial fuel s = block after_trial (trial fuel ?s1)"
    using split by simp
  have n2: "status (trial fuel ?s1) = Normal"
    using assms(3) e by (cases "status (trial fuel ?s1) = Normal") (simp_all add: block_not_Normal)
  from u1 n2 have "ungrasped (trial fuel ?s1)" by (rule trial_ungrasped)
  then have "holds (outcome (trial fuel ?s1)) (trial fuel ?s1)" by (rule ungrasped_holds)
  with holds_after_trial have "holds (outcome (trial fuel ?s1)) (block after_trial (trial fuel ?s1))"
    by (rule presD)
  with e show ?thesis by (simp add: holds_def)
qed

lemma ungrasped_run_prefix: "pres ungrasped (block (run_prefix config))"
  unfolding run_prefix_def begin_session_def
  by (rule pres_intros | simp only: composite_defs
      | simp add: leaf_defs ungrasped_def split: option.splits status.splits)+

lemma run_split_loop:
  "run fuel config s =
     block [run_loop fuel fuel, end_session False] (block (run_prefix config) s)"
  unfolding run_def run_prefix_def
  by (simp only: block_append [symmetric] append.simps)

lemma run_loop_pass:
  assumes "status s = Normal" and "data s ''end_time'' = Some v" and "num_of v = Some e"
    and "run_now s < e"
  shows "run_loop fuel (Suc n) s = block [run_loop fuel n] (run_trial fuel s)"
  using assms by (simp add: lookup_def as_num_def cond_def)

text \<open>
  C2, as amended.  The outcome is not assigned once.  Whatever it holds, an invocation
  of the reward callback whose bookkeeping (\<open>successful_grasp\<close>) succeeds sets it to 1
  and an invocation of the incorrect callback whose bookkeeping succeeds sets it to
  2, so the last callback to run decides; \<open>end_trial\<close> assigns nothing.  Every trial
  starts at 0: \<open>run\<close> is its first statements followed by the loop, every pass of the
  loop is \<open>run_trial\<close>, and \<open>run_trial\<close> sets the outcome to 0 before anything else;
  while no pin carries a grasp callback the outcome stays 0 up to the start of the
  trial, and neither the poll loop that waits for the deadline nor the branch on the
  outcome changes it.  No pin carries a grasp callback when the loop is entered, nor
  after a trial or a pass that returns.
\<close>

theorem outcome_is_not_latched:
  "(status s = Normal \<longrightarrow> status (with_current_spout successful_grasp s) = Normal \<longrightarrow>
      outcome (reward_callback pin s) = 1) \<and>
   (status s = Normal \<longrightarrow> status (with_current_spout incorrect_grasp s) = Normal \<longrightarrow>
      outcome (incorrect_grasp_callback pin s) = 2) \<and>
   outcome (end_trial s) = outcome s \<and>
   run fuel config s =
     block [run_loop fuel fuel, end_session False] (block (run_prefix config) s) \<and>
   ungrasped (block (run_prefix config) (Session d clk rnd evs)) \<and>
   (status s = Normal \<longrightarrow> data s ''end_time'' = Some v \<longrightarrow> num_of v = Some e \<longrightarrow>
    run_now s < e \<longrightarrow>
      run_loop fuel (Suc n) s = block [run_loop fuel n] (run_trial fuel s)) \<and>
   (status s = Normal \<longrightarrow>
      run_trial fuel s =
        block (trial fuel # after_trial)
          (block (before_trial fuel) (s\<lparr>trial_count := trial_count s + 1, outcome := 0\<rparr>))) \<and>
   (ungrasped s \<longrightarrow>
      outcome (block (before_trial fuel) (s\<lparr>trial_count := trial_count s + 1, outcome := 0\<rparr>)) = 0 \<and>
      ungrasped (block (before_trial fuel) (s\<lparr>trial_count := trial_count s + 1, outcome := 0\<rparr>))) \<and>
   (ungrasped s \<longrightarrow> outcome (trial_wait n s) = outcome s) \<and>
   (ungrasped s \<longrightarrow> outcome (trial_verdict s) = outcome s) \<and>
   (ungrasped s \<longrightarrow> status (trial fuel s) = Normal \<longrightarrow> ungrasped (trial fuel s)) \<and>
   (ungrasped s \<longrightarrow> status s = Normal \<longrightarrow> status (run_trial fuel s) = Normal \<longrightarrow>
      ungrasped (run_trial fuel s))"
proof (intro conjI impI)
  assume "status s = Normal" and "status (with_current_spout successful_grasp s) = Normal"
  with callbacks_assign [of s pin] show "outcome (reward_callback pin s) = 1" by blast
next
  assume "status s = Normal" and "status (with_current_spout incorrect_grasp s) = Normal"
  with callbacks_assign [of s pin] show "outcome (incorrect_grasp_callback pin s) = 2"
    by blast
next
  from callbacks_assign [of s pin] show "outcome (end_trial s) = outcome s" by blast
next
  show "run fuel config s =
     block [run_loop fuel fuel, end_session False] (block (run_prefix config) s)"
    by (rule run_split_loop)
next
  have "ungrasped (Session d clk rnd evs)" by (simp add: ungrasped_def Session_def)
  with ungrasped_run_prefix show "ungrasped (block (run_prefix config) (Session d clk rnd evs))"
    by (rule presD)
next
  assume "status s = Normal" and "data s ''end_time'' = Some v" and "num_of v = Some e"
    and "run_now s < e"
  then show "run_loop fuel (Suc n) s = block [run_loop fuel n] (run_trial fuel s)"
    by (rule run_loop_pass)
next
  assume "status s = Normal"
  then show "run_trial fuel s =
        block (trial fuel # after_trial)
          (block (before_trial fuel) (s\<lparr>trial_count := trial_count s + 1, outcome := 0\<rparr>))"
    by (rule run_trial_split)
next
  assume "ungrasped s"
  from pending_at_trial [OF this, of fuel]
  show "outcome (block (before_trial fuel) (s\<lparr>trial_count := trial_count s + 1, outcome := 0\<rparr>)) = 0"
    by (simp add: holds_def)
next
  assume "ungrasped s"
  from pending_at_trial [OF this, of fuel]
  show "ungrasped (block (before_trial fuel) (s\<lparr>trial_count := trial_count s + 1, outcome := 0\<rparr>))"
    by (simp add: holds_def)
next
  assume "ungrasped s"
  then have "holds (outcome s) s" by (rule ungrasped_holds)
  with holds_trial_wait have "holds (outcome s) (trial_wait n s)" by (rule presD)
  then show "outcome (trial_wait n s) = outcome s" by (simp add: holds_def)
next
  assume "ungrasped s"
  then have "holds (outcome s) s" by (rule ungrasped_holds)
  with holds_trial_verdict have "holds (outcome s) (trial_verdict s)" by (rule presD)
  then show "outcome (trial_verdict s) = outcome s" by (simp add: holds_def)
next
  assume "ungrasped s" and "status (trial fuel s) = Normal"
  then show "ungrasped (trial fuel s)" by (rule trial_ungrasped)
next
  assume "ungrasped s" and "status s = Normal" and "status (run_trial fuel s) = Normal"
  then show "ungrasped (run_trial fuel s)" by (rule run_trial_ungrasped)
qed

theorem outcome_is_not_latched_witness:
  "status (dispatch (Edge 23 True) open_trial) = Normal \<and>
   status (with_current_spout successful_grasp (dispatch (Edge 23 True) open_trial)) = Normal \<and>
   outcome (dispatch (Edge 23 True) open_trial) = 2 \<and>
   outcome (reward_callback 27 (dispatch (Edge 23 True) open_trial)) = 1 \<and>
   status open_trial = Normal \<and>
   status (with_current_spout incorrect_grasp open_trial) = Normal \<and>
   outcome (incorrect_grasp_callback 23 open_trial) = 2 \<and>
   status pass_ready = Normal \<and> outcome pass_ready = 2 \<and> ungrasped pass_ready \<and>
   data pass_ready ''end_time'' = Some (PFloat 100) \<and> num_of (PFloat 100) = Some 100 \<and>
   run_now pass_ready < 100 \<and>
   run_loop (Suc (Suc 0)) (Suc 0) pass_ready =
     block [run_loop (Suc (Suc 0)) 0] (run_trial (Suc (Suc 0)) pass_ready) \<and>
   run_trial (Suc (Suc 0)) pass_ready =
     block (trial (Suc (Suc 0)) # after_trial)
       (block (before_trial (Suc (Suc 0)))
          (pass_ready\<lparr>trial_count := trial_count pass_ready + 1, outcome := 0\<rparr>)) \<and>
   outcome (block (before_trial (Suc (Suc 0)))
          (pass_ready\<lparr>trial_count := trial_count pass_ready + 1, outcome := 0\<rparr>)) = 0 \<and>
   ungrasped (block (before_trial (Suc (Suc 0)))
          (pass_ready\<lparr>trial_count := trial_count pass_ready + 1, outcome := 0\<rparr>)) \<and>
   outcome (trial_wait (Suc 0) pass_ready) = outcome pass_ready \<and>
   outcome (trial_verdict pass_ready) = outcome pass_ready \<and>
   ungrasped cued \<and> status (trial (Suc 0) cued) = Normal \<and> outcome (trial (Suc 0) cued) = 1 \<and>
   ungrasped (trial (Suc 0) cued) \<and>
   status (run_trial (Suc (Suc 0)) pass_ready) = Normal \<and>
   outcome (run_trial (Suc (Suc 0)) pass_ready) = 1 \<and>
   ungrasped (run_trial (Suc (Suc 0)) pass_ready)"
proof -
  let ?f = "Suc (Suc 0)"
  have 1: "status (dispatch (Edge 23 True) open_trial) = Normal"
    by (simp add: open_trial_def prim_defs gpio_defs rpi_defs ses_defs)
  have 2: "status (with_current_spout successful_grasp (dispatch (Edge 23 True) open_trial)) = Normal"
    by (simp add: open_trial_def prim_defs gpio_defs rpi_defs ses_defs)
  have 3: "status open_trial = Normal"
    by (simp add: open_trial_def prim_defs gpio_defs rpi_defs ses_defs)
  have 4: "status (with_current_spout incorrect_grasp open_trial) = Normal"
    by (simp add: open_trial_def prim_defs gpio_defs rpi_defs ses_defs)
  have 5: "outcome (dispatch (Edge 23 True) open_trial) = 2"
    by (simp add: open_trial_def prim_defs gpio_defs rpi_defs ses_defs)
  have 6: "status pass_ready = Normal"
    by (simp add: pass_ready_def prim_defs gpio_defs rpi_defs ses_defs)
  have 7: "outcome pass_ready = 2"
    by (simp add: pass_ready_def prim_defs gpio_defs rpi_defs ses_defs)
  have 8: "ungrasped pass_ready"
    by (simp add: ungrasped_def pass_ready_def prim_defs gpio_defs rpi_defs ses_defs)
  have 9: "data pass_ready ''end_time'' = Some (PFloat 100)"
    by (simp add: pass_ready_def prim_defs gpio_defs rpi_defs ses_defs)
  have 10: "num_of (PFloat 100) = Some 100" by simp
  have 11: "run_now pass_ready < 100"
    by (simp add: pass_ready_def prim_defs gpio_defs rpi_defs ses_defs)
  have 12: "ungrasped cued"
    by (simp add: ungrasped_def cued_def prim_defs gpio_defs rpi_defs ses_defs)
  have 13: "status (trial (Suc 0) cued) = Normal"
    by (simp add: cued_def prim_defs gpio_defs rpi_defs ses_defs)
  have 14: "outcome (trial (Suc 0) cued) = 1"
    by (simp add: cued_def prim_defs gpio_defs rpi_defs ses_defs)
  have 15: "status (run_trial ?f pass_ready) = Normal"
    by (simp add: pass_ready_def prim_defs gpio_defs rpi_defs ses_defs)
  have 16: "outcome (run_trial ?f pass_ready) = 1"
    by (simp add: pass_ready_def prim_defs gpio_defs rpi_defs ses_defs)
  note a = outcome_is_not_latched [where s = "dispatch (Edge 23 True) open_trial" and pin = 27]
  note b = outcome_is_not_latched [where s = open_trial and pin = 23]
  note c = outcome_is_not_latched [where s = pass_ready and fuel = ?f and n = 0
      and v = "PFloat 100" and e = 100]
  note c' = outcome_is_not_latched [where s = pass_ready and n = "Suc 0"]
  note d = outcome_is_not_latched [where s = cued and fuel = "Suc 0"]
  note a1 = a [THEN conjunct1, rule_format, OF 1 2]
  note b2 = b [THEN conjunct2, THEN conjunct1, rule_format, OF 3 4]
  note c6 = c [THEN conjunct2, THEN conjunct2, THEN conjunct2, THEN conjunct2, THEN conjunct2, THEN conjunct1, rule_format, OF 6 9 10 11]
  note c7 = c [THEN conjunct2, THEN conjunct2, THEN conjunct2, THEN conjunct2, THEN conjunct2, THEN conjunct2, THEN conjunct1, rule_format, OF 6]
  note c8 = c [THEN conjunct2, THEN conjunct2, THEN conjunct2, THEN conjunct2, THEN conjunct2, THEN conjunct2, THEN conjunct2, THEN conjunct1, rule_format, OF 8]
  note c9 = c' [THEN conjunct2, THEN conjunct2, THEN conjunct2, THEN conjunct2, THEN conjunct2, THEN conjunct2, THEN conjunct2, THEN conjunct2, THEN conjunct1, rule_format, OF 8]
  note c10 = c [THEN conjunct2, THEN conjunct2, THEN conjunct2, THEN conjunct2, THEN conjunct2, THEN conjunct2, THEN conjunct2, THEN conjunct2, THEN conjunct2, THEN conjunct1, rule_format, OF 8]
  note d11 = d [THEN conjunct2, THEN conjunct2, THEN conjunct2, THEN conjunct2, THEN conjunct2, THEN conjunct2, THEN conjunct2, THEN conjunct2, THEN conjunct2, THEN conjunct2, THEN conjunct1, rule_format, OF 12 13]
  note c12 = c [THEN conjunct2, THEN conjunct2, THEN conjunct2, THEN conjunct2, THEN conjunct2, THEN conjunct2, THEN conjunct2, THEN conjunct2, THEN conjunct2, THEN conjunct2, THEN conjunct2, rule_format, OF 8 6 15]
  from 1 2 5 a1 3 4 b2 6 7 8 9 10 11 c6 c7 c8 [THEN conjunct1] c8 [THEN conjunct2] c9 c10
    12 13 14 d11 15 16 c12
  show ?thesis
    apply (intro conjI)
    apply assumption+
    done
qed






















end
